theory Spec2Isabelle
  imports Main
begin

section \<open>JavaScript values\<close>

text \<open>
  The values that flow through \<^verbatim>\<open>src/http-client.js\<close>: request parameters, JSON
  response bodies and the pieces of error objects. Strings are byte lists holding the
  UTF-8 form of a well-formed JavaScript string. Numbers are the integers of magnitude up
  to \<open>2^53\<close>, each of which a double holds exactly and prints with all its decimal
  digits, and \<open>NaN\<close>; fractional numbers, larger numbers and the infinities are outside
  the model. Arrays and objects nested inside a value are data: none of their properties
  is a function. The objects a caller hands in by reference live in the heap of the
  section on effects.
\<close>

datatype jsval =
    JUndefined
  | JNull
  | JBool bool
  | JNum int
  | JNaN
  | JStr string
  | JArr "jsval list"
  | JObj "(string \<times> jsval) list"

text \<open>
  An object is the list of its own enumerable string-keyed properties in the order
  \<^verbatim>\<open>Object.keys\<close> reports them: array-index keys first, ascending, then the other
  keys in insertion order. Property reads look at own properties only (the names read by
  the client, such as \<^verbatim>\<open>msg\<close>, \<^verbatim>\<open>code\<close>, \<^verbatim>\<open>type\<close> or \<^verbatim>\<open>useServerTime\<close>, are not members of
  \<^verbatim>\<open>Object.prototype\<close>).
\<close>

type_synonym obj = "(string \<times> jsval) list"

text \<open>\<^verbatim>\<open>!!v\<close>: ToBoolean.\<close>

fun truthy :: "jsval \<Rightarrow> bool" where
  "truthy JUndefined = False"
| "truthy JNull = False"
| "truthy (JBool b) = b"
| "truthy (JNum n) = (n \<noteq> 0)"
| "truthy JNaN = False"
| "truthy (JStr s) = (s \<noteq> [])"
| "truthy (JArr xs) = True"
| "truthy (JObj ps) = True"

subsection \<open>Strings\<close>

definition digit_char :: "nat \<Rightarrow> char" where
  "digit_char d = ''0123456789ABCDEF'' ! d"

fun digits :: "nat \<Rightarrow> string" where
  "digits n = (if n < 10 then [digit_char n] else digits (n div 10) @ [digit_char (n mod 10)])"

declare digits.simps [simp del]

text \<open>Number to string, for an integer: decimal digits, a minus sign when negative.\<close>

definition int_to_string :: "int \<Rightarrow> string" where
  "int_to_string n = (if n < 0 then CHR ''-'' # digits (nat (- n)) else digits (nat n))"

text \<open>\<^verbatim>\<open>Array.prototype.join(sep)\<close> on strings.\<close>

fun join :: "string \<Rightarrow> string list \<Rightarrow> string" where
  "join sep [] = []"
| "join sep [x] = x"
| "join sep (x # y # ys) = x @ sep @ join sep (y # ys)"

text \<open>
  ToString, as a template literal, \<^verbatim>\<open>encodeURIComponent\<close> and \<^verbatim>\<open>new Error\<close> apply it;
  \<open>None\<close> when it throws a TypeError. A primitive always has a string form. An object
  is converted by the first of its methods \<^verbatim>\<open>toString\<close> and \<^verbatim>\<open>valueOf\<close> that is callable
  and returns a primitive. A plain object inherits \<^verbatim>\<open>Object.prototype.toString\<close> and
  renders as \<^verbatim>\<open>[object Object]\<close>; one with an own property \<^verbatim>\<open>toString\<close> has data in its
  place, which is not callable, and its \<^verbatim>\<open>valueOf\<close> (own data, or the inherited one, which
  returns the object itself) gives no primitive either, so the conversion throws. An
  array joins the string forms of its elements with commas, \<open>null\<close> and \<open>undefined\<close>
  elements rendering as the empty string, and throws when an element does.
\<close>

fun ToString :: "jsval \<Rightarrow> string option" where
  "ToString JUndefined = Some ''undefined''"
| "ToString JNull = Some ''null''"
| "ToString (JBool b) = Some (if b then ''true'' else ''false'')"
| "ToString (JNum n) = Some (int_to_string n)"
| "ToString JNaN = Some ''NaN''"
| "ToString (JStr s) = Some s"
| "ToString (JArr xs) =
     map_option (join '','')
       (those (map (\<lambda>x. if x = JNull \<or> x = JUndefined then Some [] else ToString x) xs))"
| "ToString (JObj ps) =
     (if ''toString'' \<in> set (map fst ps) then None else Some ''[object Object]'')"

text \<open>
  \<^verbatim>\<open>encodeURIComponent\<close> on a string: every byte of the UTF-8 form is escaped as \<^verbatim>\<open>%XX\<close>
  (upper-case hexadecimal) except the unreserved characters: letters, digits and
  \<^verbatim>\<open>- _ . ! ~ * ' ( )\<close>.
\<close>

definition uri_unreserved :: "char \<Rightarrow> bool" where
  "uri_unreserved c =
     (c \<in> set (''ABCDEFGHIJKLMNOPQRSTUVWXYZabcdefghijklmnopqrstuvwxyz0123456789-_.!~*()''
                @ [CHR 0x27]))"

definition encode_char :: "char \<Rightarrow> string" where
  "encode_char c =
     (if uri_unreserved c then [c]
      else [CHR ''%'', digit_char (of_char c div 16), digit_char (of_char c mod 16)])"

definition encodeURIComponent :: "string \<Rightarrow> string" where
  "encodeURIComponent s = concat (map encode_char s)"

subsection \<open>Objects\<close>

definition keys :: "obj \<Rightarrow> string list" where
  "keys q = map fst q"

text \<open>\<^verbatim>\<open>q[k]\<close> on an object: the own property, else \<open>undefined\<close>.\<close>

definition get :: "obj \<Rightarrow> string \<Rightarrow> jsval" where
  "get q k = (case map_of q k of Some v \<Rightarrow> v | None \<Rightarrow> JUndefined)"

text \<open>
  An array index is the canonical decimal form of an integer below \<open>2^32 - 1\<close>; such keys
  are enumerated before all others, in ascending numeric order.
\<close>

definition decimal_value :: "string \<Rightarrow> nat" where
  "decimal_value s = foldl (\<lambda>n c. 10 * n + (of_char c - 48)) 0 s"

definition is_array_index :: "string \<Rightarrow> bool" where
  "is_array_index k =
     (k \<noteq> [] \<and> list_all (\<lambda>c. c \<in> set ''0123456789'') k
      \<and> (k = ''0'' \<or> hd k \<noteq> CHR ''0'') \<and> decimal_value k < 2 ^ 32 - 1)"

fun insert_index :: "string \<Rightarrow> jsval \<Rightarrow> obj \<Rightarrow> obj" where
  "insert_index k v [] = [(k, v)]"
| "insert_index k v ((k', v') # ps) =
     (if is_array_index k' \<and> decimal_value k' < decimal_value k
      then (k', v') # insert_index k v ps
      else (k, v) # (k', v') # ps)"

text \<open>
  Defining or assigning a property (\<^verbatim>\<open>q[k] = v\<close>, a key of an object literal): an existing
  key keeps its place and takes the new value; a new key is enumerated after the others,
  or among the array indices when it is one.
\<close>

fun replace_value :: "string \<Rightarrow> jsval \<Rightarrow> obj \<Rightarrow> obj" where
  "replace_value k v [] = []"
| "replace_value k v ((k', v') # ps) =
     (if k' = k then (k', v) else (k', v')) # replace_value k v ps"

definition obj_set :: "obj \<Rightarrow> string \<Rightarrow> jsval \<Rightarrow> obj" where
  "obj_set q k v =
     (if k \<in> set (keys q) then replace_value k v q
      else if is_array_index k then insert_index k v q
      else q @ [(k, v)])"

text \<open>\<^verbatim>\<open>delete q[k]\<close>.\<close>

definition obj_delete :: "obj \<Rightarrow> string \<Rightarrow> obj" where
  "obj_delete q k = filter (\<lambda>p. fst p \<noteq> k) q"

text \<open>
  \<^verbatim>\<open>{ <target's properties>, ...src }\<close>: the own properties of \<open>src\<close> are defined on the
  object under construction one by one, in enumeration order. Spreading \<open>null\<close> or
  \<open>undefined\<close> adds nothing.
\<close>

fun define_all :: "obj \<Rightarrow> obj \<Rightarrow> obj" where
  "define_all target [] = target"
| "define_all target ((k, v) # ps) = define_all (obj_set target k v) ps"

definition spread_into :: "obj \<Rightarrow> obj option \<Rightarrow> obj" where
  "spread_into target src = (case src of None \<Rightarrow> target | Some ps \<Rightarrow> define_all target ps)"

section \<open>Errors\<close>

record response =
  ok :: bool
  status :: int
  statusText :: string
  body :: string

text \<open>
  An \<^verbatim>\<open>Error\<close> object is its message and the properties the client attaches to it:
  \<open>code\<close> is \<open>Some v\<close> once \<^verbatim>\<open>error.code = v\<close> ran (also with \<open>v\<close> undefined),
  \<open>response\<close> and \<open>responseText\<close> likewise. \<open>TypeError\<close> and \<open>SyntaxError\<close> are the
  runtime's own exceptions (a property read on \<open>null\<close>, a value without a string form,
  a failed \<^verbatim>\<open>JSON.parse\<close>), \<open>FetchError\<close> a rejection of the transport.
\<close>

datatype js_error =
    Error (message: string) (code: "jsval option") (response: "response option")
      (responseText: "string option")
  | TypeError
  | SyntaxError
  | FetchError string

text \<open>\<^verbatim>\<open>new Error(msg)\<close> on a string, with nothing attached.\<close>

definition new_Error :: "string \<Rightarrow> js_error" where
  "new_Error msg = Error msg None None None"

section \<open>The query encoder\<close>

text \<open>
  \<^verbatim>\<open>makeQueryString = q => q ? `?${Object.keys(q).filter(k => !!q[k])
      .map(k => `${encodeURIComponent(k)}=${encodeURIComponent(q[k])}`).join('&')}` : ''\<close>

  The argument is \<open>null\<close> or \<open>undefined\<close> (\<open>None\<close>, falsy) or an object (always truthy,
  also when it has no property). \<^verbatim>\<open>encodeURIComponent(q[k])\<close> converts the value to a
  string first; when that throws for one of the keys that passed the filter, the encoder
  throws (\<open>Inl\<close>).
\<close>

definition makeQueryString :: "obj option \<Rightarrow> js_error + string" where
  "makeQueryString q =
     (case q of
        None \<Rightarrow> Inr []
      | Some ps \<Rightarrow>
          (case those
                  (map (\<lambda>k. map_option
                               (\<lambda>s. encodeURIComponent k @ ''='' @ encodeURIComponent s)
                               (ToString (get ps k)))
                     (filter (\<lambda>k. truthy (get ps k)) (keys ps))) of
             None \<Rightarrow> Inl TypeError
           | Some pairs \<Rightarrow> Inr (''?'' @ join ''&'' pairs)))"

section \<open>The parameter validator\<close>

text \<open>
  \<^verbatim>\<open>!payload[r] && isNaN(payload[r])\<close>. The right operand of \<^verbatim>\<open>&&\<close> is evaluated on a
  falsy value only, and the falsy values are \<open>undefined\<close>, \<open>null\<close>, \<open>false\<close>, \<open>0\<close>,
  \<open>NaN\<close> and the empty string. \<^verbatim>\<open>isNaN\<close> applies ToNumber, which gives \<open>NaN\<close> for
  \<open>undefined\<close> and \<open>NaN\<close>, and \<open>0\<close> for \<open>null\<close>, \<open>false\<close>, \<open>0\<close> and the empty string.
\<close>

datatype falsy = FUndefined | FNull | FFalse | FZero | FNaN | FEmptyString

fun falsy_of :: "jsval \<Rightarrow> falsy option" where
  "falsy_of JUndefined = Some FUndefined"
| "falsy_of JNull = Some FNull"
| "falsy_of (JBool b) = (if b then None else Some FFalse)"
| "falsy_of (JNum n) = (if n = 0 then Some FZero else None)"
| "falsy_of JNaN = Some FNaN"
| "falsy_of (JStr s) = (if s = [] then Some FEmptyString else None)"
| "falsy_of (JArr xs) = None"
| "falsy_of (JObj ps) = None"

fun isNaN :: "falsy \<Rightarrow> bool" where
  "isNaN FUndefined = True"
| "isNaN FNull = False"
| "isNaN FFalse = False"
| "isNaN FZero = False"
| "isNaN FNaN = True"
| "isNaN FEmptyString = False"

definition param_missing :: "jsval \<Rightarrow> bool" where
  "param_missing v = (case falsy_of v of None \<Rightarrow> False | Some f \<Rightarrow> isNaN f)"

text \<open>
  \<^verbatim>\<open>requires.forEach(r => { if (...) throw new Error(`Method ${name} requires ${r} parameter.`) })\<close>:
  the first required name whose value is missing ends the loop with its error.
\<close>

fun forEach_requires :: "string \<Rightarrow> obj \<Rightarrow> string list \<Rightarrow> js_error option" where
  "forEach_requires name payload [] = None"
| "forEach_requires name payload (r # rs) =
     (if param_missing (get payload r)
      then Some (new_Error (''Method '' @ name @ '' requires '' @ r @ '' parameter.''))
      else forEach_requires name payload rs)"

text \<open>
  \<^verbatim>\<open>checkParams(name, payload, requires = [])\<close>. The payload is \<open>None\<close> when it is \<open>null\<close> or
  \<open>undefined\<close>; \<open>Inl\<close> is the exception thrown, \<open>Inr True\<close> the value returned.
\<close>

definition checkParams :: "string \<Rightarrow> obj option \<Rightarrow> string list option \<Rightarrow> js_error + bool" where
  "checkParams name payload requires =
     (case payload of
        None \<Rightarrow> Inl (new_Error ''You need to pass a payload object.'')
      | Some p \<Rightarrow>
          (case forEach_requires name p (case requires of None \<Rightarrow> [] | Some rs \<Rightarrow> rs) of
             Some e \<Rightarrow> Inl e
           | None \<Rightarrow> Inr True))"

section \<open>Effects: the heap, the transport, the clock\<close>

text \<open>
  A request as \<^verbatim>\<open>fetch(url, { method, json: true, headers, agent })\<close> receives it (the
  constant \<^verbatim>\<open>json: true\<close> is left out).
\<close>

record request =
  req_url :: string
  req_method :: string
  req_headers :: "(string \<times> string) list"
  req_agent :: jsval

text \<open>
  What a call does to the outside, in order: a request handed to \<^verbatim>\<open>fetch\<close>, a reading
  of the configured clock, an HMAC digest computed with a key over a message.
\<close>

datatype event =
    Fetch request
  | ClockRead
  | Signed string string

text \<open>
  The collaborators the client does not implement: the transport (what \<^verbatim>\<open>fetch\<close>
  settles to, given what happened before), the system clock behind \<^verbatim>\<open>Date.now()\<close>,
  the runtime's \<^verbatim>\<open>JSON.parse\<close> (\<open>None\<close> when it throws) and Node's
  \<^verbatim>\<open>crypto.createHmac('sha256', key).update(message).digest('hex')\<close>.
\<close>

record env =
  net :: "event list \<Rightarrow> request \<Rightarrow> js_error + response"
  date_now :: "event list \<Rightarrow> int"
  JSON_parse :: "string \<Rightarrow> jsval option"
  hmac_sha256_hex :: "string \<Rightarrow> string \<Rightarrow> string"

text \<open>
  The payload a caller passes: \<open>undefined\<close>, \<open>null\<close>, or a reference to an object in the
  heap, which the client may mutate under the caller's eyes.
\<close>

datatype jsdata = DUndefined | DNull | DRef nat

record world =
  heap :: "nat \<Rightarrow> obj"
  next_ref :: nat
  trace :: "event list"

definition resolve :: "world \<Rightarrow> jsdata \<Rightarrow> obj option" where
  "resolve w d = (case d of DRef a \<Rightarrow> Some (heap w a) | _ \<Rightarrow> None)"

text \<open>A fresh object (an object literal that is later passed on by reference).\<close>

definition alloc :: "obj \<Rightarrow> world \<Rightarrow> jsdata \<times> world" where
  "alloc q w =
     (DRef (next_ref w), w\<lparr>heap := (heap w)(next_ref w := q), next_ref := Suc (next_ref w)\<rparr>)"

text \<open>The default of a parameter written \<^verbatim>\<open>data = {}\<close>: a fresh object in place of \<open>undefined\<close>.\<close>

definition default_object :: "jsdata \<Rightarrow> world \<Rightarrow> jsdata \<times> world" where
  "default_object d w = (case d of DUndefined \<Rightarrow> alloc [] w | _ \<Rightarrow> (d, w))"

text \<open>
  How a call ends: an exception thrown before any promise exists, or the promise it
  returned, followed to its settlement. A call is followed in one piece: nothing else
  runs, and nobody touches the payload, between its start and the settlement.
\<close>

datatype 'a completion = Thrown js_error | Rejected js_error | Fulfilled 'a

definition fetch :: "env \<Rightarrow> request \<Rightarrow> world \<Rightarrow> (js_error + response) \<times> world" where
  "fetch e req w = (net e (trace w) req, w\<lparr>trace := trace w @ [Fetch req]\<rparr>)"

section \<open>The result unwrapper\<close>

text \<open>
  \<^verbatim>\<open>json.msg\<close>, \<^verbatim>\<open>json.code\<close>, \<^verbatim>\<open>r.serverTime\<close>: a property read on a parsed JSON value.
  On \<open>null\<close> it throws a TypeError; on an object it is the own property; a number, a
  boolean, a string or an array has none of the three names read here.
\<close>

fun get_prop :: "jsval \<Rightarrow> string \<Rightarrow> js_error + jsval" where
  "get_prop (JObj ps) k = Inr (get ps k)"
| "get_prop JNull k = Inl TypeError"
| "get_prop JUndefined k = Inl TypeError"
| "get_prop v k = Inr JUndefined"

text \<open>\<^verbatim>\<open>`${res.status} ${res.statusText}`\<close>\<close>

definition status_line :: "response \<Rightarrow> string" where
  "status_line res = int_to_string (status res) @ '' '' @ statusText res"

text \<open>
  The body of the \<^verbatim>\<open>try\<close> block: \<open>Inl\<close> when a statement in it throws, \<open>Inr\<close> the error
  object it built.
  \<^verbatim>\<open>
      const json = JSON.parse(text)
      error = new Error(json.msg || `${res.status} ${res.statusText}`)
      error.code = json.code
  \<close>
  \<^verbatim>\<open>new Error(m)\<close> converts \<open>m\<close> to a string, which throws for a \<open>msg\<close> without a string
  form.
\<close>

definition try_api_error :: "env \<Rightarrow> response \<Rightarrow> string \<Rightarrow> js_error + js_error" where
  "try_api_error e res text =
     (case JSON_parse e text of
        None \<Rightarrow> Inl SyntaxError
      | Some json \<Rightarrow>
          (case get_prop json ''msg'' of
             Inl ex \<Rightarrow> Inl ex
           | Inr msg \<Rightarrow>
               (case ToString (if truthy msg then msg else JStr (status_line res)) of
                  None \<Rightarrow> Inl TypeError
                | Some m \<Rightarrow>
                    (case get_prop json ''code'' of
                       Inl ex \<Rightarrow> Inl ex
                     | Inr c \<Rightarrow> Inr (Error m (Some c) None None)))))"

text \<open>
  The error a failed response is turned into: the one the \<^verbatim>\<open>try\<close> block built, or the
  one of the \<^verbatim>\<open>catch\<close> block when anything in the \<^verbatim>\<open>try\<close> block threw.
\<close>

definition failure_error :: "env \<Rightarrow> response \<Rightarrow> js_error" where
  "failure_error e res =
     (let text = body res in
      case try_api_error e res text of
        Inr error \<Rightarrow> error
      | Inl ex \<Rightarrow> Error (status_line res @ '' '' @ text) None (Some res) (Some text))"

text \<open>
  \<^verbatim>\<open>sendResult = call => call.then(res => res.ok ? res.json() : res.text().then(...throw error))\<close>,
  applied to what \<^verbatim>\<open>fetch\<close> settled to.
\<close>

definition sendResult :: "env \<Rightarrow> js_error + response \<Rightarrow> jsval completion" where
  "sendResult e call =
     (case call of
        Inl ex \<Rightarrow> Rejected ex
      | Inr res \<Rightarrow>
          if ok res
          then (case JSON_parse e (body res) of
                  Some v \<Rightarrow> Fulfilled v
                | None \<Rightarrow> Rejected SyntaxError)
          else Rejected (failure_error e res))"

section \<open>The three callers\<close>

text \<open>
  The options of the factory (\<^verbatim>\<open>opts\<close>), and what each caller is configured with
  (\<^verbatim>\<open>{ ...opts, base, apiPathBase }\<close>). A credential is \<open>None\<close> when it was not given. The
  clock function \<open>getTime\<close>, when given, returns a value depending on what happened
  before.
\<close>

record opts =
  apiKey :: "string option"
  apiSecret :: "string option"
  httpBase :: "string option"
  httpFutureBase :: "string option"
  getTime :: "(event list \<Rightarrow> jsval) option"

record config = opts +
  base :: string
  apiPathBase :: string

text \<open>\<^verbatim>\<open>!s\<close> for an optional string: true when absent or empty.\<close>

definition not_given :: "string option \<Rightarrow> bool" where
  "not_given s = (case s of None \<Rightarrow> True | Some x \<Rightarrow> x = [])"

definition str_of :: "string option \<Rightarrow> string" where
  "str_of s = (case s of None \<Rightarrow> ''undefined'' | Some x \<Rightarrow> x)"

text \<open>
  The argument object of a caller. A field the call site leaves out is \<open>undefined\<close>
  (\<open>None\<close> for the method and the headers). The key \<^verbatim>\<open>method\<close> of the source is the
  field \<open>http_method\<close> here. \<open>noExtraData\<close> is a key some call sites pass; no caller
  reads it.
\<close>

record descriptor =
  path :: string
  data :: jsdata
  http_method :: "string option"
  headers :: "(string \<times> string) list option"
  noData :: jsval
  noExtra :: jsval
  noExtraData :: jsval
  agent :: jsval

definition descriptor_of :: "string \<Rightarrow> descriptor" where
  "descriptor_of p =
     \<lparr>path = p, data = DUndefined, http_method = None, headers = None, noData = JUndefined,
      noExtra = JUndefined, noExtraData = JUndefined, agent = JUndefined\<rparr>"

type_synonym caller = "descriptor \<Rightarrow> world \<Rightarrow> jsval completion \<times> world"

text \<open>
  \<^verbatim>\<open>publicCall = ({ base, apiPathBase }) => ({ path, data, method = 'GET', headers = {}, agent }) =>
    sendResult(fetch(`${base}/${apiPathBase}${path}${makeQueryString(data)}`,
                     { method, json: true, headers, agent }))\<close>

  The URL is built before \<^verbatim>\<open>fetch\<close> is called: when the encoder throws, the call throws
  and no request is issued.
\<close>

definition publicCall :: "env \<Rightarrow> config \<Rightarrow> caller" where
  "publicCall e cfg d w =
     (case makeQueryString (resolve w (data d)) of
        Inl ex \<Rightarrow> (Thrown ex, w)
      | Inr qs \<Rightarrow>
          (let req =
             \<lparr>req_url = base cfg @ ''/'' @ apiPathBase cfg @ path d @ qs,
              req_method = (case http_method d of None \<Rightarrow> ''GET'' | Some m \<Rightarrow> m),
              req_headers = (case headers d of None \<Rightarrow> [] | Some h \<Rightarrow> h),
              req_agent = agent d\<rparr>;
               (r, w') = fetch e req w
           in (sendResult e r, w')))"

text \<open>
  \<^verbatim>\<open>keyCall = ({ apiKey, pubCall }) => ({ path, data, method = 'GET', agent }) => {
    if (!apiKey) { throw new Error('You need to pass an API key to make this call.') }
    return pubCall({ path, data, method, headers: { 'X-MBX-APIKEY': apiKey }, agent }) }\<close>
\<close>

definition keyCall :: "config \<Rightarrow> caller \<Rightarrow> caller" where
  "keyCall cfg pubCall d w =
     (if not_given (apiKey cfg)
      then (Thrown (new_Error ''You need to pass an API key to make this call.''), w)
      else pubCall
             ((descriptor_of (path d))
                \<lparr>data := data d,
                 http_method := Some (case http_method d of None \<Rightarrow> ''GET'' | Some m \<Rightarrow> m),
                 headers := Some [(''X-MBX-APIKEY'', str_of (apiKey cfg))],
                 agent := agent d\<rparr>)
             w)"

subsection \<open>The private (signed) caller\<close>

text \<open>
  \<^verbatim>\<open>getTime = defaultGetTime\<close>, called: the configured clock, else \<^verbatim>\<open>Date.now()\<close>. A
  clock returns a value; one that throws is outside the model.
\<close>

definition call_getTime :: "env \<Rightarrow> config \<Rightarrow> event list \<Rightarrow> jsval" where
  "call_getTime e cfg tr =
     (case getTime cfg of None \<Rightarrow> JNum (date_now e tr) | Some f \<Rightarrow> f tr)"

text \<open>\<^verbatim>\<open>data && data.useServerTime\<close>\<close>

definition useServerTime_flag :: "world \<Rightarrow> jsdata \<Rightarrow> jsval" where
  "useServerTime_flag w d =
     (case d of
        DRef a \<Rightarrow> get (heap w a) ''useServerTime''
      | DNull \<Rightarrow> JNull
      | DUndefined \<Rightarrow> JUndefined)"

text \<open>\<^verbatim>\<open>.then(r => r.serverTime)\<close> on the promise of the public caller.\<close>

definition then_serverTime :: "jsval completion \<Rightarrow> jsval completion" where
  "then_serverTime c =
     (case c of
        Fulfilled r \<Rightarrow> (case get_prop r ''serverTime'' of Inl ex \<Rightarrow> Rejected ex | Inr t \<Rightarrow> Fulfilled t)
      | Rejected ex \<Rightarrow> Rejected ex
      | Thrown ex \<Rightarrow> Thrown ex)"

text \<open>
  \<^verbatim>\<open>data && data.useServerTime
      ? pubCall({ path: '/v1/time', agent }).then(r => r.serverTime)
      : Promise.resolve(getTime())\<close>
\<close>

definition resolve_timestamp ::
  "env \<Rightarrow> config \<Rightarrow> caller \<Rightarrow> jsdata \<Rightarrow> jsval \<Rightarrow> world \<Rightarrow> jsval completion \<times> world" where
  "resolve_timestamp e cfg pubCall d ag w =
     (if truthy (useServerTime_flag w d)
      then (let (r, w') = pubCall ((descriptor_of ''/v1/time'')\<lparr>agent := ag\<rparr>) w
            in (then_serverTime r, w'))
      else (Fulfilled (call_getTime e cfg (trace w)), w\<lparr>trace := trace w @ [ClockRead]\<rparr>))"

text \<open>\<^verbatim>\<open>if (data) { delete data.useServerTime }\<close>: the object the caller passed is changed.\<close>

definition delete_useServerTime :: "jsdata \<Rightarrow> world \<Rightarrow> world" where
  "delete_useServerTime d w =
     (case d of
        DRef a \<Rightarrow> w\<lparr>heap := (heap w)(a := obj_delete (heap w a) ''useServerTime'')\<rparr>
      | _ \<Rightarrow> w)"

text \<open>\<^verbatim>\<open>{ ...data, timestamp }\<close>\<close>

definition with_timestamp :: "obj option \<Rightarrow> jsval \<Rightarrow> obj" where
  "with_timestamp q timestamp = obj_set (spread_into [] q) ''timestamp'' timestamp"

text \<open>\<^verbatim>\<open>newData = noExtra ? data : { ...data, timestamp, signature }\<close>\<close>

definition newData_of :: "jsval \<Rightarrow> obj option \<Rightarrow> jsval \<Rightarrow> string \<Rightarrow> obj option" where
  "newData_of nx q timestamp signature =
     (if truthy nx then q
      else Some (obj_set (with_timestamp q timestamp) ''signature'' (JStr signature)))"

text \<open>\<^verbatim>\<open>s.includes(t)\<close>: \<open>t\<close> occurs in \<open>s\<close>.\<close>

fun includes_str :: "string \<Rightarrow> string \<Rightarrow> bool" where
  "includes_str [] t = (t = [])"
| "includes_str (c # s) t = (take (length t) (c # s) = t \<or> includes_str s t)"

text \<open>
  \<^verbatim>\<open>`${base}${(path.includes('/wapi') || path.includes('/sapi')) ? '' : `/${apiPathBase}`}${path}${
      noData ? '' : makeQueryString(newData)}`\<close>
\<close>

definition private_url :: "config \<Rightarrow> string \<Rightarrow> jsval \<Rightarrow> obj option \<Rightarrow> js_error + string" where
  "private_url cfg p nd newData =
     (case (if truthy nd then Inr [] else makeQueryString newData) of
        Inl ex \<Rightarrow> Inl ex
      | Inr qs \<Rightarrow>
          Inr (base cfg
               @ (if includes_str p ''/wapi'' \<or> includes_str p ''/sapi'' then []
                  else ''/'' @ apiPathBase cfg)
               @ p @ qs))"

text \<open>
  The callback of \<^verbatim>\<open>.then(timestamp => { ... })\<close>:
  \<^verbatim>\<open>
      if (data) { delete data.useServerTime }
      const signature = crypto.createHmac('sha256', apiSecret)
        .update(makeQueryString({ ...data, timestamp }).substr(1)).digest('hex')
      const newData = noExtra ? data : { ...data, timestamp, signature }
      return sendResult(fetch(<url>,
        { method, headers: { 'X-MBX-APIKEY': apiKey }, json: true, agent }))
  \<close>
  The flag is deleted from the caller's object, the signature is computed over what is
  left, the request is issued and its result unwrapped. An exception thrown in the
  callback (by the encoder, when it signs or when it builds the URL) rejects the promise
  of the call, and what would have followed does not happen.
\<close>

definition sign_and_send ::
  "env \<Rightarrow> config \<Rightarrow> descriptor \<Rightarrow> jsdata \<Rightarrow> jsval \<Rightarrow> world \<Rightarrow> jsval completion \<times> world" where
  "sign_and_send e cfg d dat timestamp w =
     (let w1 = delete_useServerTime dat w;
          q = resolve w1 dat
      in case makeQueryString (Some (with_timestamp q timestamp)) of
           Inl ex \<Rightarrow> (Rejected ex, w1)
         | Inr s \<Rightarrow>
             (let signature = hmac_sha256_hex e (str_of (apiSecret cfg)) (drop 1 s);
                  w2 = w1\<lparr>trace := trace w1 @ [Signed (str_of (apiSecret cfg)) (drop 1 s)]\<rparr>;
                  newData = newData_of (noExtra d) q timestamp signature
              in case private_url cfg (path d) (noData d) newData of
                   Inl ex \<Rightarrow> (Rejected ex, w2)
                 | Inr url \<Rightarrow>
                     (let (r, w3) =
                        fetch e
                          \<lparr>req_url = url,
                           req_method = (case http_method d of None \<Rightarrow> ''GET'' | Some m \<Rightarrow> m),
                           req_headers = [(''X-MBX-APIKEY'', str_of (apiKey cfg))],
                           req_agent = agent d\<rparr>
                          w2
                      in (sendResult e r, w3))))"

text \<open>
  \<^verbatim>\<open>privateCall = ({ apiKey, apiSecret, base, apiPathBase, getTime = defaultGetTime, pubCall }) =>
    ({ path, data = {}, method = 'GET', noData, noExtra, agent }) => { ... }\<close>

  The default \<^verbatim>\<open>data = {}\<close> makes a fresh object when the descriptor's \<open>data\<close> is
  \<open>undefined\<close> (not when it is \<open>null\<close>). The credentials are checked, the timestamp is
  resolved, and the callback runs once it is there; without a timestamp (the server-time
  call failed) the callback never runs.
\<close>

definition privateCall :: "env \<Rightarrow> config \<Rightarrow> caller \<Rightarrow> caller" where
  "privateCall e cfg pubCall d w0 =
     (let (dat, w) = default_object (data d) w0 in
      if not_given (apiKey cfg) \<or> not_given (apiSecret cfg)
      then (Thrown (new_Error ''You need to pass an API key and secret to make authenticated calls.''), w)
      else
        (let (t, w') = resolve_timestamp e cfg pubCall dat (agent d) w in
         case t of
           Fulfilled timestamp \<Rightarrow> sign_and_send e cfg d dat timestamp w'
         | Rejected ex \<Rightarrow> (Rejected ex, w')
         | Thrown ex \<Rightarrow> (Thrown ex, w')))"

section \<open>The client\<close>

definition BASE :: string where
  "BASE = ''https://api.binance.com''"

definition FUTURE_BASE :: string where
  "FUTURE_BASE = ''https://fapi.binance.com''"

definition API_PATH_BASE :: string where
  "API_PATH_BASE = ''api''"

definition FUTURES_API_PATH_BASE :: string where
  "FUTURES_API_PATH_BASE = ''fapi''"

text \<open>\<^verbatim>\<open>{ ...opts, base, apiPathBase }\<close>\<close>

definition config_of :: "opts \<Rightarrow> string \<Rightarrow> string \<Rightarrow> config" where
  "config_of os b p =
     \<lparr>apiKey = apiKey os, apiSecret = apiSecret os, httpBase = httpBase os,
      httpFutureBase = httpFutureBase os, getTime = getTime os, base = b, apiPathBase = p\<rparr>"

text \<open>\<^verbatim>\<open>opts && opts.httpBase || BASE\<close> and \<^verbatim>\<open>opts && opts.httpFutureBase || FUTURE_BASE\<close>\<close>

definition spot_base :: "opts \<Rightarrow> string" where
  "spot_base os = (if not_given (httpBase os) then BASE else str_of (httpBase os))"

definition future_base :: "opts \<Rightarrow> string" where
  "future_base os = (if not_given (httpFutureBase os) then FUTURE_BASE else str_of (httpFutureBase os))"

definition pubCall :: "env \<Rightarrow> opts \<Rightarrow> caller" where
  "pubCall e os = publicCall e (config_of os (spot_base os) API_PATH_BASE)"

definition privCall :: "env \<Rightarrow> opts \<Rightarrow> caller" where
  "privCall e os = privateCall e (config_of os (spot_base os) API_PATH_BASE) (pubCall e os)"

definition kCall :: "env \<Rightarrow> opts \<Rightarrow> caller" where
  "kCall e os = keyCall (config_of os (spot_base os) API_PATH_BASE) (pubCall e os)"

definition futuresPubCall :: "env \<Rightarrow> opts \<Rightarrow> caller" where
  "futuresPubCall e os = publicCall e (config_of os (future_base os) FUTURES_API_PATH_BASE)"

definition futuresPrivCall :: "env \<Rightarrow> opts \<Rightarrow> caller" where
  "futuresPrivCall e os =
     privateCall e (config_of os (future_base os) FUTURES_API_PATH_BASE) (futuresPubCall e os)"

definition futuresKCall :: "env \<Rightarrow> opts \<Rightarrow> caller" where
  "futuresKCall e os =
     keyCall (config_of os (future_base os) FUTURES_API_PATH_BASE) (futuresPubCall e os)"

subsection \<open>The data-stream operations\<close>

text \<open>
  \<^verbatim>\<open>keepDataStream: (payload, agent) => privCall({ path: '/v1/userDataStream', data: payload,
      method: 'PUT', noData: false, noExtraData: true, agent })\<close>
  and its three siblings, which differ in the caller, the path and the method.
\<close>

definition stream_descriptor :: "string \<Rightarrow> string \<Rightarrow> jsdata \<Rightarrow> jsval \<Rightarrow> descriptor" where
  "stream_descriptor p m payload ag =
     (descriptor_of p)
       \<lparr>data := payload, http_method := Some m, noData := JBool False, noExtraData := JBool True,
        agent := ag\<rparr>"

definition keepDataStream :: "env \<Rightarrow> opts \<Rightarrow> jsdata \<Rightarrow> jsval \<Rightarrow> world \<Rightarrow> jsval completion \<times> world" where
  "keepDataStream e os payload ag =
     privCall e os (stream_descriptor ''/v1/userDataStream'' ''PUT'' payload ag)"

definition closeDataStream :: "env \<Rightarrow> opts \<Rightarrow> jsdata \<Rightarrow> jsval \<Rightarrow> world \<Rightarrow> jsval completion \<times> world" where
  "closeDataStream e os payload ag =
     privCall e os (stream_descriptor ''/v1/userDataStream'' ''DELETE'' payload ag)"

definition futuresKeepUserDataStream ::
  "env \<Rightarrow> opts \<Rightarrow> jsdata \<Rightarrow> jsval \<Rightarrow> world \<Rightarrow> jsval completion \<times> world" where
  "futuresKeepUserDataStream e os payload ag =
     futuresPrivCall e os (stream_descriptor ''/v1/listenKey'' ''PUT'' payload ag)"

definition futuresCloseUserDataStream ::
  "env \<Rightarrow> opts \<Rightarrow> jsdata \<Rightarrow> jsval \<Rightarrow> world \<Rightarrow> jsval completion \<times> world" where
  "futuresCloseUserDataStream e os payload ag =
     futuresPrivCall e os (stream_descriptor ''/v1/listenKey'' ''DELETE'' payload ag)"

subsection \<open>The futures order wrapper\<close>

text \<open>
  The required names of \<^verbatim>\<open>futuresOrder\<close>, from the type the caller's payload has after
  the default was assigned:
  \<^verbatim>\<open>
    ['symbol', 'side', 'type', 'quantity',
     ...((payload.type && payload.type === 'LIMIT' && ['price', 'timeInForce']) || []),
     ...((payload.type && ['STOP', 'TAKE_PROFIT'].includes(payload.type) && ['price', 'stopPrice']) || []),
     ...((payload.type && ['STOP_MARKET', 'TAKE_PROFIT_MARKET'].includes(payload.type) && ['stopPrice']) || [])]
  \<close>
\<close>

definition futuresOrder_requires :: "jsval \<Rightarrow> string list" where
  "futuresOrder_requires ty =
     [''symbol'', ''side'', ''type'', ''quantity'']
     @ (if truthy ty \<and> ty = JStr ''LIMIT'' then [''price'', ''timeInForce''] else [])
     @ (if truthy ty \<and> ty \<in> set [JStr ''STOP'', JStr ''TAKE_PROFIT'']
        then [''price'', ''stopPrice''] else [])
     @ (if truthy ty \<and> ty \<in> set [JStr ''STOP_MARKET'', JStr ''TAKE_PROFIT_MARKET'']
        then [''stopPrice''] else [])"

text \<open>
  \<^verbatim>\<open>
  const futuresOrder = (privCall, payload = {}, url, agent) => {
    const newPayload =
      (['LIMIT', 'STOP', 'TAKE_PROFIT'].includes(payload.type) || !payload.type)
        ? { timeInForce: 'GTC', ...payload }
        : payload
    if (!payload.type) payload.type = 'LIMIT';
    if (payload.type && payload.type === 'MARKET' && payload.timeInForce) {
      throw new Error('timeInForce parameter cannot be send with type MARKET');
    }
    return (checkParams('futuresOrder', newPayload, [...]) &&
            privCall({ path: url, data: newPayload, method: 'POST', agent }))
  }
  \<close>
  \<open>newPayload\<close> is either a fresh object, made before the default type is assigned to
  the caller's payload, or the caller's payload itself. A \<open>null\<close> payload makes
  \<^verbatim>\<open>payload.type\<close> throw a TypeError.
\<close>

definition futuresOrder ::
  "caller \<Rightarrow> jsdata \<Rightarrow> string \<Rightarrow> jsval \<Rightarrow> world \<Rightarrow> jsval completion \<times> world" where
  "futuresOrder call payload0 url ag w0 =
     (let (payload, w) = default_object payload0 w0 in
      case payload of
        DRef a \<Rightarrow>
          (let ty = get (heap w a) ''type'';
               (newPayload, w1) =
                 (if ty \<in> set [JStr ''LIMIT'', JStr ''STOP'', JStr ''TAKE_PROFIT''] \<or> \<not> truthy ty
                  then alloc (spread_into [(''timeInForce'', JStr ''GTC'')] (Some (heap w a))) w
                  else (payload, w));
               w2 =
                 (if truthy (get (heap w1 a) ''type'') then w1
                  else w1\<lparr>heap := (heap w1)(a := obj_set (heap w1 a) ''type'' (JStr ''LIMIT''))\<rparr>);
               ty2 = get (heap w2 a) ''type''
           in if truthy ty2 \<and> ty2 = JStr ''MARKET'' \<and> truthy (get (heap w2 a) ''timeInForce'')
              then (Thrown (new_Error ''timeInForce parameter cannot be send with type MARKET''), w2)
              else
                (case checkParams ''futuresOrder'' (resolve w2 newPayload)
                        (Some (futuresOrder_requires ty2)) of
                   Inl ex \<Rightarrow> (Thrown ex, w2)
                 | Inr passed \<Rightarrow>
                     call ((descriptor_of url)
                             \<lparr>data := newPayload, http_method := Some ''POST'', agent := ag\<rparr>) w2))
      | _ \<Rightarrow> (Thrown TypeError, w))"

text \<open>\<^verbatim>\<open>futuresOrder: (payload, agent) => futuresOrder(futuresPrivCall, payload, '/v1/order', agent)\<close>\<close>

definition client_futuresOrder ::
  "env \<Rightarrow> opts \<Rightarrow> jsdata \<Rightarrow> jsval \<Rightarrow> world \<Rightarrow> jsval completion \<times> world" where
  "client_futuresOrder e os payload ag = futuresOrder (futuresPrivCall e os) payload ''/v1/order'' ag"

section \<open>Notions used to state the properties\<close>

text \<open>
  The string form of a value that has one (the empty string stands in for a value that
  has none, where nothing is rendered), and one rendered pair of the query string:
  \<open>key=value\<close>, both percent-encoded.
\<close>

definition string_of :: "jsval \<Rightarrow> string" where
  "string_of v = (case ToString v of Some s \<Rightarrow> s | None \<Rightarrow> [])"

definition render_pair :: "string \<times> jsval \<Rightarrow> string" where
  "render_pair p = encodeURIComponent (fst p) @ ''='' @ encodeURIComponent (string_of (snd p))"

text \<open>
  The entries of an object that the encoder renders, and whether it can render them:
  every truthy value has a string form.
\<close>

definition rendered :: "obj \<Rightarrow> obj" where
  "rendered q = filter (\<lambda>p. truthy (snd p)) q"

definition renderable :: "obj \<Rightarrow> bool" where
  "renderable q = list_all (\<lambda>p. ToString (snd p) \<noteq> None) (rendered q)"

text \<open>A value that is neither an array nor an object.\<close>

fun scalar :: "jsval \<Rightarrow> bool" where
  "scalar (JArr xs) = False"
| "scalar (JObj ps) = False"
| "scalar v = True"

text \<open>A string with its leading \<^verbatim>\<open>?\<close> stripped, when it has one.\<close>

definition strip_leading_question :: "string \<Rightarrow> string" where
  "strip_leading_question s = (case s of [] \<Rightarrow> [] | c # r \<Rightarrow> if c = CHR ''?'' then r else s)"

text \<open>
  An object as the runtime holds it: no key twice, the array-index keys first and
  ascending, the other keys after them.
\<close>

definition key_precedes :: "string \<Rightarrow> string \<Rightarrow> bool" where
  "key_precedes k k' =
     (if is_array_index k
      then (if is_array_index k' then decimal_value k < decimal_value k' else True)
      else \<not> is_array_index k')"

definition well_formed :: "obj \<Rightarrow> bool" where
  "well_formed q = (distinct (keys q) \<and> sorted_wrt key_precedes (keys q))"

text \<open>
  The two classifications of the error of a failed response: an API error carries a
  \<open>code\<close> property and nothing else; a transport error carries the response and its
  text, and no \<open>code\<close>.
\<close>

definition is_api_error :: "js_error \<Rightarrow> bool" where
  "is_api_error ex =
     (case ex of Error m c r t \<Rightarrow> c \<noteq> None \<and> r = None \<and> t = None | _ \<Rightarrow> False)"

definition is_transport_error :: "js_error \<Rightarrow> bool" where
  "is_transport_error ex =
     (case ex of Error m c r t \<Rightarrow> c = None \<and> r \<noteq> None \<and> t \<noteq> None | _ \<Rightarrow> False)"

text \<open>
  A named field of a parsed JSON value other than \<open>null\<close>: the own property of an object,
  \<open>undefined\<close> on a number, a boolean, a string or an array.
\<close>

definition field_of :: "jsval \<Rightarrow> string \<Rightarrow> jsval" where
  "field_of v k = (case v of JObj ps \<Rightarrow> get ps k | _ \<Rightarrow> JUndefined)"

text \<open>
  The request the public caller issues for \<^verbatim>\<open>pubCall({ path: '/v1/time', agent })\<close>: no
  parameters, the default method, no headers.
\<close>

definition time_request :: "config \<Rightarrow> jsval \<Rightarrow> request" where
  "time_request cfg ag =
     \<lparr>req_url = base cfg @ ''/'' @ apiPathBase cfg @ ''/v1/time'', req_method = ''GET'',
      req_headers = [], req_agent = ag\<rparr>"

text \<open>
  The payload the signed call goes on with, once \<open>useServerTime\<close> is deleted from the
  caller's object (\<open>None\<close> for a \<open>null\<close> payload).
\<close>

definition payload_after_delete :: "world \<Rightarrow> jsdata \<Rightarrow> obj option" where
  "payload_after_delete w d =
     (case d of DRef a \<Rightarrow> Some (obj_delete (heap w a) ''useServerTime'') | _ \<Rightarrow> None)"

text \<open>
  The message to sign, in the words of the specification: the query encoder's rendering
  of the payload extended with the \<open>timestamp\<close> key, with the leading \<^verbatim>\<open>?\<close> stripped
  (\<open>None\<close> when the encoder throws).
\<close>

definition message_to_sign :: "obj option \<Rightarrow> jsval \<Rightarrow> string option" where
  "message_to_sign q ts =
     (case makeQueryString (Some (obj_set (spread_into [] q) ''timestamp'' ts)) of
        Inl ex \<Rightarrow> None
      | Inr s \<Rightarrow> Some (strip_leading_question s))"

text \<open>
  The signed request, in the words of the specification, for a payload \<open>q\<close>, a timestamp
  and the message \<open>m\<close> that was signed. The final parameters are the payload when the
  no-extra flag is set, else the payload with the timestamp and the signature defined on
  it; the URL is the base, the path prefix unless the path contains \<^verbatim>\<open>/wapi\<close> or
  \<^verbatim>\<open>/sapi\<close>, the path, and the rendering of the final parameters unless the no-data flag
  is set (\<open>None\<close> when the encoder throws on them).
\<close>

definition final_params :: "env \<Rightarrow> config \<Rightarrow> descriptor \<Rightarrow> obj option \<Rightarrow> jsval \<Rightarrow> string \<Rightarrow> obj option" where
  "final_params e cfg d q ts m =
     (if truthy (noExtra d) then q
      else Some (obj_set (obj_set (spread_into [] q) ''timestamp'' ts) ''signature''
                   (JStr (hmac_sha256_hex e (str_of (apiSecret cfg)) m))))"

definition signed_request ::
  "env \<Rightarrow> config \<Rightarrow> descriptor \<Rightarrow> obj option \<Rightarrow> jsval \<Rightarrow> string \<Rightarrow> request option" where
  "signed_request e cfg d q ts m =
     (case (if truthy (noData d) then Inr [] else makeQueryString (final_params e cfg d q ts m)) of
        Inl ex \<Rightarrow> None
      | Inr qs \<Rightarrow>
          Some \<lparr>req_url =
                  base cfg
                  @ (if includes_str (path d) ''/wapi'' \<or> includes_str (path d) ''/sapi'' then []
                     else ''/'' @ apiPathBase cfg)
                  @ path d @ qs,
                req_method = (case http_method d of None \<Rightarrow> ''GET'' | Some x \<Rightarrow> x),
                req_headers = [(''X-MBX-APIKEY'', str_of (apiKey cfg))],
                req_agent = agent d\<rparr>)"

text \<open>
  What follows the resolution of the timestamp: the signature over the message, then the
  signed request. When the encoder throws on the message nothing follows, and when it
  throws on the final parameters the request does not.
\<close>

definition signing_events :: "env \<Rightarrow> config \<Rightarrow> descriptor \<Rightarrow> obj option \<Rightarrow> jsval \<Rightarrow> event list" where
  "signing_events e cfg d q ts =
     (case message_to_sign q ts of
        None \<Rightarrow> []
      | Some m \<Rightarrow>
          Signed (str_of (apiSecret cfg)) m
          # (case signed_request e cfg d q ts m of None \<Rightarrow> [] | Some req \<Rightarrow> [Fetch req]))"

text \<open>
  The request of a data-stream operation when timestamp and signature are not suppressed:
  the payload with the timestamp and the signature \<open>sg\<close> defined on it, rendered into the
  query string.
\<close>

definition stream_params :: "obj option \<Rightarrow> jsval \<Rightarrow> string \<Rightarrow> obj" where
  "stream_params q ts sg =
     obj_set (obj_set (spread_into [] q) ''timestamp'' ts) ''signature'' (JStr sg)"

definition stream_request ::
  "config \<Rightarrow> string \<Rightarrow> string \<Rightarrow> jsval \<Rightarrow> obj option \<Rightarrow> jsval \<Rightarrow> string \<Rightarrow> request" where
  "stream_request cfg p m ag q ts sg =
     \<lparr>req_url = base cfg @ ''/'' @ apiPathBase cfg @ p @ ''?''
                 @ join ''&'' (map render_pair (rendered (stream_params q ts sg))),
      req_method = m,
      req_headers = [(''X-MBX-APIKEY'', str_of (apiKey cfg))],
      req_agent = ag\<rparr>"

subsection \<open>A sample environment\<close>

text \<open>
  A server, a clock and a runtime to run the client against. The server answers the
  time endpoint with its time and everything else with an empty object. \<open>sample_parse\<close>
  is \<^verbatim>\<open>JSON.parse\<close> on the bodies that occur below; of these, only the HTML page is
  not JSON. \<open>sample_hmac\<close> is the HMAC-SHA256 digest, in hexadecimal, on the keys and
  messages that occur below, and a row of zeros elsewhere.
\<close>

definition sample_parse :: "string \<Rightarrow> jsval option" where
  \<open>sample_parse =
     map_of
       [(''{"serverTime":1499827319559}'', JObj [(''serverTime'', JNum 1499827319559)]),
        (''{"code":-1121,"msg":"Invalid symbol."}'',
           JObj [(''code'', JNum (- 1121)), (''msg'', JStr ''Invalid symbol.'')]),
        (''{"code":-1000,"msg":""}'', JObj [(''code'', JNum (- 1000)), (''msg'', JStr [])]),
        (''{"code":-1,"msg":{"toString":1}}'',
           JObj [(''code'', JNum (- 1)), (''msg'', JObj [(''toString'', JNum 1)])]),
        (''null'', JNull),
        (''{}'', JObj [])]\<close>

definition sample_net :: "event list \<Rightarrow> request \<Rightarrow> js_error + response" where
  \<open>sample_net tr req =
     (if req_url req = ''https://api.binance.com/api/v1/time''
      then Inr \<lparr>ok = True, status = 200, statusText = ''OK'', body = ''{"serverTime":1499827319559}''\<rparr>
      else Inr \<lparr>ok = True, status = 200, statusText = ''OK'', body = ''{}''\<rparr>)\<close>

definition sample_digests :: "((string \<times> string) \<times> string) list" where
  "sample_digests =
     [((''my-api-secret'', ''symbol=BTCUSDT&timestamp=1499827319559''),
       ''d74177411c9269be2db195b58307738ce106b44a21ccc801f12ffa9e4f8ab09a''),
      ((''my-api-secret'', ''symbol=BTCUSDT&timestamp=1500000000000''),
       ''fef024bbd1cddaf48f2653509f41d399d1fae6ea8ee3e6cfe101501dcbe566cb''),
      ((''my-api-secret'', ''symbol=BTCUSDT&timestamp=1234567890123''),
       ''c54678eee76765d235be0d8dfd2b7858b8570f3a7c846a5a9e5cf7905f00551f''),
      ((''my-api-secret'', ''asset=BTC&amount=2&timestamp=1500000000000''),
       ''62d64c35e790275751c6e23b6c2bbb71cf3bbb31a154f913f13ee72504d35a1d''),
      ((''my-api-secret'', ''timestamp=1500000000000''),
       ''c75b4edd960db2a4042b99ac81f8691abcb874f71d6ff7522606320b306df901''),
      ((''my-api-secret'', ''listenKey=abc&timestamp=1500000000000''),
       ''56793b06a8060647fd1277ca86eb450ffddb0f091f43ce4c5e6a9ced4f769d76''),
      ((''my-api-secret'', ''listenKey=abc''),
       ''27bb92252cf47a1f9a52fd0547b620bd0f4cb19d8d6c1a9853a74349955863f8'')]"

definition sample_hmac :: "string \<Rightarrow> string \<Rightarrow> string" where
  "sample_hmac k m =
     (case map_of sample_digests (k, m) of Some h \<Rightarrow> h | None \<Rightarrow> replicate 64 (CHR ''0''))"

definition sample_env :: env where
  "sample_env =
     \<lparr>net = sample_net, date_now = (\<lambda>tr. 1500000000000), JSON_parse = sample_parse,
      hmac_sha256_hex = sample_hmac\<rparr>"

text \<open>The same environment behind a transport that refuses every request.\<close>

definition offline_env :: env where
  "offline_env = sample_env\<lparr>net := (\<lambda>tr req. Inl (FetchError ''connect ECONNREFUSED''))\<rparr>"

definition sample_opts :: opts where
  "sample_opts =
     \<lparr>apiKey = Some ''my-api-key'', apiSecret = Some ''my-api-secret'',
      httpBase = None, httpFutureBase = None, getTime = None\<rparr>"

text \<open>Two clocks a client can be configured with: one that is set, one that reads zero.\<close>

definition set_clock :: "event list \<Rightarrow> jsval" where
  "set_clock tr = JNum 1234567890123"

definition zero_clock :: "event list \<Rightarrow> jsval" where
  "zero_clock tr = JNum 0"

text \<open>A world whose heap holds one object, the caller's payload, at address 0.\<close>

definition world_with :: "obj \<Rightarrow> world" where
  "world_with q = \<lparr>heap = (\<lambda>a. [])(0 := q), next_ref = 1, trace = []\<rparr>"

section \<open>Properties of objects\<close>

lemma keys_replace_value: "keys (replace_value k v q) = keys q"
  by (induction k v q rule: replace_value.induct) (auto simp: keys_def)

lemma map_of_replace_value:
  "map_of (replace_value k v q) x
   = (if x = k \<and> k \<in> set (keys q) then Some v else map_of q x)"
  by (induction k v q rule: replace_value.induct) (auto simp: keys_def rev_image_eqI)

lemma entry_replace_value: "k \<in> set (keys q) \<Longrightarrow> (k, v) \<in> set (replace_value k v q)"
  by (induction k v q rule: replace_value.induct) (auto simp: keys_def)

lemma keys_insert_index: "set (keys (insert_index k v ps)) = insert k (set (keys ps))"
  by (induction k v ps rule: insert_index.induct) (auto simp: keys_def)

lemma distinct_insert_index:
  "distinct (keys ps) \<Longrightarrow> k \<notin> set (keys ps) \<Longrightarrow> distinct (keys (insert_index k v ps))"
proof (induction ps)
  case Nil
  then show ?case by (simp add: keys_def)
next
  case (Cons p ps)
  obtain k' v' where p: "p = (k', v')" by (cases p)
  from Cons.prems have d: "distinct (keys ps)" "k \<notin> set (keys ps)" "k' \<notin> set (keys ps)" "k \<noteq> k'"
    by (auto simp: keys_def p)
  have "k' \<notin> set (keys (insert_index k v ps))"
    using d by (simp add: keys_insert_index)
  with Cons.IH[OF d(1,2)] d show ?case
    by (auto simp: p keys_def)
qed

lemma map_of_insert_index:
  "k \<notin> set (keys ps) \<Longrightarrow> map_of (insert_index k v ps) = (map_of ps)(k \<mapsto> v)"
proof (induction ps)
  case Nil
  then show ?case by simp
next
  case (Cons p ps)
  obtain k' v' where p: "p = (k', v')" by (cases p)
  from Cons.prems have "k \<notin> set (keys ps)" "k \<noteq> k'" by (auto simp: keys_def p)
  with Cons.IH show ?case by (auto simp: p)
qed

lemma entry_insert_index: "(k, v) \<in> set (insert_index k v ps)"
  by (induction k v ps rule: insert_index.induct) auto

lemma keys_snoc: "keys (q @ [(k, v)]) = keys q @ [k]"
  by (simp add: keys_def)

lemma keys_obj_set: "set (keys (obj_set q k v)) = insert k (set (keys q))"
  by (auto simp: obj_set_def keys_insert_index keys_replace_value keys_snoc)

lemma distinct_obj_set:
  assumes "distinct (keys q)"
  shows "distinct (keys (obj_set q k v))"
proof (cases "k \<in> set (keys q)")
  case True
  with assms show ?thesis by (simp add: obj_set_def keys_replace_value)
next
  case False
  with assms show ?thesis
    by (simp add: obj_set_def distinct_insert_index keys_snoc)
qed

lemma get_obj_set: "get (obj_set q k v) k' = (if k' = k then v else get q k')"
proof (cases "k \<in> set (keys q)")
  case True
  then show ?thesis
    by (simp add: obj_set_def get_def map_of_replace_value)
next
  case False
  then have "map_of q k = None" by (simp add: keys_def map_of_eq_None_iff)
  with False show ?thesis
    by (auto simp: obj_set_def get_def map_of_insert_index map_add_def split: option.splits)
qed

lemma entry_obj_set: "(k, v) \<in> set (obj_set q k v)"
  by (simp add: obj_set_def entry_replace_value entry_insert_index)

lemma distinct_define_all: "distinct (keys t) \<Longrightarrow> distinct (keys (define_all t ps))"
  by (induction t ps rule: define_all.induct) (simp_all add: distinct_obj_set)

lemma distinct_spread_into: "distinct (keys t) \<Longrightarrow> distinct (keys (spread_into t src))"
  by (cases src) (simp_all add: spread_into_def distinct_define_all)

lemma distinct_with_timestamp: "distinct (keys (with_timestamp q ts))"
proof -
  have "distinct (keys [])" by (simp add: keys_def)
  then show ?thesis
    by (simp add: with_timestamp_def distinct_obj_set distinct_spread_into)
qed

lemma get_obj_delete: "get (obj_delete q k) k' = (if k' = k then JUndefined else get q k')"
proof -
  have "map_of (filter (\<lambda>p. fst p \<noteq> k) q) k' = (if k' = k then None else map_of q k')"
    by (induction q) auto
  then show ?thesis by (simp add: get_def obj_delete_def)
qed

lemma keys_obj_delete: "set (keys (obj_delete q k)) = set (keys q) - {k}"
  by (auto simp: keys_def obj_delete_def)

lemma well_formed_prefix: "well_formed (xs @ ys) \<Longrightarrow> well_formed xs"
  by (simp add: well_formed_def keys_def sorted_wrt_append)

lemma insert_index_last:
  assumes "is_array_index k"
    and "\<forall>k' \<in> set (keys t). key_precedes k' k"
  shows "insert_index k v t = t @ [(k, v)]"
  using assms(2)
proof (induction t)
  case Nil
  then show ?case by simp
next
  case (Cons p t)
  obtain k' v' where p: "p = (k', v')" by (cases p)
  from Cons.prems have "key_precedes k' k" and rest: "\<forall>x \<in> set (keys t). key_precedes x k"
    by (simp_all add: keys_def p)
  with assms(1) have "is_array_index k' \<and> decimal_value k' < decimal_value k"
    by (simp add: key_precedes_def split: if_splits)
  with Cons.IH[OF rest] show ?case by (simp add: p)
qed

lemma obj_set_last:
  assumes "well_formed (t @ [(k, v)])"
  shows "obj_set t k v = t @ [(k, v)]"
proof -
  from assms have fresh: "k \<notin> set (keys t)"
    and before: "\<forall>k' \<in> set (keys t). key_precedes k' k"
    by (auto simp: well_formed_def keys_def sorted_wrt_append)
  show ?thesis
  proof (cases "is_array_index k")
    case True
    with fresh before show ?thesis by (simp add: obj_set_def insert_index_last)
  next
    case False
    with fresh show ?thesis by (simp add: obj_set_def)
  qed
qed

lemma define_all_well_formed: "well_formed (t @ ps) \<Longrightarrow> define_all t ps = t @ ps"
proof (induction t ps rule: define_all.induct)
  case (1 target)
  then show ?case by simp
next
  case (2 target k v ps)
  from "2.prems" have "well_formed ((target @ [(k, v)]) @ ps)" by simp
  then have "well_formed (target @ [(k, v)])" by (rule well_formed_prefix)
  then have step: "obj_set target k v = target @ [(k, v)]" by (rule obj_set_last)
  with "2.IH" "2.prems" show ?case by simp
qed

lemma spread_well_formed: "well_formed q \<Longrightarrow> spread_into [] (Some q) = q"
  using define_all_well_formed[of "[]" q] by (simp add: spread_into_def)

lemma not_index_timestamp: "\<not> is_array_index ''timestamp''"
  by (simp add: is_array_index_def)

lemma not_index_signature: "\<not> is_array_index ''signature''"
  by (simp add: is_array_index_def)

lemma with_timestamp_appends:
  assumes "well_formed q" and "''timestamp'' \<notin> set (keys q)"
  shows "with_timestamp (Some q) ts = q @ [(''timestamp'', ts)]"
  using assms by (simp add: with_timestamp_def spread_well_formed obj_set_def not_index_timestamp)

lemma signed_params_append:
  assumes "well_formed q" and "''timestamp'' \<notin> set (keys q)" and "''signature'' \<notin> set (keys q)"
  shows "obj_set (with_timestamp (Some q) ts) ''signature'' sg
         = q @ [(''timestamp'', ts), (''signature'', sg)]"
  using assms
  by (simp add: with_timestamp_appends obj_set_def not_index_signature keys_def)
lemma entries_replace_value: "set (replace_value k v q) \<subseteq> insert (k, v) (set q)"
  by (induction k v q rule: replace_value.induct) auto

lemma entries_insert_index: "set (insert_index k v q) = insert (k, v) (set q)"
  by (induction k v q rule: insert_index.induct) auto

lemma entries_obj_set: "set (obj_set q k v) \<subseteq> insert (k, v) (set q)"
  using entries_replace_value[of k v q]
  by (auto simp: obj_set_def entries_insert_index)

section \<open>Properties of the query encoder\<close>

lemma get_of_entry: "distinct (keys q) \<Longrightarrow> (k, v) \<in> set q \<Longrightarrow> get q k = v"
  by (simp add: get_def keys_def)

lemma keys_filter_entries:
  assumes "distinct (keys q)"
  shows "map (\<lambda>k. f k (get q k)) (filter (\<lambda>k. P (get q k)) (keys q))
         = map (\<lambda>p. f (fst p) (snd p)) (filter (\<lambda>p. P (snd p)) q)"
proof -
  have "filter (\<lambda>k. P (get q k)) (map fst q) = map fst (filter (\<lambda>p. P (snd p)) q)"
    unfolding filter_map comp_def
    by (rule arg_cong[where f="map fst"], rule filter_cong) (auto simp: get_of_entry[OF assms])
  moreover have "map (\<lambda>k. f k (get q k)) (map fst (filter (\<lambda>p. P (snd p)) q))
        = map (\<lambda>p. f (fst p) (snd p)) (filter (\<lambda>p. P (snd p)) q)"
    unfolding map_map comp_def
    by (rule map_cong) (auto simp: get_of_entry[OF assms])
  ultimately show ?thesis by (simp add: keys_def)
qed

lemma digit_char_hex: "d < 16 \<Longrightarrow> digit_char d \<in> set ''0123456789ABCDEF''"
  unfolding digit_char_def by (rule nth_mem) simp

lemma encode_char_alphabet:
  "set (encode_char c) \<subseteq> {x. uri_unreserved x} \<union> {CHR ''%''} \<union> set ''0123456789ABCDEF''"
proof (cases "uri_unreserved c")
  case True
  then show ?thesis by (simp add: encode_char_def)
next
  case False
  define H where "H = set ''0123456789ABCDEF''"
  have "(of_char c :: nat) < 16 * 16" using nat_of_char_less_256[of c] by simp
  then have "of_char c div 16 < (16::nat)" by (rule less_mult_imp_div_less)
  then have hi: "digit_char (of_char c div 16) \<in> H"
    unfolding H_def by (rule digit_char_hex)
  have "of_char c mod 16 < (16::nat)" by simp
  then have lo: "digit_char (of_char c mod 16) \<in> H"
    unfolding H_def by (rule digit_char_hex)
  have "set (encode_char c) \<subseteq> {x. uri_unreserved x} \<union> {CHR ''%''} \<union> H"
    using False hi lo by (simp add: encode_char_def)
  then show ?thesis by (simp only: H_def)
qed

lemma encodeURIComponent_alphabet:
  "set (encodeURIComponent s) \<subseteq> {x. uri_unreserved x} \<union> {CHR ''%''} \<union> set ''0123456789ABCDEF''"
  unfolding encodeURIComponent_def using encode_char_alphabet by fastforce

lemma encodeURIComponent_no_separator:
  "CHR ''&'' \<notin> set (encodeURIComponent s) \<and> CHR ''='' \<notin> set (encodeURIComponent s)
   \<and> CHR ''?'' \<notin> set (encodeURIComponent s)"
proof -
  have "\<not> uri_unreserved CHR ''&''" "\<not> uri_unreserved CHR ''=''" "\<not> uri_unreserved CHR ''?''"
    by (simp_all add: uri_unreserved_def)
  then show ?thesis using encodeURIComponent_alphabet[of s] by auto
qed
lemma those_rendering:
  "those (map (\<lambda>k. map_option (g k) (ToString (v k))) ks)
   = (if list_all (\<lambda>k. ToString (v k) \<noteq> None) ks
      then Some (map (\<lambda>k. g k (string_of (v k))) ks) else None)"
  by (induction ks) (auto simp: string_of_def split: option.splits)

lemma renderable_iff:
  "renderable q = (\<forall>p \<in> set q. truthy (snd p) \<longrightarrow> ToString (snd p) \<noteq> None)"
  by (auto simp: renderable_def rendered_def list_all_iff)

lemma rendered_keys:
  assumes "distinct (keys q)"
  shows "list_all (\<lambda>k. ToString (get q k) \<noteq> None) (filter (\<lambda>k. truthy (get q k)) (keys q))
         = renderable q"
proof -
  have "map (\<lambda>k. ToString (get q k) \<noteq> None) (filter (\<lambda>k. truthy (get q k)) (keys q))
        = map (\<lambda>p. ToString (snd p) \<noteq> None) (filter (\<lambda>p. truthy (snd p)) q)"
    using keys_filter_entries[OF assms, of "\<lambda>k v. ToString v \<noteq> None" truthy] by simp
  then have "list_all (\<lambda>b. b) (map (\<lambda>k. ToString (get q k) \<noteq> None) (filter (\<lambda>k. truthy (get q k)) (keys q)))
        = list_all (\<lambda>b. b) (map (\<lambda>p. ToString (snd p) \<noteq> None) (filter (\<lambda>p. truthy (snd p)) q))"
    by simp
  then show ?thesis
    by (simp add: list.pred_map comp_def renderable_def rendered_def)
qed

lemma makeQueryString_entries:
  assumes "distinct (keys q)"
  shows "makeQueryString (Some q)
         = (if renderable q then Inr (''?'' @ join ''&'' (map render_pair (rendered q)))
            else Inl TypeError)"
proof -
  let ?ks = "filter (\<lambda>k. truthy (get q k)) (keys q)"
  have pairs: "map (\<lambda>k. encodeURIComponent k @ ''='' @ encodeURIComponent (string_of (get q k))) ?ks
        = map render_pair (rendered q)"
    using keys_filter_entries[OF assms, of "\<lambda>k v. encodeURIComponent k @ ''='' @ encodeURIComponent (string_of v)" truthy]
    by (simp add: render_pair_def rendered_def)
  have "those (map (\<lambda>k. map_option (\<lambda>s. encodeURIComponent k @ ''='' @ encodeURIComponent s)
                            (ToString (get q k))) ?ks)
        = (if renderable q then Some (map render_pair (rendered q)) else None)"
    unfolding those_rendering rendered_keys[OF assms] pairs ..
  then show ?thesis
    by (simp add: makeQueryString_def)
qed

lemma makeQueryString_error: "makeQueryString q = Inl ex \<Longrightarrow> ex = TypeError"
  by (auto simp: makeQueryString_def split: option.splits)

lemma makeQueryString_question:
  "makeQueryString (Some ps) = Inr s \<Longrightarrow> s = CHR ''?'' # drop 1 s"
  by (auto simp: makeQueryString_def split: option.splits)

lemma makeQueryString_strip:
  "makeQueryString (Some ps) = Inr s \<Longrightarrow> strip_leading_question s = drop 1 s"
  using makeQueryString_question[of ps s] by (cases s) (simp_all add: strip_leading_question_def)

lemma scalar_ToString: "scalar v \<Longrightarrow> ToString v \<noteq> None"
  by (cases v) simp_all

lemma renderable_obj_set:
  assumes "renderable t" and "truthy v \<Longrightarrow> ToString v \<noteq> None"
  shows "renderable (obj_set t k v)"
  unfolding renderable_iff
proof
  fix p assume "p \<in> set (obj_set t k v)"
  with entries_obj_set[of t k v] have "p = (k, v) \<or> p \<in> set t" by auto
  with assms show "truthy (snd p) \<longrightarrow> ToString (snd p) \<noteq> None"
    by (auto simp: renderable_iff)
qed

section \<open>Evaluating strings and runs\<close>

lemma digits_numeral [simp]:
  "digits (numeral n) =
     (if numeral n < (10::nat) then [digit_char (numeral n)]
      else digits (numeral n div 10) @ [digit_char (numeral n mod 10)])"
  by (rule digits.simps)

lemma digits_small [simp]: "digits 0 = ''0''" "digits (Suc 0) = ''1''"
  by (simp_all add: digits.simps digit_char_def)

lemmas eval_string = encodeURIComponent_def encode_char_def uri_unreserved_def digit_char_def
  int_to_string_def render_pair_def string_of_def rendered_def

text \<open>What evaluating a run of the sample client unfolds.\<close>

lemmas eval_client = privCall_def pubCall_def futuresPrivCall_def futuresPubCall_def
  spot_base_def future_base_def config_of_def sample_opts_def sample_env_def not_given_def
  str_of_def BASE_def FUTURE_BASE_def API_PATH_BASE_def FUTURES_API_PATH_BASE_def

lemmas eval_request = signed_request_def final_params_def message_to_sign_def
  signing_events_def strip_leading_question_def spread_into_def obj_set_def obj_delete_def
  is_array_index_def makeQueryString_def keys_def get_def time_request_def descriptor_of_def
  payload_after_delete_def world_with_def sample_hmac_def sample_digests_def

lemma get_in_entries: "k \<in> set (keys q) \<Longrightarrow> (k, get q k) \<in> set q"
proof -
  assume "k \<in> set (keys q)"
  then have "map_of q k \<noteq> None"
    by (simp add: keys_def map_of_eq_None_iff)
  then obtain v where "map_of q k = Some v"
    by blast
  then show ?thesis by (simp add: get_def map_of_SomeD)
qed

lemma makeQueryString_all_falsy:
  assumes "\<forall>p \<in> set q. \<not> truthy (snd p)"
  shows "makeQueryString (Some q) = Inr ''?''"
proof -
  have "filter (\<lambda>k. truthy (get q k)) (keys q) = []"
    unfolding filter_empty_conv using assms get_in_entries by fastforce
  then show ?thesis by (simp add: makeQueryString_def)
qed

lemma renderable_scalars: "\<forall>p \<in> set q. scalar (snd p) \<Longrightarrow> renderable q"
  by (simp add: renderable_iff scalar_ToString)

section \<open>The rendering of the query string\<close>

text \<open>
  \<^bold>\<open>C4\<close>, as the code has it. The query encoder omits every key whose value is falsy,
  renders the remaining pairs percent-encoded as \<open>key=value\<close> (so that no \<^verbatim>\<open>&\<close> occurs inside
  a pair), joined by \<^verbatim>\<open>&\<close> after a leading \<^verbatim>\<open>?\<close>, in the order the object enumerates its
  keys, without sorting. For an absent mapping (\<open>null\<close> or \<open>undefined\<close>) it produces the
  empty string; for an empty object, or one whose values are all falsy, it produces the
  lone \<^verbatim>\<open>?\<close>, not the empty string. It throws a TypeError exactly when one of the values
  it has to render has no string form; every scalar value has one, and an object has
  one unless \<open>toString\<close> is among its own keys.
\<close>

theorem makeQueryString_rendering:
  "makeQueryString None = Inr []
   \<and> makeQueryString (Some []) = Inr ''?''
   \<and> ((\<forall>p \<in> set q. \<not> truthy (snd p)) \<longrightarrow> makeQueryString (Some q) = Inr ''?'')
   \<and> (distinct (keys q) \<longrightarrow>
        makeQueryString (Some q)
        = (if \<forall>p \<in> set q. truthy (snd p) \<longrightarrow> ToString (snd p) \<noteq> None
           then Inr (CHR ''?'' # join ''&'' (map render_pair (filter (\<lambda>p. truthy (snd p)) q)))
           else Inl TypeError))
   \<and> ((\<forall>p \<in> set q. scalar (snd p)) \<longrightarrow> (\<forall>p \<in> set q. ToString (snd p) \<noteq> None))
   \<and> ToString (JObj ps) = (if ''toString'' \<in> set (keys ps) then None else Some ''[object Object]'')
   \<and> CHR ''&'' \<notin> set (render_pair p)"
proof -
  have "makeQueryString None = Inr []" by (simp add: makeQueryString_def)
  moreover have "ToString (JObj ps) = (if ''toString'' \<in> set (keys ps) then None else Some ''[object Object]'')"
    by (simp add: keys_def)
  moreover have "makeQueryString (Some []) = Inr ''?''" by (simp add: makeQueryString_def keys_def)
  moreover have "CHR ''&'' \<notin> set (render_pair p)"
    using encodeURIComponent_no_separator by (simp add: render_pair_def)
  moreover have "distinct (keys q) \<longrightarrow>
        makeQueryString (Some q)
        = (if \<forall>p \<in> set q. truthy (snd p) \<longrightarrow> ToString (snd p) \<noteq> None
           then Inr (CHR ''?'' # join ''&'' (map render_pair (filter (\<lambda>p. truthy (snd p)) q)))
           else Inl TypeError)"
  proof
    assume d: "distinct (keys q)"
    show "makeQueryString (Some q)
        = (if \<forall>p \<in> set q. truthy (snd p) \<longrightarrow> ToString (snd p) \<noteq> None
           then Inr (CHR ''?'' # join ''&'' (map render_pair (filter (\<lambda>p. truthy (snd p)) q)))
           else Inl TypeError)"
      unfolding makeQueryString_entries[OF d] renderable_iff rendered_def by simp
  qed
  moreover have "(\<forall>p \<in> set q. scalar (snd p)) \<longrightarrow> (\<forall>p \<in> set q. ToString (snd p) \<noteq> None)"
    using scalar_ToString by blast
  ultimately show ?thesis
    using makeQueryString_all_falsy[of q] by blast
qed

text \<open>
  The documented example with a space in the symbol: the zero-valued \<open>limit\<close> is dropped,
  the order is kept; an object with falsy values only; and an object one of whose values
  has no string form.
\<close>

theorem makeQueryString_rendering_witness:
  "distinct (keys [(''symbol'', JStr ''BTC USDT''), (''limit'', JNum 0), (''fromId'', JNum 1500000000000)])
   \<and> makeQueryString (Some [(''symbol'', JStr ''BTC USDT''), (''limit'', JNum 0), (''fromId'', JNum 1500000000000)])
       = Inr ''?symbol=BTC%20USDT&fromId=1500000000000''
   \<and> makeQueryString (Some [(''limit'', JNum 0), (''recvWindow'', JNull)]) = Inr ''?''
   \<and> makeQueryString (Some [(''symbol'', JStr ''BTCUSDT''), (''filter'', JObj [(''toString'', JNum 1)])])
       = Inl TypeError"
  using makeQueryString_rendering
          [of "[(''symbol'', JStr ''BTC USDT''), (''limit'', JNum 0), (''fromId'', JNum 1500000000000)]"]
        makeQueryString_rendering [of "[(''limit'', JNum 0), (''recvWindow'', JNull)]"]
        makeQueryString_rendering
          [of "[(''symbol'', JStr ''BTCUSDT''), (''filter'', JObj [(''toString'', JNum 1)])]"]
  by (simp add: keys_def eval_string)

text \<open>
  Against \<^bold>\<open>C4\<close> as stated (``for an empty or absent mapping produces the empty string with
  no leading \<^verbatim>\<open>?\<close>''): the empty object is truthy, so the encoder returns \<^verbatim>\<open>?\<close>.
\<close>

theorem makeQueryString_empty_object: "makeQueryString (Some []) = Inr ''?''"
  by (simp add: makeQueryString_def keys_def)

section \<open>Properties of the parameter validator\<close>

lemma param_missing_iff: "param_missing v = (v = JUndefined \<or> v = JNaN)"
  by (cases v) (simp_all add: param_missing_def)

lemma forEach_requires_find:
  "forEach_requires name p rs =
     (case find (\<lambda>r. get p r = JUndefined \<or> get p r = JNaN) rs of
        None \<Rightarrow> None
      | Some r \<Rightarrow> Some (new_Error (''Method '' @ name @ '' requires '' @ r @ '' parameter.'')))"
  by (induction rs) (simp_all add: param_missing_iff)

text \<open>
  \<^bold>\<open>C5\<close>, as the code has it. A \<open>null\<close> or \<open>undefined\<close> payload fails with the error that asks
  for a payload object. Otherwise the validator fails with an error naming the method
  and the first required field whose value is \<open>undefined\<close> (the field is absent) or
  \<open>NaN\<close>; every other value, also the falsy ones \<open>0\<close>, the empty string, \<open>null\<close> and
  \<open>false\<close>, counts as present, and a payload with all required fields present passes
  with \<open>true\<close>.
\<close>

theorem checkParams_outcome:
  "checkParams name None requires = Inl (new_Error ''You need to pass a payload object.'')
   \<and> checkParams name (Some p) None = Inr True
   \<and> checkParams name (Some p) (Some rs) =
       (case find (\<lambda>r. get p r = JUndefined \<or> get p r = JNaN) rs of
          Some r \<Rightarrow> Inl (new_Error (''Method '' @ name @ '' requires '' @ r @ '' parameter.''))
        | None \<Rightarrow> Inr True)"
  by (simp add: checkParams_def forEach_requires_find split: option.splits)

text \<open>
  Against \<^bold>\<open>C5\<close> as stated (``an empty string, null, undefined, or false is considered
  missing''): \<^verbatim>\<open>isNaN('')\<close>, \<^verbatim>\<open>isNaN(null)\<close> and \<^verbatim>\<open>isNaN(false)\<close> are all false, so the
  three values pass.
\<close>

theorem checkParams_accepts_empty_string_null_false:
  "checkParams ''order''
     (Some [(''symbol'', JStr []), (''side'', JNull), (''quantity'', JBool False)])
     (Some [''symbol'', ''side'', ''quantity'']) = Inr True"
  by (simp add: checkParams_def get_def param_missing_def)

text \<open>The documented example (a zero quantity passes), and an absent field.\<close>

lemma checkParams_zero_quantity:
  "checkParams ''order''
     (Some [(''symbol'', JStr ''BTCUSDT''), (''side'', JStr ''BUY''), (''quantity'', JNum 0)])
     (Some [''symbol'', ''side'', ''quantity'']) = Inr True"
  by (simp add: checkParams_def get_def param_missing_def)

lemma checkParams_absent_field:
  "checkParams ''order''
     (Some [(''symbol'', JStr ''BTCUSDT''), (''quantity'', JNum 0)])
     (Some [''symbol'', ''side'', ''quantity''])
   = Inl (new_Error ''Method order requires side parameter.'')"
  by (simp add: checkParams_def get_def param_missing_def)

section \<open>Properties of the result unwrapper\<close>

lemma get_prop_field_of:
  "v \<noteq> JNull \<Longrightarrow> v \<noteq> JUndefined \<Longrightarrow> get_prop v k = Inr (field_of v k)"
  by (cases v) (simp_all add: field_of_def)

lemma failure_error_unparsable:
  "JSON_parse e (body res) = None \<Longrightarrow>
   failure_error e res = Error (status_line res @ '' '' @ body res) None (Some res) (Some (body res))"
  by (simp add: failure_error_def try_api_error_def Let_def)

lemma failure_error_falsy_msg:
  "JSON_parse e (body res) = Some v \<Longrightarrow> v \<noteq> JNull \<Longrightarrow> v \<noteq> JUndefined \<Longrightarrow>
   \<not> truthy (field_of v ''msg'') \<Longrightarrow>
   failure_error e res = Error (status_line res) (Some (field_of v ''code'')) None None"
  by (simp add: failure_error_def try_api_error_def Let_def get_prop_field_of)

lemma failure_error_msg:
  "JSON_parse e (body res) = Some v \<Longrightarrow> v \<noteq> JNull \<Longrightarrow> v \<noteq> JUndefined \<Longrightarrow>
   truthy (field_of v ''msg'') \<Longrightarrow> ToString (field_of v ''msg'') = Some m \<Longrightarrow>
   failure_error e res = Error m (Some (field_of v ''code'')) None None"
  by (simp add: failure_error_def try_api_error_def Let_def get_prop_field_of)

lemma failure_error_msg_throws:
  "JSON_parse e (body res) = Some v \<Longrightarrow> v \<noteq> JNull \<Longrightarrow> v \<noteq> JUndefined \<Longrightarrow>
   truthy (field_of v ''msg'') \<Longrightarrow> ToString (field_of v ''msg'') = None \<Longrightarrow>
   failure_error e res = Error (status_line res @ '' '' @ body res) None (Some res) (Some (body res))"
  by (simp add: failure_error_def try_api_error_def Let_def get_prop_field_of)

lemma failure_error_null:
  "JSON_parse e (body res) = Some v \<Longrightarrow> v = JNull \<or> v = JUndefined \<Longrightarrow>
   failure_error e res = Error (status_line res @ '' '' @ body res) None (Some res) (Some (body res))"
  by (auto simp: failure_error_def try_api_error_def Let_def)

lemma failure_error_exactly_one:
  "is_api_error (failure_error e res) \<noteq> is_transport_error (failure_error e res)"
proof (cases "JSON_parse e (body res)")
  case None
  then show ?thesis
    by (simp add: failure_error_unparsable is_api_error_def is_transport_error_def)
next
  case (Some v)
  show ?thesis
  proof (cases "v = JNull \<or> v = JUndefined")
    case True
    with Some show ?thesis
      by (simp add: failure_error_null is_api_error_def is_transport_error_def)
  next
    case False
    show ?thesis
    proof (cases "truthy (field_of v ''msg'')")
      case falsy: False
      with Some \<open>\<not> (v = JNull \<or> v = JUndefined)\<close> show ?thesis
        by (simp add: failure_error_falsy_msg is_api_error_def is_transport_error_def)
    next
      case True
      with Some False show ?thesis
        by (cases "ToString (field_of v ''msg'')")
           (simp_all add: failure_error_msg failure_error_msg_throws is_api_error_def
              is_transport_error_def)
    qed
  qed
qed

text \<open>
  \<^bold>\<open>C3\<close>, as the code has it by design. A failed response is rejected with exactly one
  of the two kinds of error, never both and never neither. When the body does not parse
  as JSON it is a transport error with the message \<open><status> <statusText> <body>\<close>, the
  response and the body text attached. When the body parses to a JSON value other than
  \<open>null\<close>, it is an API error with the parsed \<open>code\<close> field attached (\<open>undefined\<close> when
  the body has none), whose message is \<open><status> <statusText>\<close> when the \<open>msg\<close> field is
  falsy (absent, or present but empty), and the string form of \<open>msg\<close> when \<open>msg\<close> is
  truthy and has a string form, as every scalar \<open>msg\<close> has, and every object \<open>msg\<close>
  unless \<open>toString\<close> is among its own keys.
\<close>

theorem failed_response_classification:
  "\<not> ok res \<longrightarrow>
     sendResult e (Inr res) = Rejected (failure_error e res)
     \<and> is_api_error (failure_error e res) \<noteq> is_transport_error (failure_error e res)
     \<and> (JSON_parse e (body res) = None \<longrightarrow>
          is_transport_error (failure_error e res)
          \<and> failure_error e res
            = Error (status_line res @ '' '' @ body res) None (Some res) (Some (body res)))
     \<and> (\<forall>v. JSON_parse e (body res) = Some v \<and> v \<noteq> JNull \<and> v \<noteq> JUndefined \<longrightarrow>
          (\<not> truthy (field_of v ''msg'') \<longrightarrow>
             is_api_error (failure_error e res)
             \<and> failure_error e res
               = Error (status_line res) (Some (field_of v ''code'')) None None)
          \<and> (\<forall>m. truthy (field_of v ''msg'') \<and> ToString (field_of v ''msg'') = Some m \<longrightarrow>
                is_api_error (failure_error e res)
                \<and> failure_error e res = Error m (Some (field_of v ''code'')) None None)
          \<and> (scalar (field_of v ''msg'') \<longrightarrow> ToString (field_of v ''msg'') \<noteq> None)
          \<and> (\<forall>ps. field_of v ''msg'' = JObj ps \<longrightarrow>
                (ToString (field_of v ''msg'') \<noteq> None) = (''toString'' \<notin> set (keys ps))))"
  using failure_error_exactly_one[of e res] scalar_ToString
  by (auto simp: sendResult_def failure_error_unparsable failure_error_falsy_msg failure_error_msg
        is_api_error_def is_transport_error_def keys_def)

text \<open>The two documented examples: an API error body and the HTML page of a proxy.\<close>

theorem failed_response_classification_witness:
  "sendResult sample_env
     (Inr \<lparr>ok = False, status = 400, statusText = ''Bad Request'',
           body = ''{\"code\":-1121,\"msg\":\"Invalid symbol.\"}''\<rparr>)
   = Rejected (Error ''Invalid symbol.'' (Some (JNum (- 1121))) None None)
   \<and> sendResult sample_env
     (Inr \<lparr>ok = False, status = 502, statusText = ''Bad Gateway'',
           body = ''<html>502 Bad Gateway</html>''\<rparr>)
   = Rejected (Error ''502 Bad Gateway <html>502 Bad Gateway</html>'' None
        (Some \<lparr>ok = False, status = 502, statusText = ''Bad Gateway'',
               body = ''<html>502 Bad Gateway</html>''\<rparr>)
        (Some ''<html>502 Bad Gateway</html>''))"
  using failed_response_classification
          [of "\<lparr>ok = False, status = 400, statusText = ''Bad Request'',
                body = ''{\"code\":-1121,\"msg\":\"Invalid symbol.\"}''\<rparr>" sample_env]
        failed_response_classification
          [of "\<lparr>ok = False, status = 502, statusText = ''Bad Gateway'',
                body = ''<html>502 Bad Gateway</html>''\<rparr>" sample_env]
  by (simp add: sample_env_def sample_parse_def field_of_def get_def status_line_def eval_string)

text \<open>
  Against \<^bold>\<open>C3\<close> as stated (``whose message is the parsed msg field when present''): a
  \<open>msg\<close> field that is present and empty is passed over by \<^verbatim>\<open>json.msg || ...\<close>, and the
  message is the status line.
\<close>

theorem failed_response_empty_msg:
  "sendResult sample_env
     (Inr \<lparr>ok = False, status = 400, statusText = ''Bad Request'',
           body = ''{\"code\":-1000,\"msg\":\"\"}''\<rparr>)
   = Rejected (Error ''400 Bad Request'' (Some (JNum (- 1000))) None None)"
  by (simp add: sendResult_def failure_error_def try_api_error_def Let_def sample_env_def sample_parse_def
        get_def status_line_def eval_string)

text \<open>
  Two bodies that are JSON and still end in a transport error, against the comments of
  the two blocks: the body \<^verbatim>\<open>null\<close>, on which \<^verbatim>\<open>json.msg\<close> throws inside the \<^verbatim>\<open>try\<close> block,
  and a \<open>msg\<close> that has no string form, on which \<^verbatim>\<open>new Error\<close> throws there.
\<close>

lemma failed_response_null_body:
  "sendResult sample_env
     (Inr \<lparr>ok = False, status = 502, statusText = ''Bad Gateway'', body = ''null''\<rparr>)
   = Rejected (Error ''502 Bad Gateway null'' None
        (Some \<lparr>ok = False, status = 502, statusText = ''Bad Gateway'', body = ''null''\<rparr>)
        (Some ''null''))"
  by (simp add: sendResult_def failure_error_def try_api_error_def Let_def sample_env_def sample_parse_def
        status_line_def eval_string)

lemma failed_response_msg_without_string_form:
  "sendResult sample_env
     (Inr \<lparr>ok = False, status = 400, statusText = ''Bad Request'',
           body = ''{\"code\":-1,\"msg\":{\"toString\":1}}''\<rparr>)
   = Rejected (Error ''400 Bad Request {\"code\":-1,\"msg\":{\"toString\":1}}'' None
        (Some \<lparr>ok = False, status = 400, statusText = ''Bad Request'',
               body = ''{\"code\":-1,\"msg\":{\"toString\":1}}''\<rparr>)
        (Some ''{\"code\":-1,\"msg\":{\"toString\":1}}''))"
  by (simp add: sendResult_def failure_error_def try_api_error_def Let_def sample_env_def sample_parse_def
        get_def status_line_def eval_string)

section \<open>Runs of the callers\<close>

lemma default_object_trace:
  "default_object d w = (dat, w0) \<Longrightarrow> trace w0 = trace w"
  by (cases d) (auto simp: default_object_def alloc_def)

lemma default_object_given:
  "d \<noteq> DUndefined \<Longrightarrow> default_object d w = (d, w)"
  by (cases d) (simp_all add: default_object_def)

lemma publicCall_run:
  "publicCall e cfg d w =
     (case makeQueryString (resolve w (data d)) of
        Inl ex \<Rightarrow> (Thrown ex, w)
      | Inr qs \<Rightarrow>
          (sendResult e (net e (trace w)
             \<lparr>req_url = base cfg @ ''/'' @ apiPathBase cfg @ path d @ qs,
              req_method = (case http_method d of None \<Rightarrow> ''GET'' | Some m \<Rightarrow> m),
              req_headers = (case headers d of None \<Rightarrow> [] | Some h \<Rightarrow> h),
              req_agent = agent d\<rparr>),
           w\<lparr>trace := trace w @
             [Fetch \<lparr>req_url = base cfg @ ''/'' @ apiPathBase cfg @ path d @ qs,
                     req_method = (case http_method d of None \<Rightarrow> ''GET'' | Some m \<Rightarrow> m),
                     req_headers = (case headers d of None \<Rightarrow> [] | Some h \<Rightarrow> h),
                     req_agent = agent d\<rparr>]\<rparr>))"
  by (simp add: publicCall_def fetch_def Let_def split: sum.splits)

lemma publicCall_time:
  "publicCall e pcfg ((descriptor_of ''/v1/time'')\<lparr>agent := ag\<rparr>) w =
     (sendResult e (net e (trace w) (time_request pcfg ag)),
      w\<lparr>trace := trace w @ [Fetch (time_request pcfg ag)]\<rparr>)"
  by (simp add: publicCall_run descriptor_of_def time_request_def resolve_def makeQueryString_def)

lemma resolve_timestamp_server:
  "truthy (useServerTime_flag w dat) \<Longrightarrow>
   resolve_timestamp e cfg (publicCall e pcfg) dat ag w =
     (then_serverTime (sendResult e (net e (trace w) (time_request pcfg ag))),
      w\<lparr>trace := trace w @ [Fetch (time_request pcfg ag)]\<rparr>)"
  by (simp add: resolve_timestamp_def publicCall_time)

lemma resolve_timestamp_clock:
  "\<not> truthy (useServerTime_flag w dat) \<Longrightarrow>
   resolve_timestamp e cfg pc dat ag w =
     (Fulfilled (call_getTime e cfg (trace w)), w\<lparr>trace := trace w @ [ClockRead]\<rparr>)"
  by (simp add: resolve_timestamp_def)

lemma then_serverTime_not_thrown:
  "then_serverTime (sendResult e r) \<noteq> Thrown ex"
  by (auto simp: then_serverTime_def sendResult_def split: sum.splits option.splits)

lemma privateCall_unconfigured:
  "not_given (apiKey cfg) \<or> not_given (apiSecret cfg) \<Longrightarrow>
   privateCall e cfg pc d w =
     (Thrown (new_Error ''You need to pass an API key and secret to make authenticated calls.''),
      snd (default_object (data d) w))"
  by (auto simp: privateCall_def split: prod.splits)

lemma message_to_sign_encoder:
  "message_to_sign q ts =
     (case makeQueryString (Some (with_timestamp q ts)) of
        Inl ex \<Rightarrow> None | Inr s \<Rightarrow> Some (drop 1 s))"
  by (auto simp: message_to_sign_def with_timestamp_def makeQueryString_strip split: sum.splits)

lemma private_url_error: "private_url cfg p nd nw = Inl ex \<Longrightarrow> ex = TypeError"
  by (auto simp: private_url_def makeQueryString_error split: sum.splits if_splits)

lemma signed_request_url:
  "signed_request e cfg d q ts m =
     (case private_url cfg (path d) (noData d)
             (newData_of (noExtra d) q ts (hmac_sha256_hex e (str_of (apiSecret cfg)) m)) of
        Inl ex \<Rightarrow> None
      | Inr url \<Rightarrow>
          Some \<lparr>req_url = url,
                req_method = (case http_method d of None \<Rightarrow> ''GET'' | Some x \<Rightarrow> x),
                req_headers = [(''X-MBX-APIKEY'', str_of (apiKey cfg))],
                req_agent = agent d\<rparr>)"
  by (auto simp: signed_request_def final_params_def private_url_def newData_of_def
        with_timestamp_def split: sum.splits)

lemma resolve_after_delete:
  "resolve ((delete_useServerTime dat w0)\<lparr>trace := tr\<rparr>) dat = payload_after_delete w0 dat"
  by (cases dat) (simp_all add: resolve_def delete_useServerTime_def payload_after_delete_def)

text \<open>
  The callback of the private caller, in the notions of the specification: what it
  returns and the world it leaves.
\<close>

lemma sign_and_send_at:
  "sign_and_send e cfg d dat ts (w0\<lparr>trace := tr\<rparr>) =
     (case message_to_sign (payload_after_delete w0 dat) ts of
        None \<Rightarrow> (Rejected TypeError, (delete_useServerTime dat w0)\<lparr>trace := tr\<rparr>)
      | Some m \<Rightarrow>
          (case signed_request e cfg d (payload_after_delete w0 dat) ts m of
             None \<Rightarrow>
               (Rejected TypeError,
                (delete_useServerTime dat w0)\<lparr>trace := tr @ [Signed (str_of (apiSecret cfg)) m]\<rparr>)
           | Some req \<Rightarrow>
               (sendResult e (net e (tr @ [Signed (str_of (apiSecret cfg)) m]) req),
                (delete_useServerTime dat w0)
                  \<lparr>trace := tr @ [Signed (str_of (apiSecret cfg)) m, Fetch req]\<rparr>)))"
proof -
  let ?q = "payload_after_delete w0 dat"
  have del: "delete_useServerTime dat (w0\<lparr>trace := tr\<rparr>) = (delete_useServerTime dat w0)\<lparr>trace := tr\<rparr>"
    by (cases dat) (simp_all add: delete_useServerTime_def)
  show ?thesis
  proof (cases "makeQueryString (Some (with_timestamp ?q ts))")
    case (Inl ex)
    then have "ex = TypeError" by (rule makeQueryString_error)
    with Inl show ?thesis
      by (simp add: sign_and_send_def Let_def del resolve_after_delete message_to_sign_encoder)
  next
    case (Inr s)
    let ?m = "drop 1 s"
    have m: "message_to_sign ?q ts = Some ?m"
      using Inr by (simp add: message_to_sign_encoder)
    show ?thesis
    proof (cases "private_url cfg (path d) (noData d)
             (newData_of (noExtra d) ?q ts (hmac_sha256_hex e (str_of (apiSecret cfg)) ?m))")
      case url: (Inl ex)
      then have "ex = TypeError" by (rule private_url_error)
      with url Inr m show ?thesis
        by (simp add: sign_and_send_def Let_def del resolve_after_delete signed_request_url)
    next
      case url: (Inr u)
      with Inr m show ?thesis
        by (simp add: sign_and_send_def Let_def del resolve_after_delete signed_request_url fetch_def)
    qed
  qed
qed

text \<open>
  A configured private caller over the public caller, on any descriptor: what it returns
  and the world it leaves, from the outcome of the timestamp resolution.
\<close>

lemma privateCall_run:
  assumes "\<not> not_given (apiKey cfg)" "\<not> not_given (apiSecret cfg)"
    and "default_object (data d) w = (dat, w0)"
    and "resolve_timestamp e cfg (publicCall e pcfg) dat (agent d) w0 = (t, w1)"
  shows "privateCall e cfg (publicCall e pcfg) d w =
           (case t of
              Fulfilled ts \<Rightarrow>
                (case message_to_sign (payload_after_delete w0 dat) ts of
                   None \<Rightarrow> (Rejected TypeError, (delete_useServerTime dat w0)\<lparr>trace := trace w1\<rparr>)
                 | Some m \<Rightarrow>
                     (case signed_request e cfg d (payload_after_delete w0 dat) ts m of
                        None \<Rightarrow>
                          (Rejected TypeError,
                           (delete_useServerTime dat w0)
                             \<lparr>trace := trace w1 @ [Signed (str_of (apiSecret cfg)) m]\<rparr>)
                      | Some req \<Rightarrow>
                          (sendResult e (net e (trace w1 @ [Signed (str_of (apiSecret cfg)) m]) req),
                           (delete_useServerTime dat w0)
                             \<lparr>trace := trace w1 @ [Signed (str_of (apiSecret cfg)) m, Fetch req]\<rparr>)))
            | Rejected ex \<Rightarrow> (Rejected ex, w1)
            | Thrown ex \<Rightarrow> (Thrown ex, w1))"
proof -
  obtain tr where w1: "w1 = w0\<lparr>trace := tr\<rparr>"
    using assms(4)
    by (cases "truthy (useServerTime_flag w0 dat)")
       (auto simp: resolve_timestamp_server resolve_timestamp_clock)
  then have w1': "w1 = w0\<lparr>trace := trace w1\<rparr>"
    by simp
  have callback: "sign_and_send e cfg d dat ts w1 =
     (case message_to_sign (payload_after_delete w0 dat) ts of
        None \<Rightarrow> (Rejected TypeError, (delete_useServerTime dat w0)\<lparr>trace := trace w1\<rparr>)
      | Some m \<Rightarrow>
          (case signed_request e cfg d (payload_after_delete w0 dat) ts m of
             None \<Rightarrow>
               (Rejected TypeError,
                (delete_useServerTime dat w0)\<lparr>trace := trace w1 @ [Signed (str_of (apiSecret cfg)) m]\<rparr>)
           | Some req \<Rightarrow>
               (sendResult e (net e (trace w1 @ [Signed (str_of (apiSecret cfg)) m]) req),
                (delete_useServerTime dat w0)
                  \<lparr>trace := trace w1 @ [Signed (str_of (apiSecret cfg)) m, Fetch req]\<rparr>)))" for ts
    by (subst w1') (rule sign_and_send_at)
  have "privateCall e cfg (publicCall e pcfg) d w =
          (case t of Fulfilled timestamp \<Rightarrow> sign_and_send e cfg d dat timestamp w1
           | Rejected ex \<Rightarrow> (Rejected ex, w1) | Thrown ex \<Rightarrow> (Thrown ex, w1))"
    using assms by (simp add: privateCall_def)
  then show ?thesis
    by (simp add: callback split: completion.splits)
qed

lemma privateCall_trace:
  assumes "\<not> not_given (apiKey cfg)" "\<not> not_given (apiSecret cfg)"
    and "default_object (data d) w = (dat, w0)"
    and "resolve_timestamp e cfg (publicCall e pcfg) dat (agent d) w0 = (Fulfilled ts, w1)"
  shows "trace (snd (privateCall e cfg (publicCall e pcfg) d w))
         = trace w1 @ signing_events e cfg d (payload_after_delete w0 dat) ts"
    and "heap (snd (privateCall e cfg (publicCall e pcfg) d w)) = heap (delete_useServerTime dat w0)"
  using privateCall_run[OF assms]
  by (simp_all add: signing_events_def split: option.splits)

lemma privateCall_failed:
  assumes "\<not> not_given (apiKey cfg)" "\<not> not_given (apiSecret cfg)"
    and "default_object (data d) w = (dat, w0)"
    and "resolve_timestamp e cfg (publicCall e pcfg) dat (agent d) w0 = (Rejected ex, w1)"
  shows "privateCall e cfg (publicCall e pcfg) d w = (Rejected ex, w1)"
  using privateCall_run[OF assms] by simp

section \<open>The signature\<close>

lemma distinct_signed_params:
  "distinct (keys (obj_set (spread_into [] q) ''timestamp'' ts))"
  "distinct (keys (obj_set (obj_set (spread_into [] q) ''timestamp'' ts) ''signature'' sg))"
  using distinct_with_timestamp[of q ts] distinct_obj_set[OF distinct_with_timestamp, of q ts]
  by (simp_all add: with_timestamp_def)

lemma encoder_renderable:
  "distinct (keys q) \<Longrightarrow> makeQueryString (Some q) = Inr s \<Longrightarrow> renderable q"
  by (simp add: makeQueryString_entries split: if_splits)

lemma signed_params_render:
  assumes "makeQueryString (Some (obj_set (spread_into [] q) ''timestamp'' ts)) = Inr s"
  shows "makeQueryString
           (Some (obj_set (obj_set (spread_into [] q) ''timestamp'' ts) ''signature'' (JStr sg)))
         = Inr (''?'' @ join ''&''
                  (map render_pair
                     (rendered (obj_set (obj_set (spread_into [] q) ''timestamp'' ts) ''signature''
                                  (JStr sg)))))"
proof -
  have "renderable (obj_set (spread_into [] q) ''timestamp'' ts)"
    using encoder_renderable[OF distinct_signed_params(1) assms] .
  then have "renderable (obj_set (obj_set (spread_into [] q) ''timestamp'' ts) ''signature'' (JStr sg))"
    by (rule renderable_obj_set) simp
  then show ?thesis
    by (simp add: makeQueryString_entries[OF distinct_signed_params(2)])
qed

text \<open>
  \<^bold>\<open>C1\<close>, for a private caller with its credentials whose timestamp \<open>ts\<close> is resolved.
  When the query encoder renders the payload (the caller's, after the deletion of
  \<open>useServerTime\<close>) extended with the \<open>timestamp\<close> key to \<open>s\<close>, then \<open>s\<close> begins with
  \<^verbatim>\<open>?\<close>, and the one digest computed in the call is the HMAC with the secret as key and
  \<open>s\<close> without that \<^verbatim>\<open>?\<close> as message; when neither the no-extra nor the no-data flag is set,
  the request issued last carries that digest as the value of \<open>signature\<close>. When the
  encoder throws on the extended payload, the call is rejected and no digest is computed.
  For a well-formed payload without a \<open>timestamp\<close> key the extended payload is the payload
  with the timestamp pair appended, and the rendering is \<^verbatim>\<open>?\<close> and the \<^verbatim>\<open>&\<close>-joined truthy
  pairs. The digest is that of the HMAC function on the secret and the message, so it is
  determined by the secret, the payload and the timestamp.
\<close>

theorem signature_is_hmac_of_query_string:
  "(\<not> not_given (apiKey cfg) \<and> \<not> not_given (apiSecret cfg)
    \<and> default_object (data d) w = (dat, w0)
    \<and> resolve_timestamp e cfg (publicCall e pcfg) dat (agent d) w0 = (Fulfilled ts, w1) \<longrightarrow>
    (\<forall>s. makeQueryString
            (Some (obj_set (spread_into [] (payload_after_delete w0 dat)) ''timestamp'' ts)) = Inr s \<longrightarrow>
       s = CHR ''?'' # strip_leading_question s
       \<and> (\<exists>post. trace (snd (privateCall e cfg (publicCall e pcfg) d w))
                   = trace w1 @ Signed (str_of (apiSecret cfg)) (strip_leading_question s) # post
                 \<and> (\<forall>k m. Signed k m \<notin> set post))
       \<and> (\<not> truthy (noExtra d) \<and> \<not> truthy (noData d) \<longrightarrow>
            last (trace (snd (privateCall e cfg (publicCall e pcfg) d w)))
            = Fetch
                \<lparr>req_url =
                   base cfg
                   @ (if includes_str (path d) ''/wapi'' \<or> includes_str (path d) ''/sapi'' then []
                      else ''/'' @ apiPathBase cfg)
                   @ path d
                   @ CHR ''?'' #
                     join ''&''
                       (map render_pair
                          (filter (\<lambda>x. truthy (snd x))
                             (obj_set
                                (obj_set (spread_into [] (payload_after_delete w0 dat)) ''timestamp'' ts)
                                ''signature''
                                (JStr (hmac_sha256_hex e (str_of (apiSecret cfg))
                                         (strip_leading_question s)))))),
                 req_method = (case http_method d of None \<Rightarrow> ''GET'' | Some x \<Rightarrow> x),
                 req_headers = [(''X-MBX-APIKEY'', str_of (apiKey cfg))],
                 req_agent = agent d\<rparr>))
    \<and> (\<forall>ex. makeQueryString
               (Some (obj_set (spread_into [] (payload_after_delete w0 dat)) ''timestamp'' ts)) = Inl ex \<longrightarrow>
          privateCall e cfg (publicCall e pcfg) d w
          = (Rejected TypeError, (delete_useServerTime dat w0)\<lparr>trace := trace w1\<rparr>)))
   \<and> (well_formed p \<and> ''timestamp'' \<notin> set (keys p)
        \<and> (\<forall>x \<in> set (p @ [(''timestamp'', t)]). truthy (snd x) \<longrightarrow> ToString (snd x) \<noteq> None) \<longrightarrow>
        makeQueryString (Some (obj_set (spread_into [] (Some p)) ''timestamp'' t))
        = Inr (CHR ''?'' #
               join ''&'' (map render_pair (filter (\<lambda>x. truthy (snd x)) (p @ [(''timestamp'', t)])))))"
proof (intro conjI impI allI)
  assume wf: "well_formed p \<and> ''timestamp'' \<notin> set (keys p)
        \<and> (\<forall>x \<in> set (p @ [(''timestamp'', t)]). truthy (snd x) \<longrightarrow> ToString (snd x) \<noteq> None)"
  then have ext: "obj_set (spread_into [] (Some p)) ''timestamp'' t = p @ [(''timestamp'', t)]"
    using with_timestamp_appends[of p t] by (simp add: with_timestamp_def)
  have "distinct (keys (p @ [(''timestamp'', t)]))"
    using distinct_signed_params(1)[of "Some p" t] by (simp only: ext)
  moreover have "renderable (p @ [(''timestamp'', t)])"
    unfolding renderable_iff using wf by blast
  ultimately show "makeQueryString (Some (obj_set (spread_into [] (Some p)) ''timestamp'' t))
        = Inr (CHR ''?'' #
               join ''&'' (map render_pair (filter (\<lambda>x. truthy (snd x)) (p @ [(''timestamp'', t)]))))"
    by (simp add: ext makeQueryString_entries rendered_def)
next
  fix ex
  assume hyp: "\<not> not_given (apiKey cfg) \<and> \<not> not_given (apiSecret cfg)
    \<and> default_object (data d) w = (dat, w0)
    \<and> resolve_timestamp e cfg (publicCall e pcfg) dat (agent d) w0 = (Fulfilled ts, w1)"
    and thrown: "makeQueryString
               (Some (obj_set (spread_into [] (payload_after_delete w0 dat)) ''timestamp'' ts)) = Inl ex"
  from thrown have "message_to_sign (payload_after_delete w0 dat) ts = None"
    by (simp add: message_to_sign_def)
  with hyp show "privateCall e cfg (publicCall e pcfg) d w
          = (Rejected TypeError, (delete_useServerTime dat w0)\<lparr>trace := trace w1\<rparr>)"
    using privateCall_run[of cfg d w dat w0 e pcfg "Fulfilled ts" w1] by simp
next
  fix s
  assume hyp: "\<not> not_given (apiKey cfg) \<and> \<not> not_given (apiSecret cfg)
    \<and> default_object (data d) w = (dat, w0)
    \<and> resolve_timestamp e cfg (publicCall e pcfg) dat (agent d) w0 = (Fulfilled ts, w1)"
    and s: "makeQueryString
            (Some (obj_set (spread_into [] (payload_after_delete w0 dat)) ''timestamp'' ts)) = Inr s"
  show "s = CHR ''?'' # strip_leading_question s"
    using makeQueryString_question[OF s] makeQueryString_strip[OF s] by simp
next
  fix s
  let ?q = "payload_after_delete w0 dat"
  let ?m = "strip_leading_question s"
  assume hyp: "\<not> not_given (apiKey cfg) \<and> \<not> not_given (apiSecret cfg)
    \<and> default_object (data d) w = (dat, w0)
    \<and> resolve_timestamp e cfg (publicCall e pcfg) dat (agent d) w0 = (Fulfilled ts, w1)"
    and s: "makeQueryString (Some (obj_set (spread_into [] ?q) ''timestamp'' ts)) = Inr s"
  from s have m: "message_to_sign ?q ts = Some ?m"
    by (simp add: message_to_sign_def)
  from hyp have "trace (snd (privateCall e cfg (publicCall e pcfg) d w))
      = trace w1 @ signing_events e cfg d ?q ts"
    using privateCall_trace(1)[of cfg d w dat w0 e pcfg ts w1] by simp
  then have "trace (snd (privateCall e cfg (publicCall e pcfg) d w))
      = trace w1 @ Signed (str_of (apiSecret cfg)) ?m
          # (case signed_request e cfg d ?q ts ?m of None \<Rightarrow> [] | Some req \<Rightarrow> [Fetch req])"
    by (simp add: signing_events_def m)
  moreover have "Signed k x \<notin> set (case signed_request e cfg d ?q ts ?m of None \<Rightarrow> [] | Some req \<Rightarrow> [Fetch req])"
    for k x
    by (simp split: option.splits)
  ultimately show "\<exists>post. trace (snd (privateCall e cfg (publicCall e pcfg) d w))
                   = trace w1 @ Signed (str_of (apiSecret cfg)) ?m # post
                 \<and> (\<forall>k m. Signed k m \<notin> set post)"
    by blast
next
  fix s
  let ?q = "payload_after_delete w0 dat"
  let ?m = "strip_leading_question s"
  let ?final = "obj_set (obj_set (spread_into [] ?q) ''timestamp'' ts) ''signature''
                  (JStr (hmac_sha256_hex e (str_of (apiSecret cfg)) ?m))"
  assume hyp: "\<not> not_given (apiKey cfg) \<and> \<not> not_given (apiSecret cfg)
    \<and> default_object (data d) w = (dat, w0)
    \<and> resolve_timestamp e cfg (publicCall e pcfg) dat (agent d) w0 = (Fulfilled ts, w1)"
    and s: "makeQueryString (Some (obj_set (spread_into [] ?q) ''timestamp'' ts)) = Inr s"
    and flags: "\<not> truthy (noExtra d) \<and> \<not> truthy (noData d)"
  from s have m: "message_to_sign ?q ts = Some ?m"
    by (simp add: message_to_sign_def)
  have req: "signed_request e cfg d ?q ts ?m =
      Some \<lparr>req_url =
                   base cfg
                   @ (if includes_str (path d) ''/wapi'' \<or> includes_str (path d) ''/sapi'' then []
                      else ''/'' @ apiPathBase cfg)
                   @ path d
                   @ CHR ''?'' # join ''&'' (map render_pair (filter (\<lambda>x. truthy (snd x)) ?final)),
                 req_method = (case http_method d of None \<Rightarrow> ''GET'' | Some x \<Rightarrow> x),
                 req_headers = [(''X-MBX-APIKEY'', str_of (apiKey cfg))],
                 req_agent = agent d\<rparr>"
    using flags signed_params_render[OF s]
    by (simp add: signed_request_def final_params_def rendered_def)
  from hyp have "trace (snd (privateCall e cfg (publicCall e pcfg) d w))
      = trace w1 @ signing_events e cfg d ?q ts"
    using privateCall_trace(1)[of cfg d w dat w0 e pcfg ts w1] by simp
  then show "last (trace (snd (privateCall e cfg (publicCall e pcfg) d w)))
            = Fetch
                \<lparr>req_url =
                   base cfg
                   @ (if includes_str (path d) ''/wapi'' \<or> includes_str (path d) ''/sapi'' then []
                      else ''/'' @ apiPathBase cfg)
                   @ path d
                   @ CHR ''?'' # join ''&'' (map render_pair (filter (\<lambda>x. truthy (snd x)) ?final)),
                 req_method = (case http_method d of None \<Rightarrow> ''GET'' | Some x \<Rightarrow> x),
                 req_headers = [(''X-MBX-APIKEY'', str_of (apiKey cfg))],
                 req_agent = agent d\<rparr>"
    by (simp add: signing_events_def m req)
qed

text \<open>
  The spot client on \<^verbatim>\<open>/v3/openOrders\<close> at the clock reading \<open>1500000000000\<close>: the message, the
  digest (as computed independently for this key and message) in the request, and a
  payload whose symbol has no string form.
\<close>

theorem signature_is_hmac_of_query_string_witness:
  "makeQueryString
     (Some (obj_set (spread_into [] (Some [(''symbol'', JStr ''BTCUSDT'')])) ''timestamp''
              (JNum 1500000000000)))
   = Inr ''?symbol=BTCUSDT&timestamp=1500000000000''
   \<and> Signed ''my-api-secret'' ''symbol=BTCUSDT&timestamp=1500000000000''
       \<in> set (trace (snd (privCall sample_env sample_opts
                 ((descriptor_of ''/v3/openOrders'')\<lparr>data := DRef 0\<rparr>)
                 (world_with [(''symbol'', JStr ''BTCUSDT'')]))))
   \<and> last (trace (snd (privCall sample_env sample_opts
              ((descriptor_of ''/v3/openOrders'')\<lparr>data := DRef 0\<rparr>)
              (world_with [(''symbol'', JStr ''BTCUSDT'')]))))
     = Fetch \<lparr>req_url = ''https://api.binance.com/api/v3/openOrders?symbol=BTCUSDT&timestamp=1500000000000&signature=fef024bbd1cddaf48f2653509f41d399d1fae6ea8ee3e6cfe101501dcbe566cb'',
              req_method = ''GET'', req_headers = [(''X-MBX-APIKEY'', ''my-api-key'')],
              req_agent = JUndefined\<rparr>
   \<and> privCall sample_env sample_opts
       ((descriptor_of ''/v3/openOrders'')\<lparr>data := DRef 0\<rparr>)
       (world_with [(''symbol'', JObj [(''toString'', JNum 1)])])
     = (Rejected TypeError,
        (world_with [(''symbol'', JObj [(''toString'', JNum 1)])])\<lparr>trace := [ClockRead]\<rparr>)"
proof -
  let ?cfg = "config_of sample_opts (spot_base sample_opts) API_PATH_BASE"
  let ?d = "(descriptor_of ''/v3/openOrders'')\<lparr>data := DRef 0\<rparr>"
  let ?p = "[(''symbol'', JStr ''BTCUSDT'')]"
  let ?b = "[(''symbol'', JObj [(''toString'', JNum 1)])]"
  let ?ts = "JNum 1500000000000"
  have hyp: "\<not> not_given (apiKey ?cfg) \<and> \<not> not_given (apiSecret ?cfg)
      \<and> default_object (data ?d) (world_with q) = (DRef 0, world_with q)
      \<and> resolve_timestamp sample_env ?cfg (publicCall sample_env ?cfg) (DRef 0) (agent ?d) (world_with q)
          = (Fulfilled ?ts, (world_with q)\<lparr>trace := [ClockRead]\<rparr>)"
    if "get q ''useServerTime'' = JUndefined" for q
    using that
    by (simp add: eval_client default_object_def resolve_timestamp_clock useServerTime_flag_def
          world_with_def call_getTime_def)
  have flag: "get ?p ''useServerTime'' = JUndefined" "get ?b ''useServerTime'' = JUndefined"
    by (simp_all add: get_def)
  have wf: "well_formed ?p \<and> ''timestamp'' \<notin> set (keys ?p)
      \<and> (\<forall>x \<in> set (?p @ [(''timestamp'', ?ts)]). truthy (snd x) \<longrightarrow> ToString (snd x) \<noteq> None)"
    by (simp add: well_formed_def keys_def key_precedes_def is_array_index_def)
  have flags: "\<not> truthy (noExtra ?d) \<and> \<not> truthy (noData ?d)"
    by (simp add: descriptor_of_def)
  have s: "makeQueryString
        (Some (obj_set (spread_into [] (payload_after_delete (world_with ?p) (DRef 0))) ''timestamp'' ?ts))
      = Inr ''?symbol=BTCUSDT&timestamp=1500000000000''"
    by (simp add: eval_request eval_string)
  have t: "makeQueryString
        (Some (obj_set (spread_into [] (payload_after_delete (world_with ?b) (DRef 0))) ''timestamp'' ?ts))
      = Inl TypeError"
    by (simp add: eval_request eval_string)
  note good = signature_is_hmac_of_query_string
      [where cfg = ?cfg and d = ?d and w = "world_with ?p" and dat = "DRef 0"
         and ?w0.0 = "world_with ?p" and e = sample_env and pcfg = ?cfg and ts = ?ts
         and ?w1.0 = "(world_with ?p)\<lparr>trace := [ClockRead]\<rparr>" and p = ?p and t = ?ts]
  note bad = signature_is_hmac_of_query_string
      [where cfg = ?cfg and d = ?d and w = "world_with ?b" and dat = "DRef 0"
         and ?w0.0 = "world_with ?b" and e = sample_env and pcfg = ?cfg and ts = ?ts
         and ?w1.0 = "(world_with ?b)\<lparr>trace := [ClockRead]\<rparr>"]
  from good wf have "makeQueryString (Some (obj_set (spread_into [] (Some ?p)) ''timestamp'' ?ts))
      = Inr (CHR ''?'' #
             join ''&'' (map render_pair (filter (\<lambda>x. truthy (snd x)) (?p @ [(''timestamp'', ?ts)]))))"
    by blast
  then have first: "makeQueryString (Some (obj_set (spread_into [] (Some ?p)) ''timestamp'' ?ts))
      = Inr ''?symbol=BTCUSDT&timestamp=1500000000000''"
    by (simp add: eval_string)
  from good hyp[OF flag(1)] s obtain post where
    "trace (snd (privateCall sample_env ?cfg (publicCall sample_env ?cfg) ?d (world_with ?p)))
     = trace ((world_with ?p)\<lparr>trace := [ClockRead]\<rparr>)
       @ Signed (str_of (apiSecret ?cfg))
           (strip_leading_question ''?symbol=BTCUSDT&timestamp=1500000000000'') # post"
    by blast
  then have second: "Signed ''my-api-secret'' ''symbol=BTCUSDT&timestamp=1500000000000''
       \<in> set (trace (snd (privCall sample_env sample_opts ?d (world_with ?p))))"
    by (simp add: eval_client strip_leading_question_def)
  from good hyp[OF flag(1)] s flags
  have "last (trace (snd (privateCall sample_env ?cfg (publicCall sample_env ?cfg) ?d (world_with ?p))))
            = Fetch
                \<lparr>req_url =
                   base ?cfg
                   @ (if includes_str (path ?d) ''/wapi'' \<or> includes_str (path ?d) ''/sapi'' then []
                      else ''/'' @ apiPathBase ?cfg)
                   @ path ?d
                   @ CHR ''?'' #
                     join ''&''
                       (map render_pair
                          (filter (\<lambda>x. truthy (snd x))
                             (obj_set
                                (obj_set (spread_into [] (payload_after_delete (world_with ?p) (DRef 0)))
                                   ''timestamp'' ?ts)
                                ''signature''
                                (JStr (hmac_sha256_hex sample_env (str_of (apiSecret ?cfg))
                                         (strip_leading_question
                                            ''?symbol=BTCUSDT&timestamp=1500000000000'')))))),
                 req_method = (case http_method ?d of None \<Rightarrow> ''GET'' | Some x \<Rightarrow> x),
                 req_headers = [(''X-MBX-APIKEY'', str_of (apiKey ?cfg))],
                 req_agent = agent ?d\<rparr>"
    by blast
  then have third: "last (trace (snd (privCall sample_env sample_opts ?d (world_with ?p))))
     = Fetch \<lparr>req_url = ''https://api.binance.com/api/v3/openOrders?symbol=BTCUSDT&timestamp=1500000000000&signature=fef024bbd1cddaf48f2653509f41d399d1fae6ea8ee3e6cfe101501dcbe566cb'',
              req_method = ''GET'', req_headers = [(''X-MBX-APIKEY'', ''my-api-key'')],
              req_agent = JUndefined\<rparr>"
    by (simp add: eval_client eval_request eval_string)
  from bad hyp[OF flag(2)] t
  have "privateCall sample_env ?cfg (publicCall sample_env ?cfg) ?d (world_with ?b)
      = (Rejected TypeError, (delete_useServerTime (DRef 0) (world_with ?b))\<lparr>trace := trace ((world_with ?b)\<lparr>trace := [ClockRead]\<rparr>)\<rparr>)"
    by blast
  then have fourth: "privCall sample_env sample_opts ?d (world_with ?b)
     = (Rejected TypeError, (world_with ?b)\<lparr>trace := [ClockRead]\<rparr>)"
    by (simp add: privCall_def pubCall_def delete_useServerTime_def world_with_def obj_delete_def)
  from first second third fourth show ?thesis by simp
qed

section \<open>Missing credentials\<close>

text \<open>
  \<^bold>\<open>C7\<close>. Without an API key the key caller throws its configuration error and leaves
  the world as it was; with one it delegates to the public caller with the header
  \<open>X-MBX-APIKEY\<close> set to the key, so that the one request issued carries it (when the
  encoder throws on the payload, the public caller throws and issues none). Without
  an API key or without a secret the private caller throws its configuration error. Both
  errors are thrown by the call itself (\<open>Thrown\<close>, not a rejected promise), and no
  request has been issued: the trace is unchanged.
\<close>

theorem missing_credentials_throw_before_any_request:
  "(not_given (apiKey cfg) \<longrightarrow>
      keyCall cfg pc d w = (Thrown (new_Error ''You need to pass an API key to make this call.''), w))
   \<and> (\<not> not_given (apiKey cfg) \<longrightarrow>
        keyCall cfg pc d w =
          pc \<lparr>path = path d, data = data d,
              http_method = Some (case http_method d of None \<Rightarrow> ''GET'' | Some m \<Rightarrow> m),
              headers = Some [(''X-MBX-APIKEY'', str_of (apiKey cfg))],
              noData = JUndefined, noExtra = JUndefined, noExtraData = JUndefined,
              agent = agent d\<rparr> w
        \<and> (\<forall>qs. makeQueryString (resolve w (data d)) = Inr qs \<longrightarrow>
             trace (snd (keyCall cfg (publicCall e pcfg) d w)) =
               trace w @
               [Fetch \<lparr>req_url = base pcfg @ ''/'' @ apiPathBase pcfg @ path d @ qs,
                       req_method = (case http_method d of None \<Rightarrow> ''GET'' | Some m \<Rightarrow> m),
                       req_headers = [(''X-MBX-APIKEY'', str_of (apiKey cfg))],
                       req_agent = agent d\<rparr>])
        \<and> (\<forall>ex. makeQueryString (resolve w (data d)) = Inl ex \<longrightarrow>
             keyCall cfg (publicCall e pcfg) d w = (Thrown ex, w)))
   \<and> (not_given (apiKey cfg) \<or> not_given (apiSecret cfg) \<longrightarrow>
        fst (privateCall e cfg pc d w) =
          Thrown (new_Error ''You need to pass an API key and secret to make authenticated calls.'')
        \<and> trace (snd (privateCall e cfg pc d w)) = trace w
        \<and> (data d \<noteq> DUndefined \<longrightarrow> snd (privateCall e cfg pc d w) = w))"
proof -
  have "trace (snd (default_object (data d) w)) = trace w"
    using default_object_trace[of "data d" w] by (cases "default_object (data d) w") simp
  then show ?thesis
    by (auto simp: keyCall_def descriptor_of_def publicCall_run privateCall_unconfigured
          default_object_given)
qed

text \<open>
  The spot client without a key, with a key, and with an empty secret.
\<close>

theorem missing_credentials_throw_before_any_request_witness:
  "not_given (apiKey (config_of (sample_opts\<lparr>apiKey := None\<rparr>) BASE API_PATH_BASE))
   \<and> kCall sample_env (sample_opts\<lparr>apiKey := None\<rparr>)
        ((descriptor_of ''/v1/historicalTrades'')\<lparr>data := DRef 0\<rparr>)
        (world_with [(''symbol'', JStr ''BTCUSDT'')])
     = (Thrown (new_Error ''You need to pass an API key to make this call.''),
        world_with [(''symbol'', JStr ''BTCUSDT'')])
   \<and> \<not> not_given (apiKey (config_of sample_opts BASE API_PATH_BASE))
   \<and> trace (snd (kCall sample_env sample_opts
        ((descriptor_of ''/v1/historicalTrades'')\<lparr>data := DRef 0\<rparr>)
        (world_with [(''symbol'', JStr ''BTCUSDT'')])))
     = [Fetch \<lparr>req_url = ''https://api.binance.com/api/v1/historicalTrades?symbol=BTCUSDT'',
               req_method = ''GET'', req_headers = [(''X-MBX-APIKEY'', ''my-api-key'')],
               req_agent = JUndefined\<rparr>]
   \<and> not_given (apiSecret (config_of (sample_opts\<lparr>apiSecret := Some []\<rparr>) BASE API_PATH_BASE))
   \<and> fst (privCall sample_env (sample_opts\<lparr>apiSecret := Some []\<rparr>)
        ((descriptor_of ''/v3/account'')\<lparr>data := DRef 0\<rparr>) (world_with []))
     = Thrown (new_Error ''You need to pass an API key and secret to make authenticated calls.'')
   \<and> snd (privCall sample_env (sample_opts\<lparr>apiSecret := Some []\<rparr>)
        ((descriptor_of ''/v3/account'')\<lparr>data := DRef 0\<rparr>) (world_with []))
     = world_with []"
proof -
  have spot: "spot_base os = BASE" if "httpBase os = None" for os
    using that by (simp add: spot_base_def not_given_def)
  have 1: "not_given (apiKey (config_of (sample_opts\<lparr>apiKey := None\<rparr>) BASE API_PATH_BASE))"
    and 2: "\<not> not_given (apiKey (config_of sample_opts BASE API_PATH_BASE))"
    and 3: "not_given (apiSecret (config_of (sample_opts\<lparr>apiSecret := Some []\<rparr>) BASE API_PATH_BASE))"
    by (simp_all add: config_of_def sample_opts_def not_given_def)
  have 4: "data ((descriptor_of ''/v3/account'')\<lparr>data := DRef 0\<rparr>) \<noteq> DUndefined"
    by simp
  have 5: "makeQueryString (resolve (world_with [(''symbol'', JStr ''BTCUSDT'')])
               (data ((descriptor_of ''/v1/historicalTrades'')\<lparr>data := DRef 0\<rparr>)))
           = Inr ''?symbol=BTCUSDT''"
    by (simp add: resolve_def world_with_def makeQueryString_def keys_def get_def eval_string)
  note a = missing_credentials_throw_before_any_request
      [of "config_of (sample_opts\<lparr>apiKey := None\<rparr>) BASE API_PATH_BASE"
          "pubCall sample_env (sample_opts\<lparr>apiKey := None\<rparr>)"
          "(descriptor_of ''/v1/historicalTrades'')\<lparr>data := DRef 0\<rparr>"
          "world_with [(''symbol'', JStr ''BTCUSDT'')]"
          sample_env "config_of sample_opts BASE API_PATH_BASE"]
  note b = missing_credentials_throw_before_any_request
      [of "config_of sample_opts BASE API_PATH_BASE"
          "pubCall sample_env sample_opts"
          "(descriptor_of ''/v1/historicalTrades'')\<lparr>data := DRef 0\<rparr>"
          "world_with [(''symbol'', JStr ''BTCUSDT'')]"
          sample_env "config_of sample_opts BASE API_PATH_BASE"]
  note c = missing_credentials_throw_before_any_request
      [of "config_of (sample_opts\<lparr>apiSecret := Some []\<rparr>) BASE API_PATH_BASE"
          "pubCall sample_env (sample_opts\<lparr>apiSecret := Some []\<rparr>)"
          "(descriptor_of ''/v3/account'')\<lparr>data := DRef 0\<rparr>"
          "world_with []" sample_env "config_of sample_opts BASE API_PATH_BASE"]
  have k1: "kCall sample_env (sample_opts\<lparr>apiKey := None\<rparr>)
        ((descriptor_of ''/v1/historicalTrades'')\<lparr>data := DRef 0\<rparr>)
        (world_with [(''symbol'', JStr ''BTCUSDT'')])
     = (Thrown (new_Error ''You need to pass an API key to make this call.''),
        world_with [(''symbol'', JStr ''BTCUSDT'')])"
    using a 1 by (simp add: kCall_def spot sample_opts_def)
  from b 2 5 have "trace (snd (keyCall (config_of sample_opts BASE API_PATH_BASE)
        (publicCall sample_env (config_of sample_opts BASE API_PATH_BASE))
        ((descriptor_of ''/v1/historicalTrades'')\<lparr>data := DRef 0\<rparr>)
        (world_with [(''symbol'', JStr ''BTCUSDT'')]))) =
      trace (world_with [(''symbol'', JStr ''BTCUSDT'')]) @
      [Fetch \<lparr>req_url = base (config_of sample_opts BASE API_PATH_BASE) @ ''/''
                         @ apiPathBase (config_of sample_opts BASE API_PATH_BASE)
                         @ path ((descriptor_of ''/v1/historicalTrades'')\<lparr>data := DRef 0\<rparr>)
                         @ ''?symbol=BTCUSDT'',
              req_method = (case http_method ((descriptor_of ''/v1/historicalTrades'')\<lparr>data := DRef 0\<rparr>) of
                              None \<Rightarrow> ''GET'' | Some m \<Rightarrow> m),
              req_headers = [(''X-MBX-APIKEY'', str_of (apiKey (config_of sample_opts BASE API_PATH_BASE)))],
              req_agent = agent ((descriptor_of ''/v1/historicalTrades'')\<lparr>data := DRef 0\<rparr>)\<rparr>]"
    by blast
  then have k2: "trace (snd (kCall sample_env sample_opts
        ((descriptor_of ''/v1/historicalTrades'')\<lparr>data := DRef 0\<rparr>)
        (world_with [(''symbol'', JStr ''BTCUSDT'')])))
     = [Fetch \<lparr>req_url = ''https://api.binance.com/api/v1/historicalTrades?symbol=BTCUSDT'',
               req_method = ''GET'', req_headers = [(''X-MBX-APIKEY'', ''my-api-key'')],
               req_agent = JUndefined\<rparr>]"
    by (simp add: kCall_def pubCall_def spot sample_opts_def config_of_def str_of_def
          descriptor_of_def world_with_def BASE_def API_PATH_BASE_def)
  have p: "fst (privCall sample_env (sample_opts\<lparr>apiSecret := Some []\<rparr>)
        ((descriptor_of ''/v3/account'')\<lparr>data := DRef 0\<rparr>) (world_with []))
     = Thrown (new_Error ''You need to pass an API key and secret to make authenticated calls.'')
   \<and> snd (privCall sample_env (sample_opts\<lparr>apiSecret := Some []\<rparr>)
        ((descriptor_of ''/v3/account'')\<lparr>data := DRef 0\<rparr>) (world_with []))
     = world_with []"
    using c 3 4 by (simp add: privCall_def spot sample_opts_def)
  from 1 2 3 k1 k2 p show ?thesis by simp
qed

section \<open>The timestamp and the order of events\<close>

lemma useServerTime_flag_truthy:
  "truthy (useServerTime_flag w0 dat)
   = (\<exists>a. dat = DRef a \<and> truthy (get (heap w0 a) ''useServerTime''))"
  by (cases dat) (simp_all add: useServerTime_flag_def)

text \<open>
  \<^bold>\<open>C2\<close>, for a private caller with its credentials over the public caller. \<open>dat\<close> is
  the payload after the default \<^verbatim>\<open>data = {}\<close>. When it is an object whose \<open>useServerTime\<close>
  property is truthy, the first thing that happens is the request to the public time
  endpoint, and the promise of that call is fulfilled or rejected. Once it is fulfilled,
  the signature is computed next and the signed request is issued last, both with the
  value the time call gave (for an answer that is a JSON object, its \<open>serverTime\<close>) as
  timestamp; the clock is never read. When it is rejected, the call is rejected with that
  failure and neither a signature nor a second request follows. Otherwise (the property
  is absent or falsy, or the payload is \<open>null\<close>), the clock is read: the configured
  \<open>getTime\<close> when there is one, \<^verbatim>\<open>Date.now()\<close> when there is none. Its value is the
  timestamp of the signature and of the request, and the signed request is the only
  request.
\<close>

theorem server_time_precedes_signature:
  "\<not> not_given (apiKey cfg) \<and> \<not> not_given (apiSecret cfg)
   \<and> default_object (data d) w = (dat, w0) \<longrightarrow>
   ((\<exists>a. dat = DRef a \<and> truthy (get (heap w0 a) ''useServerTime'')) \<longrightarrow>
      (\<forall>ts. then_serverTime (sendResult e (net e (trace w) (time_request pcfg (agent d))))
                = Fulfilled ts \<longrightarrow>
         trace (snd (privateCall e cfg (publicCall e pcfg) d w)) =
           trace w @ Fetch (time_request pcfg (agent d))
                     # signing_events e cfg d (payload_after_delete w0 dat) ts)
      \<and> (\<forall>res ps. net e (trace w) (time_request pcfg (agent d)) = Inr res \<and> ok res
              \<and> JSON_parse e (body res) = Some (JObj ps) \<longrightarrow>
            then_serverTime (sendResult e (net e (trace w) (time_request pcfg (agent d))))
            = Fulfilled (get ps ''serverTime''))
      \<and> (\<forall>ex. then_serverTime (sendResult e (net e (trace w) (time_request pcfg (agent d))))
                = Rejected ex \<longrightarrow>
            fst (privateCall e cfg (publicCall e pcfg) d w) = Rejected ex
            \<and> trace (snd (privateCall e cfg (publicCall e pcfg) d w)) =
                trace w @ [Fetch (time_request pcfg (agent d))])
      \<and> (\<forall>ex. then_serverTime (sendResult e (net e (trace w) (time_request pcfg (agent d))))
                \<noteq> Thrown ex))
   \<and> (\<not> (\<exists>a. dat = DRef a \<and> truthy (get (heap w0 a) ''useServerTime'')) \<longrightarrow>
        trace (snd (privateCall e cfg (publicCall e pcfg) d w)) =
          trace w @ ClockRead
                    # signing_events e cfg d (payload_after_delete w0 dat)
                        (case getTime cfg of
                           None \<Rightarrow> JNum (date_now e (trace w))
                         | Some clock \<Rightarrow> clock (trace w)))"
proof (intro impI, elim conjE)
  assume creds: "\<not> not_given (apiKey cfg)" "\<not> not_given (apiSecret cfg)"
    and dat: "default_object (data d) w = (dat, w0)"
  note tr = default_object_trace[OF dat]
  let ?flag = "\<exists>a. dat = DRef a \<and> truthy (get (heap w0 a) ''useServerTime'')"
  let ?q = "payload_after_delete w0 dat"
  let ?run = "privateCall e cfg (publicCall e pcfg) d w"
  let ?treq = "time_request pcfg (agent d)"
  let ?time = "then_serverTime (sendResult e (net e (trace w) ?treq))"
  let ?clock = "case getTime cfg of None \<Rightarrow> JNum (date_now e (trace w)) | Some clock \<Rightarrow> clock (trace w)"
  have server: "resolve_timestamp e cfg (publicCall e pcfg) dat (agent d) w0 =
      (?time, w0\<lparr>trace := trace w @ [Fetch ?treq]\<rparr>)"
    if ?flag
    using that by (simp add: resolve_timestamp_server useServerTime_flag_truthy tr)
  have clock: "trace (snd ?run) = trace w @ ClockRead # signing_events e cfg d ?q ?clock"
    if "\<not> ?flag"
  proof -
    have "resolve_timestamp e cfg (publicCall e pcfg) dat (agent d) w0 =
        (Fulfilled ?clock, w0\<lparr>trace := trace w @ [ClockRead]\<rparr>)"
      using that by (simp add: resolve_timestamp_clock useServerTime_flag_truthy tr call_getTime_def)
    from privateCall_trace(1)[OF creds dat this] show ?thesis by simp
  qed
  have fulfilled: "trace (snd ?run) = trace w @ Fetch ?treq # signing_events e cfg d ?q ts"
    if ?flag "?time = Fulfilled ts" for ts
  proof -
    have "resolve_timestamp e cfg (publicCall e pcfg) dat (agent d) w0 =
        (Fulfilled ts, w0\<lparr>trace := trace w @ [Fetch ?treq]\<rparr>)"
      using server[OF that(1)] that(2) by simp
    from privateCall_trace(1)[OF creds dat this] show ?thesis by simp
  qed
  have answer: "?time = Fulfilled (get ps ''serverTime'')"
    if "net e (trace w) ?treq = Inr res" "ok res" "JSON_parse e (body res) = Some (JObj ps)"
    for res ps
    using that by (simp add: then_serverTime_def sendResult_def)
  have rejected: "fst ?run = Rejected ex \<and> trace (snd ?run) = trace w @ [Fetch ?treq]"
    if ?flag "?time = Rejected ex" for ex
  proof -
    have "resolve_timestamp e cfg (publicCall e pcfg) dat (agent d) w0 =
        (Rejected ex, w0\<lparr>trace := trace w @ [Fetch ?treq]\<rparr>)"
      using server[OF that(1)] that(2) by simp
    from privateCall_failed[OF creds dat this] show ?thesis by simp
  qed
  have settled: "?time \<noteq> Thrown ex" for ex
    by (rule then_serverTime_not_thrown)
  show "(?flag \<longrightarrow>
      (\<forall>ts. ?time = Fulfilled ts \<longrightarrow>
         trace (snd ?run) = trace w @ Fetch ?treq # signing_events e cfg d ?q ts)
      \<and> (\<forall>res ps. net e (trace w) ?treq = Inr res \<and> ok res
              \<and> JSON_parse e (body res) = Some (JObj ps) \<longrightarrow>
            ?time = Fulfilled (get ps ''serverTime''))
      \<and> (\<forall>ex. ?time = Rejected ex \<longrightarrow>
            fst ?run = Rejected ex \<and> trace (snd ?run) = trace w @ [Fetch ?treq])
      \<and> (\<forall>ex. ?time \<noteq> Thrown ex))
   \<and> (\<not> ?flag \<longrightarrow>
        trace (snd ?run) = trace w @ ClockRead # signing_events e cfg d ?q ?clock)"
    using fulfilled answer rejected settled clock by blast
qed

text \<open>
  The spot client on \<^verbatim>\<open>/v3/openOrders\<close>. With the flag set to \<open>1\<close> and a configured clock, the
  server's time \<open>1499827319559\<close> is used and the clock is not read; without the flag and
  without a configured clock, the system clock's \<open>1500000000000\<close>; with the flag set to
  \<open>false\<close> and a configured clock, that clock's \<open>1234567890123\<close>; and with the flag behind
  a transport that refuses the time request, nothing follows the refusal.
\<close>

theorem server_time_precedes_signature_witness:
  "trace (snd (privCall sample_env (sample_opts\<lparr>getTime := Some set_clock\<rparr>)
       ((descriptor_of ''/v3/openOrders'')\<lparr>data := DRef 0\<rparr>)
       (world_with [(''symbol'', JStr ''BTCUSDT''), (''useServerTime'', JNum 1)])))
   = [Fetch \<lparr>req_url = ''https://api.binance.com/api/v1/time'', req_method = ''GET'',
             req_headers = [], req_agent = JUndefined\<rparr>,
      Signed ''my-api-secret'' ''symbol=BTCUSDT&timestamp=1499827319559'',
      Fetch \<lparr>req_url = ''https://api.binance.com/api/v3/openOrders?symbol=BTCUSDT&timestamp=1499827319559&signature=d74177411c9269be2db195b58307738ce106b44a21ccc801f12ffa9e4f8ab09a'',
             req_method = ''GET'', req_headers = [(''X-MBX-APIKEY'', ''my-api-key'')],
             req_agent = JUndefined\<rparr>]
   \<and> trace (snd (privCall sample_env sample_opts
       ((descriptor_of ''/v3/openOrders'')\<lparr>data := DRef 0\<rparr>)
       (world_with [(''symbol'', JStr ''BTCUSDT'')])))
   = [ClockRead,
      Signed ''my-api-secret'' ''symbol=BTCUSDT&timestamp=1500000000000'',
      Fetch \<lparr>req_url = ''https://api.binance.com/api/v3/openOrders?symbol=BTCUSDT&timestamp=1500000000000&signature=fef024bbd1cddaf48f2653509f41d399d1fae6ea8ee3e6cfe101501dcbe566cb'',
             req_method = ''GET'', req_headers = [(''X-MBX-APIKEY'', ''my-api-key'')],
             req_agent = JUndefined\<rparr>]
   \<and> trace (snd (privCall sample_env (sample_opts\<lparr>getTime := Some set_clock\<rparr>)
       ((descriptor_of ''/v3/openOrders'')\<lparr>data := DRef 0\<rparr>)
       (world_with [(''symbol'', JStr ''BTCUSDT''), (''useServerTime'', JBool False)])))
   = [ClockRead,
      Signed ''my-api-secret'' ''symbol=BTCUSDT&timestamp=1234567890123'',
      Fetch \<lparr>req_url = ''https://api.binance.com/api/v3/openOrders?symbol=BTCUSDT&timestamp=1234567890123&signature=c54678eee76765d235be0d8dfd2b7858b8570f3a7c846a5a9e5cf7905f00551f'',
             req_method = ''GET'', req_headers = [(''X-MBX-APIKEY'', ''my-api-key'')],
             req_agent = JUndefined\<rparr>]
   \<and> fst (privCall offline_env sample_opts
       ((descriptor_of ''/v3/openOrders'')\<lparr>data := DRef 0\<rparr>)
       (world_with [(''symbol'', JStr ''BTCUSDT''), (''useServerTime'', JBool True)]))
   = Rejected (FetchError ''connect ECONNREFUSED'')
   \<and> trace (snd (privCall offline_env sample_opts
       ((descriptor_of ''/v3/openOrders'')\<lparr>data := DRef 0\<rparr>)
       (world_with [(''symbol'', JStr ''BTCUSDT''), (''useServerTime'', JBool True)])))
   = [Fetch \<lparr>req_url = ''https://api.binance.com/api/v1/time'', req_method = ''GET'',
             req_headers = [], req_agent = JUndefined\<rparr>]"
proof -
  let ?os = "sample_opts\<lparr>getTime := Some set_clock\<rparr>"
  let ?cfg = "config_of sample_opts (spot_base sample_opts) API_PATH_BASE"
  let ?cfg' = "config_of ?os (spot_base ?os) API_PATH_BASE"
  let ?d = "(descriptor_of ''/v3/openOrders'')\<lparr>data := DRef 0\<rparr>"
  let ?w1 = "world_with [(''symbol'', JStr ''BTCUSDT''), (''useServerTime'', JNum 1)]"
  let ?w2 = "world_with [(''symbol'', JStr ''BTCUSDT'')]"
  let ?w3 = "world_with [(''symbol'', JStr ''BTCUSDT''), (''useServerTime'', JBool False)]"
  let ?w4 = "world_with [(''symbol'', JStr ''BTCUSDT''), (''useServerTime'', JBool True)]"
  let ?res = "\<lparr>ok = True, status = 200, statusText = ''OK'', body = ''{\"serverTime\":1499827319559}''\<rparr>"
  have creds: "\<not> not_given (apiKey ?cfg) \<and> \<not> not_given (apiSecret ?cfg)"
    and creds': "\<not> not_given (apiKey ?cfg') \<and> \<not> not_given (apiSecret ?cfg')"
    by (simp_all add: eval_client)
  have d: "default_object (data ?d) (world_with q) = (DRef 0, world_with q)" for q
    by (simp add: default_object_def)
  have f1: "\<exists>a. DRef 0 = DRef a \<and> truthy (get (heap ?w1 a) ''useServerTime'')"
    and f2: "\<not> (\<exists>a. DRef 0 = DRef a \<and> truthy (get (heap ?w2 a) ''useServerTime''))"
    and f3: "\<not> (\<exists>a. DRef 0 = DRef a \<and> truthy (get (heap ?w3 a) ''useServerTime''))"
    and f4: "\<exists>a. DRef 0 = DRef a \<and> truthy (get (heap ?w4 a) ''useServerTime'')"
    by (simp_all add: world_with_def get_def)
  have n1: "net sample_env (trace ?w1) (time_request ?cfg' (agent ?d)) = Inr ?res \<and> ok ?res
      \<and> JSON_parse sample_env (body ?res) = Some (JObj [(''serverTime'', JNum 1499827319559)])"
    by (simp add: eval_client sample_net_def sample_parse_def time_request_def)
  have "trace (snd (privateCall sample_env ?cfg' (publicCall sample_env ?cfg') ?d ?w1)) =
           trace ?w1 @ Fetch (time_request ?cfg' (agent ?d))
             # signing_events sample_env ?cfg' ?d (payload_after_delete ?w1 (DRef 0))
                 (get [(''serverTime'', JNum 1499827319559)] ''serverTime'')"
    using server_time_precedes_signature
            [where cfg = ?cfg' and d = ?d and w = ?w1 and dat = "DRef 0" and ?w0.0 = ?w1
               and e = sample_env and pcfg = ?cfg']
          creds' d[of "[(''symbol'', JStr ''BTCUSDT''), (''useServerTime'', JNum 1)]"] f1 n1
    by blast
  then have first: "trace (snd (privCall sample_env ?os ?d ?w1))
   = [Fetch \<lparr>req_url = ''https://api.binance.com/api/v1/time'', req_method = ''GET'',
             req_headers = [], req_agent = JUndefined\<rparr>,
      Signed ''my-api-secret'' ''symbol=BTCUSDT&timestamp=1499827319559'',
      Fetch \<lparr>req_url = ''https://api.binance.com/api/v3/openOrders?symbol=BTCUSDT&timestamp=1499827319559&signature=d74177411c9269be2db195b58307738ce106b44a21ccc801f12ffa9e4f8ab09a'',
             req_method = ''GET'', req_headers = [(''X-MBX-APIKEY'', ''my-api-key'')],
             req_agent = JUndefined\<rparr>]"
    by (simp add: eval_client eval_request eval_string)
  have "trace (snd (privateCall sample_env ?cfg (publicCall sample_env ?cfg) ?d ?w2)) =
          trace ?w2 @ ClockRead
            # signing_events sample_env ?cfg ?d (payload_after_delete ?w2 (DRef 0))
                (case getTime ?cfg of
                   None \<Rightarrow> JNum (date_now sample_env (trace ?w2))
                 | Some clock \<Rightarrow> clock (trace ?w2))"
    using server_time_precedes_signature
            [where cfg = ?cfg and d = ?d and w = ?w2 and dat = "DRef 0" and ?w0.0 = ?w2
               and e = sample_env and pcfg = ?cfg]
          creds d[of "[(''symbol'', JStr ''BTCUSDT'')]"] f2
    by blast
  then have second: "trace (snd (privCall sample_env sample_opts ?d ?w2))
   = [ClockRead,
      Signed ''my-api-secret'' ''symbol=BTCUSDT&timestamp=1500000000000'',
      Fetch \<lparr>req_url = ''https://api.binance.com/api/v3/openOrders?symbol=BTCUSDT&timestamp=1500000000000&signature=fef024bbd1cddaf48f2653509f41d399d1fae6ea8ee3e6cfe101501dcbe566cb'',
             req_method = ''GET'', req_headers = [(''X-MBX-APIKEY'', ''my-api-key'')],
             req_agent = JUndefined\<rparr>]"
    by (simp add: eval_client eval_request eval_string)
  have "trace (snd (privateCall sample_env ?cfg' (publicCall sample_env ?cfg') ?d ?w3)) =
          trace ?w3 @ ClockRead
            # signing_events sample_env ?cfg' ?d (payload_after_delete ?w3 (DRef 0))
                (case getTime ?cfg' of
                   None \<Rightarrow> JNum (date_now sample_env (trace ?w3))
                 | Some clock \<Rightarrow> clock (trace ?w3))"
    using server_time_precedes_signature
            [where cfg = ?cfg' and d = ?d and w = ?w3 and dat = "DRef 0" and ?w0.0 = ?w3
               and e = sample_env and pcfg = ?cfg']
          creds' d[of "[(''symbol'', JStr ''BTCUSDT''), (''useServerTime'', JBool False)]"] f3
    by blast
  then have third: "trace (snd (privCall sample_env ?os ?d ?w3))
   = [ClockRead,
      Signed ''my-api-secret'' ''symbol=BTCUSDT&timestamp=1234567890123'',
      Fetch \<lparr>req_url = ''https://api.binance.com/api/v3/openOrders?symbol=BTCUSDT&timestamp=1234567890123&signature=c54678eee76765d235be0d8dfd2b7858b8570f3a7c846a5a9e5cf7905f00551f'',
             req_method = ''GET'', req_headers = [(''X-MBX-APIKEY'', ''my-api-key'')],
             req_agent = JUndefined\<rparr>]"
    by (simp add: eval_client eval_request eval_string set_clock_def)
  have n4: "then_serverTime (sendResult offline_env
        (net offline_env (trace ?w4) (time_request ?cfg (agent ?d))))
      = Rejected (FetchError ''connect ECONNREFUSED'')"
    by (simp add: offline_env_def then_serverTime_def sendResult_def)
  have "fst (privateCall offline_env ?cfg (publicCall offline_env ?cfg) ?d ?w4)
          = Rejected (FetchError ''connect ECONNREFUSED'')
        \<and> trace (snd (privateCall offline_env ?cfg (publicCall offline_env ?cfg) ?d ?w4))
          = trace ?w4 @ [Fetch (time_request ?cfg (agent ?d))]"
    using server_time_precedes_signature
            [where cfg = ?cfg and d = ?d and w = ?w4 and dat = "DRef 0" and ?w0.0 = ?w4
               and e = offline_env and pcfg = ?cfg]
          creds d[of "[(''symbol'', JStr ''BTCUSDT''), (''useServerTime'', JBool True)]"] f4 n4
    by blast
  then have fourth: "fst (privCall offline_env sample_opts ?d ?w4)
        = Rejected (FetchError ''connect ECONNREFUSED'')
      \<and> trace (snd (privCall offline_env sample_opts ?d ?w4))
        = [Fetch \<lparr>req_url = ''https://api.binance.com/api/v1/time'', req_method = ''GET'',
                  req_headers = [], req_agent = JUndefined\<rparr>]"
    by (simp add: eval_client time_request_def descriptor_of_def world_with_def)
  from first second third fourth show ?thesis by simp
qed

section \<open>The caller's object\<close>

lemma heap_delete_useServerTime:
  "heap (delete_useServerTime (DRef a) w) = (heap w)(a := obj_delete (heap w a) ''useServerTime'')"
  by (simp add: delete_useServerTime_def)

text \<open>
  \<^bold>\<open>C9\<close>, for a private caller with its credentials over the public caller, called with
  a reference \<open>a\<close> to the caller's payload object that has the key \<open>useServerTime\<close>.
  Once the timestamp is resolved, the object at \<open>a\<close> itself, not a copy, has lost the
  key: the heap holds the payload with \<open>useServerTime\<close> deleted at \<open>a\<close> and is unchanged
  elsewhere. The deletion comes before the signing: what follows the resolution is the
  signing and the request for the payload without the key, and the message that is
  signed is computed from it. It comes after the timestamp resolution: when the
  resolution fails, the heap is left as it was.
\<close>

theorem useServerTime_deleted_from_callers_object:
  "\<not> not_given (apiKey cfg) \<and> \<not> not_given (apiSecret cfg) \<and> data d = DRef a
   \<and> ''useServerTime'' \<in> set (keys (heap w a)) \<longrightarrow>
   (\<forall>ts. fst (resolve_timestamp e cfg (publicCall e pcfg) (DRef a) (agent d) w) = Fulfilled ts \<longrightarrow>
      heap (snd (privateCall e cfg (publicCall e pcfg) d w)) a
        = obj_delete (heap w a) ''useServerTime''
      \<and> ''useServerTime'' \<notin> set (keys (heap (snd (privateCall e cfg (publicCall e pcfg) d w)) a))
      \<and> (\<forall>b. b \<noteq> a \<longrightarrow> heap (snd (privateCall e cfg (publicCall e pcfg) d w)) b = heap w b)
      \<and> (\<exists>pre. trace (snd (privateCall e cfg (publicCall e pcfg) d w)) =
            pre @ signing_events e cfg d (Some (obj_delete (heap w a) ''useServerTime'')) ts)
      \<and> (\<forall>m. message_to_sign (Some (obj_delete (heap w a) ''useServerTime'')) ts = Some m \<longrightarrow>
            (\<exists>pre post. trace (snd (privateCall e cfg (publicCall e pcfg) d w)) =
               pre @ Signed (str_of (apiSecret cfg)) m # post)))
   \<and> (\<forall>ex. fst (resolve_timestamp e cfg (publicCall e pcfg) (DRef a) (agent d) w) = Rejected ex \<longrightarrow>
        heap (snd (privateCall e cfg (publicCall e pcfg) d w)) = heap w)"
proof (intro impI, elim conjE)
  assume creds: "\<not> not_given (apiKey cfg)" "\<not> not_given (apiSecret cfg)"
    and d: "data d = DRef a"
  let ?run = "privateCall e cfg (publicCall e pcfg) d w"
  let ?q = "Some (obj_delete (heap w a) ''useServerTime'')"
  obtain t w1 where rt: "resolve_timestamp e cfg (publicCall e pcfg) (DRef a) (agent d) w = (t, w1)"
    by (cases "resolve_timestamp e cfg (publicCall e pcfg) (DRef a) (agent d) w")
  have dat: "default_object (data d) w = (DRef a, w)"
    by (simp add: d default_object_given)
  have w1: "heap w1 = heap w"
    using rt
    by (cases "truthy (useServerTime_flag w (DRef a))")
       (auto simp: resolve_timestamp_server resolve_timestamp_clock)
  have q: "payload_after_delete w (DRef a) = ?q"
    by (simp add: payload_after_delete_def)
  have deleted: "heap (snd ?run) a = obj_delete (heap w a) ''useServerTime''
      \<and> ''useServerTime'' \<notin> set (keys (heap (snd ?run) a))
      \<and> (\<forall>b. b \<noteq> a \<longrightarrow> heap (snd ?run) b = heap w b)
      \<and> (\<exists>pre. trace (snd ?run) = pre @ signing_events e cfg d ?q ts)
      \<and> (\<forall>m. message_to_sign ?q ts = Some m \<longrightarrow>
            (\<exists>pre post. trace (snd ?run) = pre @ Signed (str_of (apiSecret cfg)) m # post))"
    if "t = Fulfilled ts" for ts
  proof -
    from rt that have rt': "resolve_timestamp e cfg (publicCall e pcfg) (DRef a) (agent d) w
        = (Fulfilled ts, w1)"
      by simp
    note run = privateCall_trace[OF creds dat, of e pcfg ts w1]
    from rt' d have tr: "trace (snd ?run) = trace w1 @ signing_events e cfg d ?q ts"
      and hp: "heap (snd ?run) = heap (delete_useServerTime (DRef a) w)"
      using run by (simp_all add: q)
    from hp have "heap (snd ?run) a = obj_delete (heap w a) ''useServerTime''"
      and "''useServerTime'' \<notin> set (keys (heap (snd ?run) a))"
      and "\<forall>b. b \<noteq> a \<longrightarrow> heap (snd ?run) b = heap w b"
      by (simp_all add: heap_delete_useServerTime keys_obj_delete)
    moreover from tr have "\<exists>pre. trace (snd ?run) = pre @ signing_events e cfg d ?q ts"
      by blast
    moreover have "\<exists>pre post. trace (snd ?run) = pre @ Signed (str_of (apiSecret cfg)) m # post"
      if "message_to_sign ?q ts = Some m" for m
      using tr that by (auto simp: signing_events_def)
    ultimately show ?thesis by blast
  qed
  have failed: "heap (snd ?run) = heap w" if "t = Rejected ex" for ex
    using privateCall_failed[OF creds dat, of e pcfg ex w1] rt that by (simp add: w1)
  show "(\<forall>ts. fst (resolve_timestamp e cfg (publicCall e pcfg) (DRef a) (agent d) w) = Fulfilled ts \<longrightarrow>
      heap (snd ?run) a = obj_delete (heap w a) ''useServerTime''
      \<and> ''useServerTime'' \<notin> set (keys (heap (snd ?run) a))
      \<and> (\<forall>b. b \<noteq> a \<longrightarrow> heap (snd ?run) b = heap w b)
      \<and> (\<exists>pre. trace (snd ?run) = pre @ signing_events e cfg d ?q ts)
      \<and> (\<forall>m. message_to_sign ?q ts = Some m \<longrightarrow>
            (\<exists>pre post. trace (snd ?run) = pre @ Signed (str_of (apiSecret cfg)) m # post)))
   \<and> (\<forall>ex. fst (resolve_timestamp e cfg (publicCall e pcfg) (DRef a) (agent d) w) = Rejected ex \<longrightarrow>
        heap (snd ?run) = heap w)"
    unfolding rt fst_conv using deleted failed by blast
qed

text \<open>
  The caller's object at address 0 after a call that asked for the server's time, and
  after one whose time request was refused.
\<close>

theorem useServerTime_deleted_from_callers_object_witness:
  "''useServerTime'' \<in> set (keys (heap
       (world_with [(''symbol'', JStr ''BTCUSDT''), (''useServerTime'', JBool True)]) 0))
   \<and> heap (snd (privCall sample_env sample_opts
       ((descriptor_of ''/v3/openOrders'')\<lparr>data := DRef 0\<rparr>)
       (world_with [(''symbol'', JStr ''BTCUSDT''), (''useServerTime'', JBool True)]))) 0
     = [(''symbol'', JStr ''BTCUSDT'')]
   \<and> heap (snd (privCall offline_env sample_opts
       ((descriptor_of ''/v3/openOrders'')\<lparr>data := DRef 0\<rparr>)
       (world_with [(''symbol'', JStr ''BTCUSDT''), (''useServerTime'', JBool True)]))) 0
     = [(''symbol'', JStr ''BTCUSDT''), (''useServerTime'', JBool True)]"
proof -
  let ?cfg = "config_of sample_opts (spot_base sample_opts) API_PATH_BASE"
  let ?d = "(descriptor_of ''/v3/openOrders'')\<lparr>data := DRef 0\<rparr>"
  let ?w = "world_with [(''symbol'', JStr ''BTCUSDT''), (''useServerTime'', JBool True)]"
  have hyp: "\<not> not_given (apiKey ?cfg) \<and> \<not> not_given (apiSecret ?cfg) \<and> data ?d = DRef 0
      \<and> ''useServerTime'' \<in> set (keys (heap ?w 0))"
    by (simp add: eval_client world_with_def keys_def)
  have rt: "fst (resolve_timestamp sample_env ?cfg (publicCall sample_env ?cfg) (DRef 0) (agent ?d) ?w)
      = Fulfilled (JNum 1499827319559)"
    by (simp add: resolve_timestamp_server useServerTime_flag_def world_with_def get_def
          then_serverTime_def sendResult_def eval_client sample_net_def sample_parse_def
          time_request_def)
  have "heap (snd (privateCall sample_env ?cfg (publicCall sample_env ?cfg) ?d ?w)) 0
        = obj_delete (heap ?w 0) ''useServerTime''"
    using useServerTime_deleted_from_callers_object
            [where cfg = ?cfg and d = ?d and a = 0 and w = ?w and e = sample_env and pcfg = ?cfg]
          hyp rt
    by blast
  then have "heap (snd (privCall sample_env sample_opts ?d ?w)) 0 = [(''symbol'', JStr ''BTCUSDT'')]"
    by (simp add: privCall_def pubCall_def world_with_def obj_delete_def)
  moreover
  have rt': "fst (resolve_timestamp offline_env ?cfg (publicCall offline_env ?cfg) (DRef 0) (agent ?d) ?w)
      = Rejected (FetchError ''connect ECONNREFUSED'')"
    by (simp add: resolve_timestamp_server useServerTime_flag_def world_with_def get_def
          then_serverTime_def sendResult_def offline_env_def)
  have "heap (snd (privateCall offline_env ?cfg (publicCall offline_env ?cfg) ?d ?w)) = heap ?w"
    using useServerTime_deleted_from_callers_object
            [where cfg = ?cfg and d = ?d and a = 0 and w = ?w and e = offline_env and pcfg = ?cfg]
          hyp rt'
    by blast
  then have "heap (snd (privCall offline_env sample_opts ?d ?w)) 0
      = [(''symbol'', JStr ''BTCUSDT''), (''useServerTime'', JBool True)]"
    by (simp add: privCall_def pubCall_def world_with_def)
  ultimately show ?thesis using hyp by simp
qed

section \<open>The signed request\<close>

lemma take_is_prefix: "(take (length t) s = t) = (\<exists>post. s = t @ post)"
  by (metis append_eq_conv_conj append_take_drop_id)

lemma includes_str_iff: "includes_str s t = (\<exists>pre post. s = pre @ t @ post)"
proof (induction s)
  case Nil
  then show ?case by simp
next
  case (Cons c s)
  have "(\<exists>pre post. c # s = pre @ t @ post)
        = ((\<exists>post. c # s = t @ post) \<or> (\<exists>pre post. s = pre @ t @ post))"
  proof
    assume "\<exists>pre post. c # s = pre @ t @ post"
    then obtain pre post where eq: "c # s = pre @ t @ post" by blast
    show "(\<exists>post. c # s = t @ post) \<or> (\<exists>pre post. s = pre @ t @ post)"
    proof (cases pre)
      case Nil
      with eq show ?thesis by auto
    next
      case (Cons x pre')
      with eq have "s = pre' @ t @ post" by simp
      then show ?thesis by blast
    qed
  next
    assume "(\<exists>post. c # s = t @ post) \<or> (\<exists>pre post. s = pre @ t @ post)"
    then show "\<exists>pre post. c # s = pre @ t @ post"
    proof
      assume "\<exists>post. c # s = t @ post"
      then obtain post where "c # s = [] @ t @ post" by auto
      then show ?thesis by blast
    next
      assume "\<exists>pre post. s = pre @ t @ post"
      then obtain pre post where "c # s = (c # pre) @ t @ post" by auto
      then show ?thesis by blast
    qed
  qed
  with Cons.IH show ?case
    by (simp only: includes_str.simps take_is_prefix)
qed
text \<open>
  \<^bold>\<open>C6\<close>. The final parameters are the payload \<open>q\<close> as it is when the no-extra flag is
  set, and otherwise the payload with the keys \<open>timestamp\<close> and \<open>signature\<close> defined on
  it; for a payload that has neither key these two are appended at the end, in this
  order. The URL of the signed request is the base, then nothing when the path contains
  \<^verbatim>\<open>/wapi\<close> or \<^verbatim>\<open>/sapi\<close> and \<^verbatim>\<open>/\<close> with the path prefix otherwise, then the path, then
  nothing when the no-data flag is set and the query encoder's rendering of the final
  parameters otherwise (there is no URL when the encoder throws on them). The request
  with this URL, built from the caller's payload after the deletion of \<open>useServerTime\<close>
  and from the digest of the signed message, is the last event of every call of a private
  caller with its credentials whose timestamp was resolved and whose message and URL were
  rendered.
\<close>

theorem signed_request_params_and_url:
  "newData_of (noExtra d) q ts sg =
     (if truthy (noExtra d) then q
      else Some (obj_set (obj_set (spread_into [] q) ''timestamp'' ts) ''signature'' (JStr sg)))
   \<and> private_url cfg (path d) (noData d) params =
       (if truthy (noData d)
        then Inr (base cfg
                  @ (if includes_str (path d) ''/wapi'' \<or> includes_str (path d) ''/sapi'' then []
                     else ''/'' @ apiPathBase cfg)
                  @ path d)
        else (case makeQueryString params of
                Inl ex \<Rightarrow> Inl ex
              | Inr qs \<Rightarrow>
                  Inr (base cfg
                       @ (if includes_str (path d) ''/wapi'' \<or> includes_str (path d) ''/sapi'' then []
                          else ''/'' @ apiPathBase cfg)
                       @ path d @ qs)))
   \<and> (well_formed p \<and> ''timestamp'' \<notin> set (keys p) \<and> ''signature'' \<notin> set (keys p) \<longrightarrow>
        obj_set (obj_set (spread_into [] (Some p)) ''timestamp'' ts) ''signature'' v
        = p @ [(''timestamp'', ts), (''signature'', v)])
   \<and> (\<not> not_given (apiKey cfg) \<and> \<not> not_given (apiSecret cfg)
        \<and> default_object (data d) w = (dat, w0)
        \<and> fst (resolve_timestamp e cfg (publicCall e pcfg) dat (agent d) w0) = Fulfilled ts
        \<and> message_to_sign (payload_after_delete w0 dat) ts = Some m
        \<and> private_url cfg (path d) (noData d)
             (newData_of (noExtra d) (payload_after_delete w0 dat) ts
                (hmac_sha256_hex e (str_of (apiSecret cfg)) m)) = Inr url \<longrightarrow>
        (\<exists>pre. trace (snd (privateCall e cfg (publicCall e pcfg) d w)) =
                pre @ [Fetch \<lparr>req_url = url,
                               req_method = (case http_method d of None \<Rightarrow> ''GET'' | Some x \<Rightarrow> x),
                               req_headers = [(''X-MBX-APIKEY'', str_of (apiKey cfg))],
                               req_agent = agent d\<rparr>]))"
proof -
  have params: "newData_of (noExtra d) q ts sg =
     (if truthy (noExtra d) then q
      else Some (obj_set (obj_set (spread_into [] q) ''timestamp'' ts) ''signature'' (JStr sg)))"
    by (simp add: newData_of_def with_timestamp_def)
  have url: "private_url cfg (path d) (noData d) params =
       (if truthy (noData d)
        then Inr (base cfg
                  @ (if includes_str (path d) ''/wapi'' \<or> includes_str (path d) ''/sapi'' then []
                     else ''/'' @ apiPathBase cfg)
                  @ path d)
        else (case makeQueryString params of
                Inl ex \<Rightarrow> Inl ex
              | Inr qs \<Rightarrow>
                  Inr (base cfg
                       @ (if includes_str (path d) ''/wapi'' \<or> includes_str (path d) ''/sapi'' then []
                          else ''/'' @ apiPathBase cfg)
                       @ path d @ qs)))"
    by (simp add: private_url_def split: sum.splits)
  have app: "obj_set (obj_set (spread_into [] (Some p)) ''timestamp'' ts) ''signature'' v
        = p @ [(''timestamp'', ts), (''signature'', v)]"
    if "well_formed p" "''timestamp'' \<notin> set (keys p)" "''signature'' \<notin> set (keys p)"
    using signed_params_append[OF that] by (simp add: with_timestamp_def)
  have run: "\<exists>pre. trace (snd (privateCall e cfg (publicCall e pcfg) d w)) =
                pre @ [Fetch \<lparr>req_url = url,
                               req_method = (case http_method d of None \<Rightarrow> ''GET'' | Some x \<Rightarrow> x),
                               req_headers = [(''X-MBX-APIKEY'', str_of (apiKey cfg))],
                               req_agent = agent d\<rparr>]"
    if creds: "\<not> not_given (apiKey cfg)" "\<not> not_given (apiSecret cfg)"
      and dat: "default_object (data d) w = (dat, w0)"
      and rt: "fst (resolve_timestamp e cfg (publicCall e pcfg) dat (agent d) w0) = Fulfilled ts"
      and m: "message_to_sign (payload_after_delete w0 dat) ts = Some m"
      and u: "private_url cfg (path d) (noData d)
             (newData_of (noExtra d) (payload_after_delete w0 dat) ts
                (hmac_sha256_hex e (str_of (apiSecret cfg)) m)) = Inr url"
  proof -
    let ?req = "\<lparr>req_url = url,
                  req_method = (case http_method d of None \<Rightarrow> ''GET'' | Some x \<Rightarrow> x),
                  req_headers = [(''X-MBX-APIKEY'', str_of (apiKey cfg))],
                  req_agent = agent d\<rparr>"
    obtain w1 where "resolve_timestamp e cfg (publicCall e pcfg) dat (agent d) w0 = (Fulfilled ts, w1)"
      using rt by (cases "resolve_timestamp e cfg (publicCall e pcfg) dat (agent d) w0") simp
    from privateCall_trace(1)[OF creds dat this]
    have "trace (snd (privateCall e cfg (publicCall e pcfg) d w)) =
            (trace w1 @ [Signed (str_of (apiSecret cfg)) m]) @ [Fetch ?req]"
      by (simp add: signing_events_def m signed_request_url u)
    then show ?thesis by blast
  qed
  from params url app run show ?thesis by blast
qed

text \<open>
  A withdrawal (no path prefix under \<^verbatim>\<open>/wapi\<close>), a request with the no-extra flag, a
  request with the no-data flag, and the parameters of the withdrawal.
\<close>

theorem signed_request_params_and_url_witness:
  "last (trace (snd (privCall sample_env sample_opts
       ((descriptor_of ''/wapi/v3/withdraw.html'')\<lparr>data := DRef 0, http_method := Some ''POST''\<rparr>)
       (world_with [(''asset'', JStr ''BTC''), (''amount'', JNum 2)]))))
   = Fetch \<lparr>req_url = ''https://api.binance.com/wapi/v3/withdraw.html?asset=BTC&amount=2&timestamp=1500000000000&signature=62d64c35e790275751c6e23b6c2bbb71cf3bbb31a154f913f13ee72504d35a1d'',
            req_method = ''POST'', req_headers = [(''X-MBX-APIKEY'', ''my-api-key'')],
            req_agent = JUndefined\<rparr>
   \<and> private_url (config_of sample_opts BASE API_PATH_BASE) ''/v3/order'' JUndefined
        (newData_of (JBool True) (Some [(''symbol'', JStr ''BTCUSDT'')]) (JNum 1500000000000) ''c8db'')
     = Inr ''https://api.binance.com/api/v3/order?symbol=BTCUSDT''
   \<and> private_url (config_of sample_opts BASE API_PATH_BASE) ''/v1/userDataStream'' (JBool True)
        (newData_of JUndefined None (JNum 1500000000000) ''c8db'')
     = Inr ''https://api.binance.com/api/v1/userDataStream''
   \<and> well_formed [(''asset'', JStr ''BTC''), (''amount'', JNum 2)]
   \<and> obj_set (obj_set (spread_into [] (Some [(''asset'', JStr ''BTC''), (''amount'', JNum 2)]))
        ''timestamp'' (JNum 1500000000000)) ''signature'' (JStr ''c8db'')
     = [(''asset'', JStr ''BTC''), (''amount'', JNum 2), (''timestamp'', JNum 1500000000000),
        (''signature'', JStr ''c8db'')]"
proof -
  let ?cfg = "config_of sample_opts (spot_base sample_opts) API_PATH_BASE"
  let ?plain = "config_of sample_opts BASE API_PATH_BASE"
  let ?d = "(descriptor_of ''/wapi/v3/withdraw.html'')\<lparr>data := DRef 0, http_method := Some ''POST''\<rparr>"
  let ?p = "[(''asset'', JStr ''BTC''), (''amount'', JNum 2)]"
  let ?w = "world_with ?p"
  let ?ts = "JNum 1500000000000"
  let ?m = "''asset=BTC&amount=2&timestamp=1500000000000''"
  let ?url = "''https://api.binance.com/wapi/v3/withdraw.html?asset=BTC&amount=2&timestamp=1500000000000&signature=62d64c35e790275751c6e23b6c2bbb71cf3bbb31a154f913f13ee72504d35a1d''"
  have hyp: "\<not> not_given (apiKey ?cfg) \<and> \<not> not_given (apiSecret ?cfg)
      \<and> default_object (data ?d) ?w = (DRef 0, ?w)
      \<and> fst (resolve_timestamp sample_env ?cfg (publicCall sample_env ?cfg) (DRef 0) (agent ?d) ?w)
          = Fulfilled ?ts"
    by (simp add: eval_client default_object_def resolve_timestamp_clock useServerTime_flag_def
          world_with_def get_def call_getTime_def)
  have msg: "message_to_sign (payload_after_delete ?w (DRef 0)) ?ts = Some ?m"
    by (simp add: eval_request eval_string)
  note thm1 = signed_request_params_and_url
      [where e = sample_env and cfg = ?cfg and d = ?d and ts = ?ts and p = ?p
         and v = "JStr ''c8db''" and w = ?w and dat = "DRef 0" and ?w0.0 = ?w and pcfg = ?cfg
         and m = ?m and url = ?url]
  have "private_url ?cfg (path ?d) (noData ?d)
             (newData_of (noExtra ?d) (payload_after_delete ?w (DRef 0)) ?ts
                (hmac_sha256_hex sample_env (str_of (apiSecret ?cfg)) ?m)) = Inr ?url"
    unfolding thm1[THEN conjunct1, of "payload_after_delete ?w (DRef 0)"
                     "hmac_sha256_hex sample_env (str_of (apiSecret ?cfg)) ?m"]
      thm1[THEN conjunct2, THEN conjunct1]
    by (simp add: eval_client eval_request eval_string)
  with thm1 hyp msg obtain pre where
    "trace (snd (privateCall sample_env ?cfg (publicCall sample_env ?cfg) ?d ?w)) =
       pre @ [Fetch \<lparr>req_url = ?url,
                      req_method = (case http_method ?d of None \<Rightarrow> ''GET'' | Some x \<Rightarrow> x),
                      req_headers = [(''X-MBX-APIKEY'', str_of (apiKey ?cfg))],
                      req_agent = agent ?d\<rparr>]"
    by blast
  then have first: "last (trace (snd (privCall sample_env sample_opts ?d ?w)))
   = Fetch \<lparr>req_url = ?url,
            req_method = ''POST'', req_headers = [(''X-MBX-APIKEY'', ''my-api-key'')],
            req_agent = JUndefined\<rparr>"
    by (simp add: eval_client descriptor_of_def)
  have wf: "well_formed ?p \<and> ''timestamp'' \<notin> set (keys ?p) \<and> ''signature'' \<notin> set (keys ?p)"
    by (simp add: well_formed_def keys_def key_precedes_def is_array_index_def)
  from thm1 wf have appended:
    "obj_set (obj_set (spread_into [] (Some ?p)) ''timestamp'' ?ts) ''signature'' (JStr ''c8db'')
     = ?p @ [(''timestamp'', ?ts), (''signature'', JStr ''c8db'')]"
    by blast
  let ?d2 = "(descriptor_of ''/v3/order'')\<lparr>noExtra := JBool True\<rparr>"
  let ?d3 = "(descriptor_of ''/v1/userDataStream'')\<lparr>noData := JBool True\<rparr>"
  have "newData_of (noExtra ?d2) (Some [(''symbol'', JStr ''BTCUSDT'')]) ?ts ''c8db''
      = Some [(''symbol'', JStr ''BTCUSDT'')]"
    using signed_request_params_and_url
            [where d = ?d2 and q = "Some [(''symbol'', JStr ''BTCUSDT'')]" and ts = ?ts
               and sg = "''c8db''", THEN conjunct1]
    by simp
  moreover have "private_url ?plain (path ?d2) (noData ?d2) (Some [(''symbol'', JStr ''BTCUSDT'')])
      = Inr ''https://api.binance.com/api/v3/order?symbol=BTCUSDT''"
    using signed_request_params_and_url
            [where cfg = ?plain and d = ?d2 and params = "Some [(''symbol'', JStr ''BTCUSDT'')]",
             THEN conjunct2, THEN conjunct1]
    by (simp add: eval_client eval_request eval_string)
  ultimately have second: "private_url ?plain ''/v3/order'' JUndefined
        (newData_of (JBool True) (Some [(''symbol'', JStr ''BTCUSDT'')]) ?ts ''c8db'')
     = Inr ''https://api.binance.com/api/v3/order?symbol=BTCUSDT''"
    by (simp add: descriptor_of_def)
  have "private_url ?plain (path ?d3) (noData ?d3) (newData_of JUndefined None ?ts ''c8db'')
      = Inr ''https://api.binance.com/api/v1/userDataStream''"
    using signed_request_params_and_url
            [where cfg = ?plain and d = ?d3 and params = "newData_of JUndefined None ?ts ''c8db''",
             THEN conjunct2, THEN conjunct1]
    by (simp add: eval_client descriptor_of_def)
  then have third: "private_url ?plain ''/v1/userDataStream'' (JBool True)
        (newData_of JUndefined None ?ts ''c8db'')
     = Inr ''https://api.binance.com/api/v1/userDataStream''"
    by (simp add: descriptor_of_def)
  from first second third wf appended show ?thesis by simp
qed

section \<open>The requests of the data-stream operations\<close>

lemma entry_replace_value_other:
  "(k', v') \<in> set q \<Longrightarrow> k' \<noteq> k \<Longrightarrow> (k', v') \<in> set (replace_value k v q)"
  by (induction k v q rule: replace_value.induct) auto

lemma entry_insert_index_other:
  "(k', v') \<in> set q \<Longrightarrow> (k', v') \<in> set (insert_index k v q)"
  by (induction k v q rule: insert_index.induct) auto

lemma entry_obj_set_other:
  "(k', v') \<in> set q \<Longrightarrow> k' \<noteq> k \<Longrightarrow> (k', v') \<in> set (obj_set q k v)"
  by (simp add: obj_set_def entry_replace_value_other entry_insert_index_other)

lemma join_includes: "x \<in> set xs \<Longrightarrow> \<exists>pre post. join sep xs = pre @ x @ post"
proof (induction sep xs rule: join.induct)
  case (1 sep)
  then show ?case by simp
next
  case (2 sep y)
  then have "join sep [y] = [] @ x @ []" by simp
  then show ?case by blast
next
  case (3 sep y z zs)
  show ?case
  proof (cases "x = y")
    case True
    then have "join sep (y # z # zs) = [] @ x @ (sep @ join sep (z # zs))" by simp
    then show ?thesis by blast
  next
    case False
    with "3.prems" have "x \<in> set (z # zs)" by simp
    from "3.IH"[OF this] obtain pre post where "join sep (z # zs) = pre @ x @ post" by blast
    then have "join sep (y # z # zs) = (y @ sep @ pre) @ x @ post" by simp
    then show ?thesis by blast
  qed
qed
lemma stream_params_keys:
  "distinct (keys (stream_params q ts sg))"
  "(''timestamp'', ts) \<in> set (stream_params q ts sg)"
  "(''signature'', JStr sg) \<in> set (stream_params q ts sg)"
  "get (stream_params q ts sg) ''timestamp'' = ts"
proof -
  show "distinct (keys (stream_params q ts sg))"
    unfolding stream_params_def by (rule distinct_signed_params(2))
  show "(''timestamp'', ts) \<in> set (stream_params q ts sg)"
    unfolding stream_params_def by (rule entry_obj_set_other) (simp_all add: entry_obj_set)
  show "(''signature'', JStr sg) \<in> set (stream_params q ts sg)"
    unfolding stream_params_def by (rule entry_obj_set)
  show "get (stream_params q ts sg) ''timestamp'' = ts"
    by (simp add: stream_params_def get_obj_set)
qed

lemma stream_request_includes:
  assumes "(k, v) \<in> set (stream_params q ts sg)" and "truthy v"
  shows "includes_str (req_url (stream_request cfg p m ag q ts sg)) (render_pair (k, v))"
proof -
  from assms have "render_pair (k, v) \<in> set (map render_pair (rendered (stream_params q ts sg)))"
    by (force simp: rendered_def)
  from join_includes[OF this, of "''&''"] obtain pre post where
    "join ''&'' (map render_pair (rendered (stream_params q ts sg))) = pre @ render_pair (k, v) @ post"
    by blast
  then have "req_url (stream_request cfg p m ag q ts sg)
      = (base cfg @ ''/'' @ apiPathBase cfg @ p @ ''?'' @ pre) @ render_pair (k, v) @ post"
    by (simp add: stream_request_def)
  then show ?thesis unfolding includes_str_iff by blast
qed

lemma stream_request_includes_timestamp:
  assumes "truthy ts"
  shows "includes_str (req_url (stream_request cfg p m ag q ts sg))
           (''timestamp='' @ encodeURIComponent (string_of ts))"
  using stream_request_includes[OF stream_params_keys(2) assms, of cfg p m ag q sg]
  by (simp add: render_pair_def encodeURIComponent_def encode_char_def uri_unreserved_def)

lemma stream_request_includes_signature:
  assumes "sg \<noteq> []"
  shows "includes_str (req_url (stream_request cfg p m ag q ts sg))
           (''signature='' @ encodeURIComponent sg)"
proof -
  have "truthy (JStr sg)" using assms by simp
  from stream_request_includes[OF stream_params_keys(3) this, of cfg p m ag q ts]
  show ?thesis
    by (simp add: render_pair_def string_of_def encodeURIComponent_def encode_char_def
          uri_unreserved_def)
qed

lemma falsy_timestamp_not_rendered:
  assumes "\<not> truthy ts"
  shows "''timestamp'' \<notin> set (keys (rendered (stream_params q ts sg)))"
proof
  assume "''timestamp'' \<in> set (keys (rendered (stream_params q ts sg)))"
  then obtain v where v: "(''timestamp'', v) \<in> set (stream_params q ts sg)" "truthy v"
    by (auto simp: keys_def rendered_def)
  from get_of_entry[OF stream_params_keys(1) v(1)] have "v = ts"
    by (simp add: stream_params_keys(4))
  with v(2) assms show False by simp
qed

lemma sign_and_send_ignores_noExtraData:
  "sign_and_send e cfg (d\<lparr>noExtraData := x\<rparr>) dat ts w = sign_and_send e cfg d dat ts w"
  by (simp add: sign_and_send_def Let_def cong: sum.case_cong)

lemma privateCall_ignores_noExtraData:
  "privateCall e cfg pc (d\<lparr>noExtraData := x\<rparr>) w = privateCall e cfg pc d w"
  by (simp add: privateCall_def sign_and_send_ignores_noExtraData
        split: prod.splits completion.splits)

lemma message_to_sign_rendered:
  "message_to_sign q ts = Some m \<Longrightarrow>
   \<exists>s. makeQueryString (Some (obj_set (spread_into [] q) ''timestamp'' ts)) = Inr s"
  by (auto simp: message_to_sign_def split: sum.splits)

lemma signed_request_stream:
  assumes "message_to_sign q ts = Some msg"
    and "\<not> includes_str p ''/wapi''" "\<not> includes_str p ''/sapi''"
  shows "signed_request e cfg (stream_descriptor p m payload ag) q ts msg
         = Some (stream_request cfg p m ag q ts (hmac_sha256_hex e (str_of (apiSecret cfg)) msg))"
proof -
  from message_to_sign_rendered[OF assms(1)] obtain s where
    "makeQueryString (Some (obj_set (spread_into [] q) ''timestamp'' ts)) = Inr s" by blast
  from signed_params_render[OF this, of "hmac_sha256_hex e (str_of (apiSecret cfg)) msg"] assms(2,3)
  show ?thesis
    by (simp add: signed_request_def final_params_def stream_request_def stream_params_def
          stream_descriptor_def descriptor_of_def)
qed

lemma stream_run:
  assumes "\<not> not_given (apiKey cfg)" "\<not> not_given (apiSecret cfg)"
    and "default_object payload w = (dat, w0)"
    and "fst (resolve_timestamp e cfg (publicCall e pcfg) dat ag w0) = Fulfilled ts"
    and "message_to_sign (payload_after_delete w0 dat) ts = Some msg"
    and "\<not> includes_str p ''/wapi''" "\<not> includes_str p ''/sapi''"
  shows "\<exists>pre. trace (snd (privateCall e cfg (publicCall e pcfg) (stream_descriptor p m payload ag) w))
           = pre @ [Fetch (stream_request cfg p m ag (payload_after_delete w0 dat) ts
                             (hmac_sha256_hex e (str_of (apiSecret cfg)) msg))]"
proof -
  let ?d = "stream_descriptor p m payload ag"
  have d: "data ?d = payload" "agent ?d = ag"
    by (simp_all add: stream_descriptor_def descriptor_of_def)
  obtain w1 where "resolve_timestamp e cfg (publicCall e pcfg) dat (agent ?d) w0 = (Fulfilled ts, w1)"
    using assms(4) d by (cases "resolve_timestamp e cfg (publicCall e pcfg) dat ag w0") simp
  from privateCall_trace(1)[OF assms(1,2) _ this] assms(3) d
  have "trace (snd (privateCall e cfg (publicCall e pcfg) ?d w)) =
          (trace w1 @ [Signed (str_of (apiSecret cfg)) msg])
          @ [Fetch (stream_request cfg p m ag (payload_after_delete w0 dat) ts
                      (hmac_sha256_hex e (str_of (apiSecret cfg)) msg))]"
    by (simp add: signing_events_def assms(5) signed_request_stream[OF assms(5,6,7)])
  then show ?thesis by blast
qed

text \<open>
  \<^bold>\<open>C10\<close>, as the code has it. The private caller does not read \<open>noExtraData\<close>: whatever
  that option holds, the call is the same. The four data-stream operations pass
  \<open>noExtraData\<close> and leave \<open>noExtra\<close> undefined, so timestamp and signature are not
  suppressed: with the credentials given, the timestamp resolved and the message
  rendered, the request each of them issues last is the stream request, whose query
  string renders the payload with \<open>timestamp\<close> and \<open>signature\<close> defined on it. These
  final parameters always hold both keys. The query string contains \<open>signature=...\<close> for
  every non-empty digest, and \<open>timestamp=...\<close> for every truthy timestamp; a falsy
  timestamp is not among the pairs that are rendered.
\<close>

theorem data_stream_requests_stay_signed:
  "privateCall e cfg pc (d\<lparr>noExtraData := x\<rparr>) w = privateCall e cfg pc d w
   \<and> noExtra (stream_descriptor p m payload ag) = JUndefined
   \<and> (\<not> not_given (apiKey os) \<and> \<not> not_given (apiSecret os)
        \<and> default_object payload w = (dat, w0) \<longrightarrow>
        (\<forall>ts msg. fst (resolve_timestamp e (config_of os (spot_base os) API_PATH_BASE) (pubCall e os)
                         dat ag w0) = Fulfilled ts
                 \<and> message_to_sign (payload_after_delete w0 dat) ts = Some msg \<longrightarrow>
           (\<exists>pre. trace (snd (keepDataStream e os payload ag w)) =
                   pre @ [Fetch (stream_request (config_of os (spot_base os) API_PATH_BASE)
                                   ''/v1/userDataStream'' ''PUT'' ag (payload_after_delete w0 dat) ts
                                   (hmac_sha256_hex e (str_of (apiSecret os)) msg))])
           \<and> (\<exists>pre. trace (snd (closeDataStream e os payload ag w)) =
                   pre @ [Fetch (stream_request (config_of os (spot_base os) API_PATH_BASE)
                                   ''/v1/userDataStream'' ''DELETE'' ag (payload_after_delete w0 dat) ts
                                   (hmac_sha256_hex e (str_of (apiSecret os)) msg))]))
        \<and> (\<forall>ts msg. fst (resolve_timestamp e (config_of os (future_base os) FUTURES_API_PATH_BASE)
                           (futuresPubCall e os) dat ag w0) = Fulfilled ts
                   \<and> message_to_sign (payload_after_delete w0 dat) ts = Some msg \<longrightarrow>
           (\<exists>pre. trace (snd (futuresKeepUserDataStream e os payload ag w)) =
                   pre @ [Fetch (stream_request (config_of os (future_base os) FUTURES_API_PATH_BASE)
                                   ''/v1/listenKey'' ''PUT'' ag (payload_after_delete w0 dat) ts
                                   (hmac_sha256_hex e (str_of (apiSecret os)) msg))])
           \<and> (\<exists>pre. trace (snd (futuresCloseUserDataStream e os payload ag w)) =
                   pre @ [Fetch (stream_request (config_of os (future_base os) FUTURES_API_PATH_BASE)
                                   ''/v1/listenKey'' ''DELETE'' ag (payload_after_delete w0 dat) ts
                                   (hmac_sha256_hex e (str_of (apiSecret os)) msg))])))
   \<and> (''timestamp'', t) \<in> set (stream_params q t sg)
   \<and> (''signature'', JStr sg) \<in> set (stream_params q t sg)
   \<and> (\<forall>s. truthy t \<and> ToString t = Some s \<longrightarrow>
        includes_str (req_url (stream_request cfg p m ag q t sg))
          (''timestamp='' @ encodeURIComponent s))
   \<and> (\<not> truthy t \<longrightarrow>
        ''timestamp'' \<notin> set (keys (filter (\<lambda>x. truthy (snd x)) (stream_params q t sg))))
   \<and> (sg \<noteq> [] \<longrightarrow>
        includes_str (req_url (stream_request cfg p m ag q t sg))
          (''signature='' @ encodeURIComponent sg))"
proof -
  let ?spot = "config_of os (spot_base os) API_PATH_BASE"
  let ?fut = "config_of os (future_base os) FUTURES_API_PATH_BASE"
  have paths: "\<not> includes_str ''/v1/userDataStream'' ''/wapi''"
    "\<not> includes_str ''/v1/userDataStream'' ''/sapi''"
    "\<not> includes_str ''/v1/listenKey'' ''/wapi''" "\<not> includes_str ''/v1/listenKey'' ''/sapi''"
    by simp_all
  have creds: "apiKey ?spot = apiKey os" "apiSecret ?spot = apiSecret os"
    "apiKey ?fut = apiKey os" "apiSecret ?fut = apiSecret os"
    by (simp_all add: config_of_def)
  have spot: "\<exists>pre. trace (snd (privCall e os (stream_descriptor ''/v1/userDataStream'' m' payload ag) w)) =
        pre @ [Fetch (stream_request ?spot ''/v1/userDataStream'' m' ag (payload_after_delete w0 dat) ts
                        (hmac_sha256_hex e (str_of (apiSecret os)) msg))]"
    if "\<not> not_given (apiKey os)" "\<not> not_given (apiSecret os)"
      "default_object payload w = (dat, w0)"
      "fst (resolve_timestamp e ?spot (pubCall e os) dat ag w0) = Fulfilled ts"
      "message_to_sign (payload_after_delete w0 dat) ts = Some msg" for m' ts msg
    using stream_run[of ?spot payload w dat w0 e ?spot ag ts msg "''/v1/userDataStream''" m'] that paths
    by (simp add: privCall_def pubCall_def creds)
  have fut: "\<exists>pre. trace (snd (futuresPrivCall e os (stream_descriptor ''/v1/listenKey'' m' payload ag) w)) =
        pre @ [Fetch (stream_request ?fut ''/v1/listenKey'' m' ag (payload_after_delete w0 dat) ts
                        (hmac_sha256_hex e (str_of (apiSecret os)) msg))]"
    if "\<not> not_given (apiKey os)" "\<not> not_given (apiSecret os)"
      "default_object payload w = (dat, w0)"
      "fst (resolve_timestamp e ?fut (futuresPubCall e os) dat ag w0) = Fulfilled ts"
      "message_to_sign (payload_after_delete w0 dat) ts = Some msg" for m' ts msg
    using stream_run[of ?fut payload w dat w0 e ?fut ag ts msg "''/v1/listenKey''" m'] that paths
    by (simp add: futuresPrivCall_def futuresPubCall_def creds)
  have nx: "noExtra (stream_descriptor p m payload ag) = JUndefined"
    by (simp add: stream_descriptor_def descriptor_of_def)
  show ?thesis
    unfolding keepDataStream_def closeDataStream_def futuresKeepUserDataStream_def
      futuresCloseUserDataStream_def
  proof (intro conjI impI allI, goal_cases)
    case 1
    show ?case by (rule privateCall_ignores_noExtraData)
  next
    case 2
    show ?case by (rule nx)
  next
    case (3 ts msg)
    then show ?case using spot[of ts msg "''PUT''"] by simp
  next
    case (4 ts msg)
    then show ?case using spot[of ts msg "''DELETE''"] by simp
  next
    case (5 ts msg)
    then show ?case using fut[of ts msg "''PUT''"] by simp
  next
    case (6 ts msg)
    then show ?case using fut[of ts msg "''DELETE''"] by simp
  next
    case 7
    show ?case by (rule stream_params_keys(2))
  next
    case 8
    show ?case by (rule stream_params_keys(3))
  next
    case (9 s)
    then show ?case
      using stream_request_includes_timestamp[of t cfg p m ag q sg] by (simp add: string_of_def)
  next
    case 10
    then show ?case using falsy_timestamp_not_rendered[of t q sg] by (simp add: rendered_def)
  next
    case 11
    then show ?case by (rule stream_request_includes_signature)
  qed
qed

text \<open>
  Keeping a spot stream alive and closing a futures stream, on the sample clock; the
  two pairs in a query string; and the pairs rendered for a timestamp of zero.
\<close>

theorem data_stream_requests_stay_signed_witness:
  "last (trace (snd (keepDataStream sample_env sample_opts (DRef 0) JUndefined
       (world_with [(''listenKey'', JStr ''abc'')]))))
   = Fetch \<lparr>req_url = ''https://api.binance.com/api/v1/userDataStream?listenKey=abc&timestamp=1500000000000&signature=56793b06a8060647fd1277ca86eb450ffddb0f091f43ce4c5e6a9ced4f769d76'',
            req_method = ''PUT'', req_headers = [(''X-MBX-APIKEY'', ''my-api-key'')],
            req_agent = JUndefined\<rparr>
   \<and> last (trace (snd (futuresCloseUserDataStream sample_env sample_opts DUndefined JUndefined
       (world_with []))))
   = Fetch \<lparr>req_url = ''https://fapi.binance.com/fapi/v1/listenKey?timestamp=1500000000000&signature=c75b4edd960db2a4042b99ac81f8691abcb874f71d6ff7522606320b306df901'',
            req_method = ''DELETE'', req_headers = [(''X-MBX-APIKEY'', ''my-api-key'')],
            req_agent = JUndefined\<rparr>
   \<and> includes_str
       (req_url (stream_request (config_of sample_opts BASE API_PATH_BASE)
          ''/v1/userDataStream'' ''PUT'' JUndefined None (JNum 1500000000000)
          ''c75b4edd960db2a4042b99ac81f8691abcb874f71d6ff7522606320b306df901''))
       ''timestamp=1500000000000''
   \<and> includes_str
       (req_url (stream_request (config_of sample_opts BASE API_PATH_BASE)
          ''/v1/userDataStream'' ''PUT'' JUndefined None (JNum 1500000000000)
          ''c75b4edd960db2a4042b99ac81f8691abcb874f71d6ff7522606320b306df901''))
       ''signature=c75b4edd960db2a4042b99ac81f8691abcb874f71d6ff7522606320b306df901''
   \<and> ''timestamp'' \<notin> set (keys (filter (\<lambda>x. truthy (snd x))
         (stream_params (Some [(''listenKey'', JStr ''abc'')]) (JNum 0)
            ''27bb92252cf47a1f9a52fd0547b620bd0f4cb19d8d6c1a9853a74349955863f8'')))"
proof -
  let ?spot = "config_of sample_opts (spot_base sample_opts) API_PATH_BASE"
  let ?fut = "config_of sample_opts (future_base sample_opts) FUTURES_API_PATH_BASE"
  let ?w = "world_with [(''listenKey'', JStr ''abc'')]"
  let ?w' = "(world_with [])\<lparr>heap := (heap (world_with []))(1 := []), next_ref := 2\<rparr>"
  let ?ts = "JNum 1500000000000"
  let ?sg = "''c75b4edd960db2a4042b99ac81f8691abcb874f71d6ff7522606320b306df901''"
  have creds: "\<not> not_given (apiKey sample_opts) \<and> \<not> not_given (apiSecret sample_opts)"
    by (simp add: sample_opts_def not_given_def)
  have d1: "default_object (DRef 0) ?w = (DRef 0, ?w)"
    and d2: "default_object DUndefined (world_with []) = (DRef 1, ?w')"
    by (simp_all add: default_object_def alloc_def world_with_def)
  have r1: "fst (resolve_timestamp sample_env ?spot (pubCall sample_env sample_opts) (DRef 0) JUndefined ?w)
      = Fulfilled ?ts"
    and r2: "fst (resolve_timestamp sample_env ?fut (futuresPubCall sample_env sample_opts) (DRef 1)
               JUndefined ?w') = Fulfilled ?ts"
    by (simp_all add: resolve_timestamp_clock useServerTime_flag_def world_with_def get_def
          call_getTime_def eval_client)
  have m1: "message_to_sign (payload_after_delete ?w (DRef 0)) ?ts
      = Some ''listenKey=abc&timestamp=1500000000000''"
    and m2: "message_to_sign (payload_after_delete ?w' (DRef 1)) ?ts = Some ''timestamp=1500000000000''"
    by (simp_all add: eval_request eval_string)
  note thm1 = data_stream_requests_stay_signed
      [where os = sample_opts and payload = "DRef 0" and w = ?w and dat = "DRef 0" and ?w0.0 = ?w
         and e = sample_env and ag = JUndefined]
  note thm2 = data_stream_requests_stay_signed
      [where os = sample_opts and payload = DUndefined and w = "world_with []" and dat = "DRef 1"
         and ?w0.0 = ?w' and e = sample_env and ag = JUndefined]
  from thm1 creds d1 r1 m1 obtain pre where
    "trace (snd (keepDataStream sample_env sample_opts (DRef 0) JUndefined ?w)) =
       pre @ [Fetch (stream_request ?spot ''/v1/userDataStream'' ''PUT'' JUndefined
                       (payload_after_delete ?w (DRef 0)) ?ts
                       (hmac_sha256_hex sample_env (str_of (apiSecret sample_opts))
                          ''listenKey=abc&timestamp=1500000000000''))]"
    by blast
  then have first: "last (trace (snd (keepDataStream sample_env sample_opts (DRef 0) JUndefined ?w)))
   = Fetch \<lparr>req_url = ''https://api.binance.com/api/v1/userDataStream?listenKey=abc&timestamp=1500000000000&signature=56793b06a8060647fd1277ca86eb450ffddb0f091f43ce4c5e6a9ced4f769d76'',
            req_method = ''PUT'', req_headers = [(''X-MBX-APIKEY'', ''my-api-key'')],
            req_agent = JUndefined\<rparr>"
    by (simp add: stream_request_def stream_params_def eval_client eval_request eval_string)
  from thm2 creds d2 r2 m2 obtain pre' where
    "trace (snd (futuresCloseUserDataStream sample_env sample_opts DUndefined JUndefined (world_with []))) =
       pre' @ [Fetch (stream_request ?fut ''/v1/listenKey'' ''DELETE'' JUndefined
                       (payload_after_delete ?w' (DRef 1)) ?ts
                       (hmac_sha256_hex sample_env (str_of (apiSecret sample_opts))
                          ''timestamp=1500000000000''))]"
    by blast
  then have second: "last (trace (snd (futuresCloseUserDataStream sample_env sample_opts DUndefined
        JUndefined (world_with []))))
   = Fetch \<lparr>req_url = ''https://fapi.binance.com/fapi/v1/listenKey?timestamp=1500000000000&signature=c75b4edd960db2a4042b99ac81f8691abcb874f71d6ff7522606320b306df901'',
            req_method = ''DELETE'', req_headers = [(''X-MBX-APIKEY'', ''my-api-key'')],
            req_agent = JUndefined\<rparr>"
    by (simp add: stream_request_def stream_params_def eval_client eval_request eval_string)
  let ?plain = "config_of sample_opts BASE API_PATH_BASE"
  note thm3 = data_stream_requests_stay_signed
      [where cfg = ?plain and p = "''/v1/userDataStream''" and m = "''PUT''"
         and ag = JUndefined and q = None and t = ?ts and sg = ?sg]
  have nonempty: "truthy ?ts \<and> ToString ?ts = Some ''1500000000000'' \<and> ?sg \<noteq> []"
    by (simp add: eval_string)
  from thm3 nonempty have
    "includes_str (req_url (stream_request ?plain ''/v1/userDataStream'' ''PUT'' JUndefined None ?ts ?sg))
       (''timestamp='' @ encodeURIComponent ''1500000000000'')
     \<and> includes_str (req_url (stream_request ?plain ''/v1/userDataStream'' ''PUT'' JUndefined None ?ts ?sg))
       (''signature='' @ encodeURIComponent ?sg)"
    by blast
  moreover have "''timestamp='' @ encodeURIComponent ''1500000000000'' = ''timestamp=1500000000000''"
    by (simp add: eval_string)
  moreover have "''signature='' @ encodeURIComponent ?sg
      = ''signature=c75b4edd960db2a4042b99ac81f8691abcb874f71d6ff7522606320b306df901''"
    by (simp add: eval_string)
  ultimately have third: "includes_str
       (req_url (stream_request ?plain ''/v1/userDataStream'' ''PUT'' JUndefined None ?ts ?sg))
       ''timestamp=1500000000000''
   \<and> includes_str
       (req_url (stream_request ?plain ''/v1/userDataStream'' ''PUT'' JUndefined None ?ts ?sg))
       ''signature=c75b4edd960db2a4042b99ac81f8691abcb874f71d6ff7522606320b306df901''"
    by (simp only:)
  note thm4 = data_stream_requests_stay_signed
      [where q = "Some [(''listenKey'', JStr ''abc'')]" and t = "JNum 0"
         and sg = "''27bb92252cf47a1f9a52fd0547b620bd0f4cb19d8d6c1a9853a74349955863f8''"]
  have "\<not> truthy (JNum 0)" by simp
  with thm4 have fourth: "''timestamp'' \<notin> set (keys (filter (\<lambda>x. truthy (snd x))
         (stream_params (Some [(''listenKey'', JStr ''abc'')]) (JNum 0)
            ''27bb92252cf47a1f9a52fd0547b620bd0f4cb19d8d6c1a9853a74349955863f8'')))"
    by blast
  from first second third fourth show ?thesis by simp
qed

text \<open>
  Against \<^bold>\<open>C10\<close> as stated (``for every such invocation the issued request's query string
  still includes the appended timestamp and signature''): with a configured clock that
  reads \<open>0\<close>, the request to keep a spot stream alive is signed and carries its signature,
  but no timestamp, because the query encoder drops the falsy value.
\<close>

theorem data_stream_zero_clock_drops_timestamp:
  "last (trace (snd (keepDataStream sample_env (sample_opts\<lparr>getTime := Some zero_clock\<rparr>)
       (DRef 0) JUndefined (world_with [(''listenKey'', JStr ''abc'')]))))
   = Fetch \<lparr>req_url = ''https://api.binance.com/api/v1/userDataStream?listenKey=abc&signature=27bb92252cf47a1f9a52fd0547b620bd0f4cb19d8d6c1a9853a74349955863f8'',
            req_method = ''PUT'', req_headers = [(''X-MBX-APIKEY'', ''my-api-key'')],
            req_agent = JUndefined\<rparr>"
proof -
  let ?os = "sample_opts\<lparr>getTime := Some zero_clock\<rparr>"
  let ?cfg = "config_of ?os (spot_base ?os) API_PATH_BASE"
  let ?w = "world_with [(''listenKey'', JStr ''abc'')]"
  have creds: "\<not> not_given (apiKey ?cfg)" "\<not> not_given (apiSecret ?cfg)"
    by (simp_all add: eval_client)
  have d: "default_object (DRef 0) ?w = (DRef 0, ?w)"
    by (simp add: default_object_def)
  have r: "fst (resolve_timestamp sample_env ?cfg (publicCall sample_env ?cfg) (DRef 0) JUndefined ?w)
      = Fulfilled (JNum 0)"
    by (simp add: resolve_timestamp_clock useServerTime_flag_def world_with_def get_def
          call_getTime_def eval_client zero_clock_def)
  have m: "message_to_sign (payload_after_delete ?w (DRef 0)) (JNum 0) = Some ''listenKey=abc''"
    by (simp add: eval_request eval_string)
  have paths: "\<not> includes_str ''/v1/userDataStream'' ''/wapi''"
    "\<not> includes_str ''/v1/userDataStream'' ''/sapi''"
    by simp_all
  from stream_run[OF creds d r m paths, of "''PUT''"] obtain pre where
    "trace (snd (privateCall sample_env ?cfg (publicCall sample_env ?cfg)
        (stream_descriptor ''/v1/userDataStream'' ''PUT'' (DRef 0) JUndefined) ?w))
     = pre @ [Fetch (stream_request ?cfg ''/v1/userDataStream'' ''PUT'' JUndefined
                       (payload_after_delete ?w (DRef 0)) (JNum 0)
                       (hmac_sha256_hex sample_env (str_of (apiSecret ?cfg)) ''listenKey=abc''))]"
    by blast
  then show ?thesis
    by (simp add: keepDataStream_def stream_request_def stream_params_def eval_client eval_request
          eval_string)
qed

section \<open>The validation of a futures order\<close>

lemma get_Nil: "get [] k = JUndefined"
  by (simp add: get_def)

lemma get_Cons: "get ((k', v') # ps) k = (if k = k' then v' else get ps k)"
  by (simp add: get_def)

lemma get_absent: "k \<notin> set (keys q) \<Longrightarrow> get q k = JUndefined"
proof -
  assume "k \<notin> set (keys q)"
  then have "map_of q k = None" by (simp add: keys_def map_of_eq_None_iff)
  then show ?thesis by (simp add: get_def)
qed

lemma get_define_all:
  "distinct (keys ps) \<Longrightarrow>
   get (define_all t ps) k = (if k \<in> set (keys ps) then get ps k else get t k)"
proof (induction t ps rule: define_all.induct)
  case (1 target)
  then show ?case by (simp add: keys_def)
next
  case (2 target k' v' ps)
  from "2.prems" have d: "distinct (keys ps)" and fresh: "k' \<notin> set (keys ps)"
    by (simp_all add: keys_def)
  from "2.IH"[OF d] fresh show ?case
    by (auto simp: get_obj_set get_Cons keys_def)
qed

lemma get_order_copy:
  "distinct (keys p) \<Longrightarrow> k \<noteq> ''timeInForce'' \<Longrightarrow>
   get (spread_into [(''timeInForce'', JStr ''GTC'')] (Some p)) k = get p k"
proof -
  assume d: "distinct (keys p)" and k: "k \<noteq> ''timeInForce''"
  have "k \<notin> set (keys p) \<Longrightarrow> get p k = JUndefined"
    by (rule get_absent)
  with k show ?thesis
    by (simp add: spread_into_def get_define_all[OF d] get_Cons get_Nil)
qed

text \<open>
  A payload without a \<open>type\<close> never gets as far as the caller: the copy that is validated
  was made before the default type was assigned to the caller's payload, so the
  validation misses \<open>type\<close>, whatever else the payload holds. The caller's own payload
  is changed all the same.
\<close>

lemma futuresOrder_without_type:
  assumes "distinct (keys (heap w a))" and "''type'' \<notin> set (keys (heap w a))"
    and "a \<noteq> next_ref w"
    and "\<not> param_missing (get (heap w a) ''symbol'')"
    and "\<not> param_missing (get (heap w a) ''side'')"
  shows "futuresOrder call (DRef a) url ag w =
           (Thrown (new_Error ''Method futuresOrder requires type parameter.''),
            w\<lparr>heap := (heap w)
                 (next_ref w := spread_into [(''timeInForce'', JStr ''GTC'')] (Some (heap w a)),
                  a := heap w a @ [(''type'', JStr ''LIMIT'')]),
              next_ref := Suc (next_ref w)\<rparr>)"
proof -
  let ?copy = "spread_into [(''timeInForce'', JStr ''GTC'')] (Some (heap w a))"
  have ty: "get (heap w a) ''type'' = JUndefined"
    using assms(2) by (rule get_absent)
  have copy: "get ?copy ''symbol'' = get (heap w a) ''symbol''"
    "get ?copy ''side'' = get (heap w a) ''side''" "get ?copy ''type'' = JUndefined"
    using get_order_copy[OF assms(1)] ty by simp_all
  have set_type: "obj_set (heap w a) ''type'' (JStr ''LIMIT'') = heap w a @ [(''type'', JStr ''LIMIT'')]"
    using assms(2) by (simp add: obj_set_def is_array_index_def)
  have check: "checkParams ''futuresOrder'' (Some ?copy) (Some (futuresOrder_requires (JStr ''LIMIT'')))
      = Inl (new_Error ''Method futuresOrder requires type parameter.'')"
    using assms(4,5) copy
    by (simp add: checkParams_def futuresOrder_requires_def param_missing_def)
  have ty2: "get (heap w a @ [(''type'', JStr ''LIMIT'')]) ''type'' = JStr ''LIMIT''"
    using get_obj_set[of "heap w a" "''type''" "JStr ''LIMIT''" "''type''"] set_type by simp
  show ?thesis
    using assms(3) ty ty2 set_type check
    by (simp add: futuresOrder_def default_object_def alloc_def resolve_def Let_def
          fun_upd_twist)
qed

text \<open>
  \<^bold>\<open>C8\<close>, on the documented scenario. The wrapper called with symbol, side and quantity and
  no type throws the validator's error about \<open>type\<close>, not about \<open>price\<close>; it throws the
  same error when a price is given. The type \<open>LIMIT\<close> went into the caller's payload (at
  address 0), the time in force \<open>GTC\<close> into the copy that was validated (at address 1);
  neither object holds both.
\<close>

theorem futuresOrder_without_type_fails_on_type:
  "client_futuresOrder sample_env sample_opts (DRef 0) JUndefined
     (world_with [(''symbol'', JStr ''BTCUSDT''), (''side'', JStr ''BUY''), (''quantity'', JNum 1)])
   = (Thrown (new_Error ''Method futuresOrder requires type parameter.''),
      \<lparr>heap = (\<lambda>a. [])
         (0 := [(''symbol'', JStr ''BTCUSDT''), (''side'', JStr ''BUY''), (''quantity'', JNum 1),
                (''type'', JStr ''LIMIT'')],
          1 := [(''timeInForce'', JStr ''GTC''), (''symbol'', JStr ''BTCUSDT''),
                (''side'', JStr ''BUY''), (''quantity'', JNum 1)]),
       next_ref = 2, trace = []\<rparr>)
   \<and> fst (client_futuresOrder sample_env sample_opts (DRef 0) JUndefined
       (world_with [(''symbol'', JStr ''BTCUSDT''), (''side'', JStr ''BUY''), (''quantity'', JNum 1),
                    (''price'', JNum 9000)]))
     = Thrown (new_Error ''Method futuresOrder requires type parameter.'')"
proof -
  let ?p = "[(''symbol'', JStr ''BTCUSDT''), (''side'', JStr ''BUY''), (''quantity'', JNum 1)]"
  let ?p' = "?p @ [(''price'', JNum 9000)]"
  have "futuresOrder (futuresPrivCall sample_env sample_opts) (DRef 0) ''/v1/order'' JUndefined (world_with ?p)
      = (Thrown (new_Error ''Method futuresOrder requires type parameter.''),
         (world_with ?p)\<lparr>heap := (heap (world_with ?p))
                 (next_ref (world_with ?p) := spread_into [(''timeInForce'', JStr ''GTC'')] (Some (heap (world_with ?p) 0)),
                  0 := heap (world_with ?p) 0 @ [(''type'', JStr ''LIMIT'')]),
              next_ref := Suc (next_ref (world_with ?p))\<rparr>)"
    by (rule futuresOrder_without_type)
       (simp_all add: world_with_def keys_def get_def param_missing_def)
  then have first: "client_futuresOrder sample_env sample_opts (DRef 0) JUndefined (world_with ?p)
   = (Thrown (new_Error ''Method futuresOrder requires type parameter.''),
      \<lparr>heap = (\<lambda>a. [])
         (0 := ?p @ [(''type'', JStr ''LIMIT'')],
          1 := (''timeInForce'', JStr ''GTC'') # ?p),
       next_ref = 2, trace = []\<rparr>)"
    by (simp add: client_futuresOrder_def world_with_def spread_into_def obj_set_def keys_def
          is_array_index_def fun_upd_twist)
  have "futuresOrder (futuresPrivCall sample_env sample_opts) (DRef 0) ''/v1/order'' JUndefined (world_with ?p')
      = (Thrown (new_Error ''Method futuresOrder requires type parameter.''),
         (world_with ?p')\<lparr>heap := (heap (world_with ?p'))
                 (next_ref (world_with ?p') := spread_into [(''timeInForce'', JStr ''GTC'')] (Some (heap (world_with ?p') 0)),
                  0 := heap (world_with ?p') 0 @ [(''type'', JStr ''LIMIT'')]),
              next_ref := Suc (next_ref (world_with ?p'))\<rparr>)"
    by (rule futuresOrder_without_type)
       (simp_all add: world_with_def keys_def get_def param_missing_def)
  then have second: "fst (client_futuresOrder sample_env sample_opts (DRef 0) JUndefined (world_with ?p'))
     = Thrown (new_Error ''Method futuresOrder requires type parameter.'')"
    by (simp add: client_futuresOrder_def)
  from first second show ?thesis by simp
qed

end
